(* ===== verification/Prelude.thy ===== *)
theory Prelude
  imports
    Complex_Main
    "HOL-Library.Multiset"
    "HOL-Library.Sublist"
    "HOL-Library.Char_ord"
    "HOL-Library.List_Lexorder"
    "HOL-Library.Product_Lexorder"
begin

text \<open>
  Shared vocabulary of the development: the errors the dashboard script can raise, the
  result type that carries them, the collections of facts the component theories add to,
  and the list lemmas that more than one component needs.

  The imports fix the orders used by \<^verbatim>\<open>ORDER BY\<close>: characters are compared by
  their code (\<open>Char_ord\<close>), strings lexicographically (\<open>List_Lexorder\<close>) and
  multi-column keys lexicographically as tuples (\<open>Product_Lexorder\<close>).
\<close>

section \<open>Errors and results\<close>

text \<open>
  The exceptions that can leave a function of \<^verbatim>\<open>src/3.streamlit.py\<close>:
  \<^item> \<open>ConnectError\<close>: \<^verbatim>\<open>mysql.connector.connect\<close> fails (server unreachable, bad
    credentials);
  \<^item> \<open>DatabaseError\<close>: \<^verbatim>\<open>pd.read_sql\<close> fails while the statement executes;
  \<^item> \<open>TypeError\<close>: \<^verbatim>\<open>int(None)\<close>, which is what \<^verbatim>\<open>int(df[..][0])\<close> is when an
    aggregate is \<^verbatim>\<open>NULL\<close>;
  \<^item> \<open>ValueError\<close>: \<^verbatim>\<open>int(s)\<close> for a string that is not an integer literal;
  \<^item> \<open>KeyError\<close>: a column or a row label that the frame does not have;
  \<^item> \<open>NameError\<close>: a variable that no branch has assigned.
  Streamlit stops the script run at the first uncaught exception, so a failing step is a
  value \<open>Inl e\<close> and every later step is skipped.
\<close>

datatype error = ConnectError | DatabaseError | TypeError | ValueError | KeyError | NameError

type_synonym 'a result = "error + 'a"

definition bind_result :: "'a result \<Rightarrow> ('a \<Rightarrow> 'b result) \<Rightarrow> 'b result" where
  "bind_result r f = (case r of Inl e \<Rightarrow> Inl e | Inr x \<Rightarrow> f x)"

definition is_ok :: "'a result \<Rightarrow> bool" where
  "is_ok r = (case r of Inl _ \<Rightarrow> False | Inr _ \<Rightarrow> True)"

text \<open>
  One statement of the script after another, over a state: the second runs in the state
  the first left, unless the first raised.
\<close>

definition and_then :: "'a result \<times> 's \<Rightarrow> ('a \<Rightarrow> 's \<Rightarrow> 'b result \<times> 's) \<Rightarrow> 'b result \<times> 's" where
  "and_then m f = (case m of (Inl e, s) \<Rightarrow> (Inl e, s) | (Inr x, s) \<Rightarrow> f x s)"

section \<open>Fact collections\<close>

named_theorems sql_defs "definitions of the SQL combinators and of the catalogue's queries"
named_theorems wf_simps "well-formedness facts, usable as simplification rules"

section \<open>Results\<close>

lemma bind_result_Inl [simp]: "bind_result (Inl e) f = Inl e"
  by (simp add: bind_result_def)

lemma bind_result_Inr [simp]: "bind_result (Inr x) f = f x"
  by (simp add: bind_result_def)

lemma and_then_simps [simp]:
  "and_then (Inl e, s) f = (Inl e, s)" "and_then (Inr x, s) f = f x s"
  by (simp_all add: and_then_def)

lemma bind_result_eq_Inr_iff:
  "bind_result r f = Inr y \<longleftrightarrow> (\<exists>x. r = Inr x \<and> f x = Inr y)"
  by (cases r) simp_all

lemma bind_result_eq_Inl_iff:
  "bind_result r f = Inl e \<longleftrightarrow> r = Inl e \<or> (\<exists>x. r = Inr x \<and> f x = Inl e)"
  by (cases r) simp_all

lemma is_ok_simps [simp]: "is_ok (Inr x)" "\<not> is_ok (Inl e)"
  by (simp_all add: is_ok_def)

lemma is_ok_iff: "is_ok r \<longleftrightarrow> (\<exists>x. r = Inr x)"
  by (cases r) simp_all

section \<open>Lists\<close>

text \<open>Counting by a predicate: the two halves of a list add up to the list.\<close>

lemma length_filter_split:
  "length (filter P xs) + length (filter (\<lambda>x. \<not> P x) xs) = length xs"
  by (rule sum_length_filter_compl)

lemma filter_eq_key_nonempty: "x \<in> set xs \<Longrightarrow> filter (\<lambda>y. f y = f x) xs \<noteq> []"
  by (auto simp: filter_empty_conv)

lemma sum_list_indicator:
  "sum_list (map (\<lambda>x. if P x then 1 else 0) xs) = int (length (filter P xs))"
  by (induction xs) simp_all

lemma sum_list_int_map: "sum_list (map (\<lambda>x. int (f x)) xs) = int (sum_list (map f xs))"
  by (induction xs) simp_all

text \<open>A prefix of a sorted list is sorted, whatever the key.\<close>

lemma sorted_map_take: "sorted (map f xs) \<Longrightarrow> sorted (map f (take n xs))"
  by (simp add: take_map [symmetric] sorted_wrt_take)

lemma mset_take_subseteq: "mset (take n xs) \<subseteq># mset xs"
  by (metis append_take_drop_id mset_append mset_subset_eq_add_left)

end
