(* ===== verification/Decimal.thy ===== *)
theory Decimal
  imports Prelude
begin

text \<open>
  Exact-value arithmetic as the SQL of the dashboard uses it. Every rate of
  \<^verbatim>\<open>src/3.streamlit.py\<close> is the expression
  \<^verbatim>\<open>ROUND(SUM(CASE WHEN c THEN 1 ELSE 0 END) / COUNT(*) * 100, 2)\<close>:
  a \<^verbatim>\<open>DECIMAL\<close> sum divided by a \<^verbatim>\<open>BIGINT\<close> count, times an integer literal,
  rounded to two places. A \<^verbatim>\<open>DECIMAL\<close> is a mantissa and a scale; \<^verbatim>\<open>/\<close> returns
  \<^verbatim>\<open>NULL\<close> for a zero divisor and otherwise a quotient whose scale is the dividend's
  plus \<^verbatim>\<open>div_precision_increment\<close> (4 unless the server is configured otherwise),
  rounded half away from zero; \<^verbatim>\<open>ROUND\<close> rounds half away from zero as well. The
  operators on \<open>decimal option\<close> propagate \<^verbatim>\<open>NULL\<close> (\<open>None\<close>).

  The lemmas show that the rate computed in the code's order (divide, scale by 100, round)
  is the quotient \<open>100 * m / c\<close> rounded once to two places, that it is \<^verbatim>\<open>NULL\<close>
  exactly when the sum is \<^verbatim>\<open>NULL\<close> or the count is zero, and that it lies between
  0.00 and 100.00 when \<open>0 \<le> m \<le> c\<close>.
\<close>

section \<open>Decimals\<close>

record decimal =
  mant :: int
  dscale :: nat

definition dec_value :: "decimal \<Rightarrow> rat" where
  "dec_value x = of_int (mant x) / 10 ^ dscale x"

definition dec_of_int :: "int \<Rightarrow> decimal" where
  "dec_of_int n = \<lparr>mant = n, dscale = 0\<rparr>"

definition round_div :: "int \<Rightarrow> int \<Rightarrow> int" where
  "round_div a b = sgn a * sgn b * ((2 * \<bar>a\<bar> + \<bar>b\<bar>) div (2 * \<bar>b\<bar>))"

definition div_precision_increment :: nat where
  "div_precision_increment = 4"

definition dec_div_int :: "decimal \<Rightarrow> int \<Rightarrow> decimal option" where
  "dec_div_int x n =
     (if n = 0 then None
      else Some \<lparr>mant = round_div (mant x * 10 ^ div_precision_increment) n,
                 dscale = dscale x + div_precision_increment\<rparr>)"

definition dec_mul_int :: "decimal \<Rightarrow> int \<Rightarrow> decimal" where
  "dec_mul_int x k = \<lparr>mant = mant x * k, dscale = dscale x\<rparr>"

definition dec_round :: "decimal \<Rightarrow> nat \<Rightarrow> decimal" where
  "dec_round x d =
     (if dscale x \<le> d then \<lparr>mant = mant x * 10 ^ (d - dscale x), dscale = d\<rparr>
      else \<lparr>mant = round_div (mant x) (10 ^ (dscale x - d)), dscale = d\<rparr>)"

section \<open>The operators on nullable values\<close>

definition sql_div :: "decimal option \<Rightarrow> int \<Rightarrow> decimal option" where
  "sql_div x n = (case x of None \<Rightarrow> None | Some d \<Rightarrow> dec_div_int d n)"

definition sql_mul :: "decimal option \<Rightarrow> int \<Rightarrow> decimal option" where
  "sql_mul x k = map_option (\<lambda>d. dec_mul_int d k) x"

definition sql_round :: "decimal option \<Rightarrow> nat \<Rightarrow> decimal option" where
  "sql_round x d = map_option (\<lambda>v. dec_round v d) x"

definition rate_pct :: "decimal option \<Rightarrow> int \<Rightarrow> decimal option" where
  "rate_pct s c = sql_round (sql_mul (sql_div s c) 100) 2"

text \<open>
  What a rate is meant to be: \<open>100 * m / c\<close> rounded once, half away from zero, to two
  places; undefined for a zero count.
\<close>

definition rate_spec :: "int \<Rightarrow> int \<Rightarrow> decimal option" where
  "rate_spec m c = (if c = 0 then None else Some \<lparr>mant = round_div (10000 * m) c, dscale = 2\<rparr>)"

lemmas decimal_defs =
  dec_of_int_def dec_div_int_def dec_mul_int_def dec_round_def div_precision_increment_def
  sql_div_def sql_mul_def sql_round_def rate_pct_def

section \<open>Rounded division\<close>

lemma round_div_nonneg:
  "0 \<le> a \<Longrightarrow> 0 < b \<Longrightarrow> round_div a b = (2 * a + b) div (2 * b)"
  by (cases "a = 0") (simp_all add: round_div_def)

lemma round_div_zero [simp]: "round_div 0 b = 0" "round_div a 0 = 0"
  by (simp_all add: round_div_def)

lemma round_div_minus_left [simp]: "round_div (- a) b = - round_div a b"
  by (simp add: round_div_def sgn_minus)

lemma round_div_minus_right [simp]: "round_div a (- b) = - round_div a b"
  by (simp add: round_div_def sgn_minus)

lemma round_div_exact:
  assumes "0 \<le> a" "0 < b"
  shows "round_div (a * b) b = a"
proof -
  have "(b + a * (2 * b)) div (2 * b) = a + b div (2 * b)"
    using assms by (intro div_mult_self1) simp
  moreover have "b div (2 * b) = 0"
    using assms by (intro div_pos_pos_trivial) simp_all
  ultimately show ?thesis
    using assms by (simp add: round_div_nonneg algebra_simps)
qed

lemma round_div_error:
  assumes "0 \<le> a" "0 < b"
  shows "2 * \<bar>round_div a b * b - a\<bar> \<le> b"
proof -
  define q r where "q = (2 * a + b) div (2 * b)" and "r = (2 * a + b) mod (2 * b)"
  have "2 * b * q + r = 2 * a + b"
    unfolding q_def r_def by (rule mult_div_mod_eq)
  then have eq: "2 * a + b = 2 * (q * b) + r"
    by (simp add: algebra_simps)
  have "0 \<le> r" "r < 2 * b"
    using assms by (simp_all add: r_def)
  define x where "x = q * b - a"
  with eq \<open>0 \<le> r\<close> \<open>r < 2 * b\<close> have "2 * x \<le> b" "- b \<le> 2 * x"
    by (simp_all add: algebra_simps)
  then have "2 * \<bar>x\<bar> \<le> b"
    by linarith
  then have "2 * \<bar>q * b - a\<bar> \<le> b"
    by (simp add: x_def)
  then show ?thesis
    using assms by (simp add: round_div_nonneg q_def)
qed

lemma round_div_mono:
  assumes "0 \<le> a" "a \<le> a'" "0 < b"
  shows "round_div a b \<le> round_div a' b"
  using assms by (simp add: round_div_nonneg zdiv_mono1)

lemma round_div_bounds:
  assumes "0 \<le> a" "a \<le> k * b" "0 \<le> k" "0 < b"
  shows "0 \<le> round_div a b \<and> round_div a b \<le> k"
proof -
  have "round_div a b \<le> round_div (k * b) b"
    using assms by (intro round_div_mono) simp_all
  moreover have "round_div 0 b \<le> round_div a b"
    using assms by (intro round_div_mono) simp_all
  ultimately show ?thesis
    using assms by (simp add: round_div_exact)
qed

section \<open>Values\<close>

lemma dec_value_of_int [simp]: "dec_value (dec_of_int n) = of_int n"
  by (simp add: dec_value_def dec_of_int_def)

lemma dec_value_mul_int [simp]: "dec_value (dec_mul_int x k) = dec_value x * of_int k"
  by (simp add: dec_value_def dec_mul_int_def)

lemma dec_round_same_scale [simp]: "dec_round x (dscale x) = x"
  by (simp add: dec_round_def)

lemma dscale_dec_round [simp]: "dscale (dec_round x d) = d"
  by (simp add: dec_round_def)

section \<open>NULL propagation\<close>

lemma sql_div_eq_None_iff: "sql_div x n = None \<longleftrightarrow> x = None \<or> n = 0"
  by (simp add: sql_div_def dec_div_int_def split: option.split)

lemma sql_mul_eq_None_iff [simp]: "sql_mul x k = None \<longleftrightarrow> x = None"
  by (simp add: sql_mul_def)

lemma sql_round_eq_None_iff [simp]: "sql_round x d = None \<longleftrightarrow> x = None"
  by (simp add: sql_round_def)

lemma rate_pct_eq_None_iff: "rate_pct s c = None \<longleftrightarrow> s = None \<or> c = 0"
  by (simp add: rate_pct_def sql_div_eq_None_iff)

section \<open>The rate\<close>

lemma rate_pct_Some:
  assumes "c \<noteq> 0"
  shows "rate_pct (Some (dec_of_int m)) c
         = Some \<lparr>mant = round_div (round_div (10000 * m) c * 100) 100, dscale = 2\<rparr>"
  using assms by (simp add: decimal_defs mult.commute)

lemma round_div_100_exact: "round_div (x * 100) 100 = x"
proof (cases "0 \<le> x")
  case True
  then show ?thesis by (simp add: round_div_exact)
next
  case False
  then have "round_div ((- x) * 100) 100 = - x"
    by (intro round_div_exact) simp_all
  then show ?thesis by simp
qed

lemma rate_pct_of_counts:
  "rate_pct (Some (dec_of_int m)) c = rate_spec m c"
proof (cases "c = 0")
  case True
  then show ?thesis by (simp add: rate_pct_eq_None_iff rate_spec_def)
next
  case False
  then show ?thesis by (simp add: rate_pct_Some round_div_100_exact rate_spec_def)
qed

lemma rate_spec_bounds:
  assumes "0 \<le> m" "m \<le> c" "0 < c" "rate_spec m c = Some r"
  shows "0 \<le> mant r \<and> mant r \<le> 10000 \<and> dscale r = 2"
proof -
  from assms have r: "r = \<lparr>mant = round_div (10000 * m) c, dscale = 2\<rparr>"
    by (simp add: rate_spec_def)
  have "0 \<le> round_div (10000 * m) c \<and> round_div (10000 * m) c \<le> 10000"
    using assms by (intro round_div_bounds) simp_all
  with r show ?thesis by simp
qed

lemma rate_spec_error:
  assumes "0 \<le> m" "0 < c" "rate_spec m c = Some r"
  shows "\<bar>dec_value r - 100 * of_int m / of_int c\<bar> \<le> 1 / 200"
proof -
  let ?q = "round_div (10000 * m) c"
  from assms have r: "dec_value r = of_int ?q / 100"
    by (auto simp: rate_spec_def dec_value_def)
  have "2 * \<bar>?q * c - 10000 * m\<bar> \<le> c"
    using assms by (intro round_div_error) simp_all
  then have "of_int (2 * \<bar>?q * c - 10000 * m\<bar>) \<le> (of_int c :: rat)"
    by (simp only: of_int_le_iff)
  then have "2 * \<bar>of_int ?q * of_int c - 10000 * of_int m\<bar> \<le> (of_int c :: rat)"
    by simp
  moreover have "of_int ?q / 100 - 100 * of_int m / of_int c
      = (of_int ?q * of_int c - 10000 * of_int m) / (100 * of_int c :: rat)"
    using assms by (simp add: field_simps)
  ultimately show ?thesis
    using assms by (simp add: r abs_divide field_simps)
qed

section \<open>Summary\<close>

text \<open>
  C3. The rate as the source computes it, \<^verbatim>\<open>ROUND(SUM(..) / COUNT(*) * 100, 2)\<close>, is
  the quotient \<open>100 * m / c\<close> rounded once, half away from zero, to two places: dividing
  first (to four places) and scaling afterwards loses nothing. The rate is \<^verbatim>\<open>NULL\<close>
  exactly when the sum is \<^verbatim>\<open>NULL\<close> or the count is zero; the division never fails.
\<close>

theorem rate_pct_single_rounding:
  "rate_pct (Some (dec_of_int m)) c = rate_spec m c
   \<and> (rate_pct s c = None \<longleftrightarrow> s = None \<or> c = 0)"
proof (cases "c = 0")
  case True
  then show ?thesis
    by (simp add: rate_pct_def sql_div_eq_None_iff rate_spec_def)
next
  case False
  then have "rate_pct (Some (dec_of_int m)) c
      = Some \<lparr>mant = round_div (round_div (10000 * m) c * 100) 100, dscale = 2\<rparr>"
    by (simp add: decimal_defs mult.commute)
  with False show ?thesis
    by (simp add: round_div_100_exact rate_spec_def rate_pct_eq_None_iff)
qed

text \<open>
  C20. For a count \<open>c > 0\<close> and a sum \<open>m\<close> between 0 and \<open>c\<close>, the rate is a decimal
  with two places between 0.00 and 100.00 that differs from the exact percentage
  \<open>100 * m / c\<close> by at most half a hundredth.
\<close>

theorem rate_pct_accuracy:
  assumes "0 \<le> m" "m \<le> c" "0 < c"
  shows "\<exists>r. rate_pct (Some (dec_of_int m)) c = Some r \<and> dscale r = 2
           \<and> 0 \<le> mant r \<and> mant r \<le> 10000
           \<and> \<bar>dec_value r - 100 * of_int m / of_int c\<bar> \<le> 1 / 200"
proof -
  from assms obtain r where r: "rate_spec m c = Some r"
    by (simp add: rate_spec_def)
  with assms rate_spec_bounds [OF assms r] rate_spec_error [OF assms(1,3) r] show ?thesis
    by (simp add: rate_pct_of_counts)
qed

theorem rate_pct_accuracy_witness:
  "rate_pct (Some (dec_of_int 2)) 3 = Some \<lparr>mant = 6667, dscale = 2\<rparr>
   \<and> \<bar>dec_value \<lparr>mant = 6667, dscale = 2\<rparr> - 100 * 2 / 3\<bar> \<le> 1 / 200"
proof -
  have "rate_pct (Some (dec_of_int 2)) 3 = Some \<lparr>mant = 6667, dscale = 2\<rparr>"
    by (simp add: decimal_defs round_div_def)
  with rate_pct_accuracy [of 2 3] show ?thesis
    by simp
qed

end
