(* ===== verification/Schema.thy ===== *)
theory Schema
  imports Decimal
begin

text \<open>
  The data the script handles: the rows of the table \<^verbatim>\<open>traffic_stops\<close> that every
  statement of \<^verbatim>\<open>src/3.streamlit.py\<close> reads, and the \<^verbatim>\<open>pandas.DataFrame\<close> that
  \<^verbatim>\<open>run_query\<close> returns.

  A row (\<open>stop\<close>) has exactly the columns the statements name. The script never writes
  the table, so a table is a list of rows in storage order. Columns are taken to be
  \<^verbatim>\<open>NOT NULL\<close>; \<^verbatim>\<open>NULL\<close> arises only from aggregates over no rows and from division by
  zero, and is \<open>None\<close> in a nullable value and \<open>CNull\<close> in a frame.

  A frame is its column labels and its rows of cells. \<open>wf_frame\<close> says that every row
  has one cell per column; \<open>to_frame\<close> builds a frame from typed result rows and always
  yields a well-formed one when the row printer does.
\<close>

section \<open>Rows of \<^verbatim>\<open>traffic_stops\<close>\<close>

record sql_date =
  d_year :: nat
  d_month :: nat
  d_day :: nat

record sql_time =
  t_hour :: nat
  t_minute :: nat
  t_second :: nat

record stop =
  stop_date :: sql_date
  stop_time :: sql_time
  country_name :: string
  driver_gender :: string
  driver_age :: int
  driver_race :: string
  violation :: string
  search_conducted :: bool
  stop_outcome :: string
  stop_duration :: string
  vehicle_number :: string

type_synonym table = "stop list"

definition YEAR :: "sql_date \<Rightarrow> int" where
  "YEAR d = int (d_year d)"

definition MONTH :: "sql_date \<Rightarrow> int" where
  "MONTH d = int (d_month d)"

definition HOUR :: "sql_time \<Rightarrow> int" where
  "HOUR t = int (t_hour t)"

definition wf_date :: "sql_date \<Rightarrow> bool" where
  "wf_date d \<longleftrightarrow> 1 \<le> d_month d \<and> d_month d \<le> 12 \<and> 1 \<le> d_day d \<and> d_day d \<le> 31"

definition wf_time :: "sql_time \<Rightarrow> bool" where
  "wf_time t \<longleftrightarrow> t_hour t < 24 \<and> t_minute t < 60 \<and> t_second t < 60"

definition wf_stop :: "stop \<Rightarrow> bool" where
  "wf_stop r \<longleftrightarrow> wf_date (stop_date r) \<and> wf_time (stop_time r) \<and> 0 \<le> driver_age r"

section \<open>Frames\<close>

datatype cell =
    CNull
  | CInt int
  | CDec decimal
  | CReal rat
  | CStr string
  | CBool bool
  | CDate sql_date
  | CTime sql_time

record frame =
  columns :: "string list"
  rows :: "cell list list"

definition wf_frame :: "frame \<Rightarrow> bool" where
  "wf_frame df \<longleftrightarrow> list_all (\<lambda>r. length r = length (columns df)) (rows df)"

definition to_frame :: "string list \<Rightarrow> ('a \<Rightarrow> cell list) \<Rightarrow> 'a list \<Rightarrow> frame" where
  "to_frame cols pr xs = \<lparr>columns = cols, rows = map pr xs\<rparr>"

definition cell_of_dec :: "decimal option \<Rightarrow> cell" where
  "cell_of_dec x = (case x of None \<Rightarrow> CNull | Some d \<Rightarrow> CDec d)"

definition cell_of_real :: "rat option \<Rightarrow> cell" where
  "cell_of_real x = (case x of None \<Rightarrow> CNull | Some q \<Rightarrow> CReal q)"

text \<open>\<^verbatim>\<open>len(df)\<close> and \<^verbatim>\<open>df.empty\<close>.\<close>

definition len_frame :: "frame \<Rightarrow> nat" where
  "len_frame df = length (rows df)"

definition empty_frame :: "frame \<Rightarrow> bool" where
  "empty_frame df \<longleftrightarrow> rows df = [] \<or> columns df = []"

text \<open>
  \<^verbatim>\<open>df[name][i]\<close>: the cell of column \<open>name\<close> in the row labelled \<open>i\<close>. The frames of
  \<^verbatim>\<open>read_sql\<close> carry the default labels 0, 1, \<dots>, so the label is the position. Both
  lookups raise \<^verbatim>\<open>KeyError\<close> when the label is missing.
\<close>

fun index_of :: "'a \<Rightarrow> 'a list \<Rightarrow> nat option" where
  "index_of x [] = None"
| "index_of x (y # ys) = (if x = y then Some 0 else map_option Suc (index_of x ys))"

definition df_get :: "frame \<Rightarrow> string \<Rightarrow> nat \<Rightarrow> cell result" where
  "df_get df name i =
     (case index_of name (columns df) of
        None \<Rightarrow> Inl KeyError
      | Some j \<Rightarrow>
          if i < length (rows df) \<and> j < length (rows df ! i) then Inr (rows df ! i ! j)
          else Inl KeyError)"

section \<open>A sample table\<close>

text \<open>Four stops, used to evaluate the statements on data.\<close>

definition mk_stop ::
    "nat \<Rightarrow> nat \<Rightarrow> string \<Rightarrow> string \<Rightarrow> int \<Rightarrow> string \<Rightarrow> string \<Rightarrow> bool \<Rightarrow> string \<Rightarrow> string
      \<Rightarrow> string \<Rightarrow> stop" where
  "mk_stop yr hr country gender age race viol searched outcome duration vehicle =
     \<lparr>stop_date = \<lparr>d_year = yr, d_month = 3, d_day = 14\<rparr>,
      stop_time = \<lparr>t_hour = hr, t_minute = 30, t_second = 0\<rparr>,
      country_name = country, driver_gender = gender, driver_age = age, driver_race = race,
      violation = viol, search_conducted = searched, stop_outcome = outcome,
      stop_duration = duration, vehicle_number = vehicle\<rparr>"

definition sample_table :: table where
  "sample_table =
     [mk_stop 2020 22 ''India'' ''M'' 30 ''Asian'' ''DUI'' True ''Arrest'' ''16-30 Min''
        ''KA01AB1234'',
      mk_stop 2020 3 ''India'' ''F'' 17 ''Asian'' ''Speeding'' False ''Warning'' ''0-15 Min''
        ''KA05XY9999'',
      mk_stop 2021 12 ''Canada'' ''M'' 45 ''White'' ''dui'' False ''Ticket'' ''30+ Min''
        ''ka01ab1234'',
      mk_stop 2021 23 ''Canada'' ''F'' 70 ''Black'' ''DUI'' True ''Arrest'' ''0-15 Min''
        ''MH12AB1234'']"

text \<open>Twelve DUI stops of eleven vehicles: one vehicle more than a top-ten list holds.\<close>

definition dui_stop :: "string \<Rightarrow> stop" where
  "dui_stop vehicle =
     mk_stop 2020 10 ''India'' ''M'' 30 ''Asian'' ''DUI'' False ''Ticket'' ''0-15 Min'' vehicle"

definition dui_fleet :: table where
  "dui_fleet =
     map dui_stop
       [''V00'', ''V01'', ''V02'', ''V03'', ''V04'', ''V05'', ''V06'', ''V07'', ''V08'', ''V09'',
        ''V10'', ''V00'']"

lemmas sample_defs = sample_table_def mk_stop_def dui_stop_def dui_fleet_def

section \<open>Lemmas\<close>

lemma index_of_Some_iff: "index_of x xs = Some j \<Longrightarrow> j < length xs \<and> xs ! j = x"
  by (induction xs arbitrary: j) (auto split: if_splits)

lemma index_of_None_iff: "index_of x xs = None \<longleftrightarrow> x \<notin> set xs"
  by (induction xs) auto

lemma cell_of_dec_simps: "cell_of_dec None = CNull" "cell_of_dec (Some d) = CDec d"
  by (simp_all add: cell_of_dec_def)

lemma wf_frame_to_frame [wf_simps]:
  "(\<And>x. x \<in> set xs \<Longrightarrow> length (pr x) = length cols) \<Longrightarrow> wf_frame (to_frame cols pr xs)"
  by (simp add: wf_frame_def to_frame_def list_all_iff)

lemma columns_to_frame [simp]: "columns (to_frame cols pr xs) = cols"
  by (simp add: to_frame_def)

lemma rows_to_frame [simp]: "rows (to_frame cols pr xs) = map pr xs"
  by (simp add: to_frame_def)

lemma empty_frame_to_frame [simp]:
  "empty_frame (to_frame cols pr xs) \<longleftrightarrow> xs = [] \<or> cols = []"
  by (simp add: empty_frame_def)

lemma len_frame_to_frame [simp]: "len_frame (to_frame cols pr xs) = length xs"
  by (simp add: len_frame_def)

lemma df_get_wf:
  assumes "wf_frame df" "name \<in> set (columns df)" "i < len_frame df"
  shows "is_ok (df_get df name i)"
proof -
  from assms(2) obtain j where j: "index_of name (columns df) = Some j"
    by (cases "index_of name (columns df)") (auto simp: index_of_None_iff)
  then have "j < length (columns df)"
    by (auto dest: index_of_Some_iff)
  moreover from assms(1,3) have "length (rows df ! i) = length (columns df)"
    by (simp add: wf_frame_def len_frame_def list_all_length)
  ultimately show ?thesis
    using assms(3) j by (simp add: df_get_def len_frame_def)
qed

end
