(* ===== verification/SqlCore.thy ===== *)
theory SqlCore
  imports Schema
begin

text \<open>
  The clauses of a \<^verbatim>\<open>SELECT\<close> statement as functions on lists of rows, in the order
  the server evaluates them: \<^verbatim>\<open>FROM\<close>, \<^verbatim>\<open>WHERE\<close> (\<open>filter\<close>), \<^verbatim>\<open>GROUP BY\<close>
  (\<open>group_by\<close>), the select list with its aggregates (\<open>count_star\<close>, \<open>sum_case\<close>,
  \<open>sql_avg\<close>), \<^verbatim>\<open>ORDER BY\<close> (\<open>order_by\<close>) and \<^verbatim>\<open>LIMIT\<close> (\<open>limit\<close>). Each statement of
  \<^verbatim>\<open>src/3.streamlit.py\<close> is a composition of these.

  Strings are compared under a case-insensitive collation, as the server's default
  collations are: \<open>collate\<close> maps a string to its sort key by replacing ASCII small
  letters with capitals (the weights of the \<^verbatim>\<open>_general_ci\<close> collations on ASCII),
  \<open>sql_eq\<close> is \<^verbatim>\<open>=\<close> on strings, and a string that is grouped or ordered by is keyed
  by \<open>collate\<close>. Keys are compared by character code. Trailing spaces are significant
  (\<^verbatim>\<open>NO PAD\<close>) and characters outside ASCII are left as they are.

  \<open>group_by f\<close> returns one pair per group, in the order in which the groups first
  appear in the input: a representative (the group's first row, which supplies the
  non-aggregated columns) and the group's rows in input order. \<open>order_by\<close> is a stable
  sort, so rows with equal keys stay in group order. SQL leaves both orders open; the
  lemmas below that speak about order only use what every server guarantees (sorted by
  the key, same rows).
\<close>

section \<open>Collation\<close>

definition ci_char :: "char \<Rightarrow> char" where
  "ci_char c =
     (if CHR ''a'' \<le> c \<and> c \<le> CHR ''z''
      then (case c of Char b0 b1 b2 b3 b4 b5 b6 b7 \<Rightarrow> Char b0 b1 b2 b3 b4 False b6 b7)
      else c)"

definition collate :: "string \<Rightarrow> string" where
  "collate s = map ci_char s"

definition sql_eq :: "string \<Rightarrow> string \<Rightarrow> bool" where
  "sql_eq a b \<longleftrightarrow> collate a = collate b"

section \<open>Clauses\<close>

fun group_by :: "('r \<Rightarrow> 'k) \<Rightarrow> 'r list \<Rightarrow> ('r \<times> 'r list) list" where
  "group_by f [] = []"
| "group_by f (x # xs) =
     (x, x # filter (\<lambda>y. f y = f x) xs) # group_by f (filter (\<lambda>y. f y \<noteq> f x) xs)"

definition order_by :: "('a \<Rightarrow> 'k::linorder) \<Rightarrow> 'a list \<Rightarrow> 'a list" where
  "order_by key xs = sort_key key xs"

definition limit :: "nat \<Rightarrow> 'a list \<Rightarrow> 'a list" where
  "limit n xs = take n xs"

section \<open>Aggregates\<close>

definition count_star :: "'r list \<Rightarrow> int" where
  "count_star g = int (length g)"

definition sql_sum :: "int list \<Rightarrow> decimal option" where
  "sql_sum xs = (if xs = [] then None else Some (dec_of_int (sum_list xs)))"

definition sum_case :: "('r \<Rightarrow> bool) \<Rightarrow> 'r list \<Rightarrow> decimal option" where
  "sum_case P g = sql_sum (map (\<lambda>r. if P r then 1 else 0) g)"

definition sql_avg :: "rat list \<Rightarrow> rat option" where
  "sql_avg xs = (if xs = [] then None else Some (sum_list xs / of_nat (length xs)))"

section \<open>Sort keys\<close>

text \<open>
  \<^verbatim>\<open>DESC\<close> on a number is the ascending order of its negation. A nullable value sorts
  with \<^verbatim>\<open>NULL\<close> first when ascending and last when descending.
\<close>

definition desc :: "int \<Rightarrow> int" where
  "desc n = - n"

definition asc_dec :: "decimal option \<Rightarrow> bool \<times> rat" where
  "asc_dec x = (case x of None \<Rightarrow> (False, 0) | Some d \<Rightarrow> (True, dec_value d))"

definition desc_dec :: "decimal option \<Rightarrow> bool \<times> rat" where
  "desc_dec x = (case x of None \<Rightarrow> (True, 0) | Some d \<Rightarrow> (False, - dec_value d))"

definition desc_real :: "rat option \<Rightarrow> bool \<times> rat" where
  "desc_real x = (case x of None \<Rightarrow> (True, 0) | Some q \<Rightarrow> (False, - q))"

section \<open>The contract of \<^verbatim>\<open>ORDER BY\<close>\<close>

text \<open>
  What every server guarantees for \<^verbatim>\<open>ORDER BY\<close>: the same rows, in an order in which
  the keys ascend. Rows with equal keys may come in any order.
\<close>

definition is_ordering :: "('a \<Rightarrow> 'k::linorder) \<Rightarrow> 'a list \<Rightarrow> 'a list \<Rightarrow> bool" where
  "is_ordering key xs ys \<longleftrightarrow> mset ys = mset xs \<and> sorted (map key ys)"

lemmas [sql_defs] =
  collate_def sql_eq_def order_by_def limit_def count_star_def sql_sum_def sum_case_def
  sql_avg_def desc_def asc_dec_def desc_dec_def desc_real_def

section \<open>Collation lemmas\<close>

lemma sql_eq_refl [simp]: "sql_eq a a"
  by (simp add: sql_eq_def)

lemma sql_eq_sym: "sql_eq a b \<Longrightarrow> sql_eq b a"
  by (simp add: sql_eq_def)

lemma sql_eq_trans: "sql_eq a b \<Longrightarrow> sql_eq b c \<Longrightarrow> sql_eq a c"
  by (simp add: sql_eq_def)

lemma length_collate [simp]: "length (collate s) = length s"
  by (simp add: collate_def)

lemma collate_append [simp]: "collate (a @ b) = collate a @ collate b"
  by (simp add: collate_def)

section \<open>Grouping\<close>

lemma group_by_fst_subset: "(r, g) \<in> set (group_by f xs) \<Longrightarrow> r \<in> set xs"
  by (induction f xs rule: group_by.induct) auto

lemma group_by_members:
  "(r, g) \<in> set (group_by f xs) \<Longrightarrow> g = filter (\<lambda>y. f y = f r) xs"
proof (induction f xs rule: group_by.induct)
  case (1 f)
  then show ?case by simp
next
  case (2 f x xs)
  show ?case
  proof (cases "(r, g) = (x, x # filter (\<lambda>y. f y = f x) xs)")
    case True
    then show ?thesis by simp
  next
    case False
    with "2.prems" have in_rest: "(r, g) \<in> set (group_by f (filter (\<lambda>y. f y \<noteq> f x) xs))"
      by auto
    then have "r \<in> set (filter (\<lambda>y. f y \<noteq> f x) xs)"
      by (rule group_by_fst_subset)
    then have ne: "f r \<noteq> f x"
      by simp
    from in_rest have "g = filter (\<lambda>y. f y = f r) (filter (\<lambda>y. f y \<noteq> f x) xs)"
      by (rule "2.IH")
    also have "\<dots> = filter (\<lambda>y. f y = f r) xs"
      using ne by (auto intro: filter_cong)
    finally show ?thesis
      using ne by auto
  qed
qed

lemma group_by_rep_in_group: "(r, g) \<in> set (group_by f xs) \<Longrightarrow> r \<in> set g"
  using group_by_members [of r g f xs] group_by_fst_subset [of r g f xs] by auto

lemma group_by_nonempty: "(r, g) \<in> set (group_by f xs) \<Longrightarrow> g \<noteq> []"
  by (auto dest: group_by_rep_in_group)

lemma group_by_keys: "f ` fst ` set (group_by f xs) = f ` set xs"
proof (induction f xs rule: group_by.induct)
  case (1 f)
  then show ?case by simp
next
  case (2 f x xs)
  have "insert (f x) (f ` {y \<in> set xs. f y \<noteq> f x}) = insert (f x) (f ` set xs)"
    by auto
  with "2.IH" show ?case by simp
qed

lemma group_by_distinct_keys: "distinct (map (f \<circ> fst) (group_by f xs))"
proof (induction f xs rule: group_by.induct)
  case (1 f)
  then show ?case by simp
next
  case (2 f x xs)
  have "f x \<notin> f ` fst ` set (group_by f (filter (\<lambda>y. f y \<noteq> f x) xs))"
    by (auto simp: group_by_keys)
  with "2.IH" show ?case by (auto simp: image_iff)
qed

lemma group_by_covers:
  assumes "x \<in> set xs"
  shows "\<exists>(r, g) \<in> set (group_by f xs). f r = f x \<and> x \<in> set g"
proof -
  from assms have "f x \<in> f ` fst ` set (group_by f xs)"
    by (simp add: group_by_keys)
  then obtain r g where rg: "(r, g) \<in> set (group_by f xs)" "f r = f x"
    by force
  with assms have "x \<in> set g"
    by (auto dest: group_by_members)
  with rg show ?thesis by blast
qed

lemma group_by_sizes: "sum_list (map (length \<circ> snd) (group_by f xs)) = length xs"
proof (induction f xs rule: group_by.induct)
  case (1 f)
  then show ?case by simp
next
  case (2 f x xs)
  then show ?case
    using sum_length_filter_compl [of "\<lambda>y. f y = f x" xs] by simp
qed

lemma group_by_mset: "mset (concat (map snd (group_by f xs))) = mset xs"
proof (induction f xs rule: group_by.induct)
  case (1 f)
  then show ?case by simp
next
  case (2 f x xs)
  have "mset (filter (\<lambda>y. f y = f x) xs) + mset (filter (\<lambda>y. f y \<noteq> f x) xs) = mset xs"
    by (simp add: multiset_partition [symmetric])
  with "2.IH" show ?case by (simp add: ac_simps)
qed

lemma length_group_by_le: "length (group_by f xs) \<le> length xs"
proof -
  have "length (group_by f xs) = sum_list (map (\<lambda>_. 1) (group_by f xs))"
    by (simp add: sum_list_triv)
  also have "\<dots> \<le> sum_list (map (length \<circ> snd) (group_by f xs))"
    by (rule sum_list_mono) (auto dest: group_by_nonempty simp: Suc_le_eq)
  finally show ?thesis by (simp add: group_by_sizes)
qed

lemma group_by_eq_Nil_iff [simp]: "group_by f xs = [] \<longleftrightarrow> xs = []"
  by (cases xs) simp_all

text \<open>
  A row of the select list over the groups comes from a row \<open>r\<close> of the input, and
  its group is the input restricted to the rows with \<open>r\<close>'s key.
\<close>

lemma group_by_map:
  "group_by k (map f xs) = map (\<lambda>(r, g). (f r, map f g)) (group_by (\<lambda>x. k (f x)) xs)"
proof (induction "\<lambda>x. k (f x)" xs rule: group_by.induct)
  case 1
  then show ?case by simp
next
  case (2 x xs)
  then show ?case
    by (simp add: filter_map comp_def)
qed

lemma in_select_groupsD:
  assumes "x \<in> set (map (\<lambda>(r, g). h r g) (group_by k xs))"
  shows "\<exists>r \<in> set xs. x = h r (filter (\<lambda>y. k y = k r) xs)"
proof -
  from assms obtain r g where rg: "(r, g) \<in> set (group_by k xs)" "x = h r g"
    by auto
  with group_by_members [OF rg(1)] group_by_fst_subset [OF rg(1)] show ?thesis
    by blast
qed

lemma select_groups_nonempty:
  assumes "\<And>r g. g \<noteq> [] \<Longrightarrow> P (h r g)"
  shows "\<forall>x \<in> set (map (\<lambda>(r, g). h r g) (group_by k xs)). P x"
  using assms by (auto dest: group_by_nonempty)

lemma group_row_exists:
  assumes "x \<in> set xs"
  shows "\<exists>r. k r = k x \<and> h r (filter (\<lambda>y. k y = k x) xs)
            \<in> set (map (\<lambda>(r, g). h r g) (group_by k xs))"
proof -
  from group_by_covers [OF assms, of k] obtain r g
    where rg: "(r, g) \<in> set (group_by k xs)" "k r = k x"
    by auto
  from rg(1) have "g = filter (\<lambda>y. k y = k r) xs"
    by (rule group_by_members)
  with rg have "h r (filter (\<lambda>y. k y = k x) xs) \<in> set (map (\<lambda>(r, g). h r g) (group_by k xs))"
    by force
  with rg(2) show ?thesis by blast
qed

lemma distinct_select_keys:
  assumes "\<And>r g. f (h r g) = k r"
  shows "distinct (map f (map (\<lambda>(r, g). h r g) (group_by k xs)))"
proof -
  have "map f (map (\<lambda>(r, g). h r g) (group_by k xs)) = map (k \<circ> fst) (group_by k xs)"
    using assms by (simp add: split_def)
  then show ?thesis
    by (simp only: group_by_distinct_keys)
qed

lemma sum_count_star_groups:
  "sum_list (map (\<lambda>(r, g). count_star g) (group_by k xs)) = int (length xs)"
proof -
  have "sum_list (map (\<lambda>(r, g). count_star g) (group_by k xs))
      = sum_list (map (\<lambda>x. int ((length \<circ> snd) x)) (group_by k xs))"
    by (simp add: count_star_def split_def)
  also have "\<dots> = int (sum_list (map (length \<circ> snd) (group_by k xs)))"
    by (rule sum_list_int_map)
  finally show ?thesis
    by (simp only: group_by_sizes)
qed

section \<open>Aggregates\<close>

lemma count_star_pos: "g \<noteq> [] \<Longrightarrow> 0 < count_star g"
  by (simp add: count_star_def)

lemma sum_case_Nil [simp]: "sum_case P [] = None"
  by (simp add: sum_case_def sql_sum_def)

lemma sum_case_nonempty:
  "g \<noteq> [] \<Longrightarrow> sum_case P g = Some (dec_of_int (int (length (filter P g))))"
  by (simp add: sum_case_def sql_sum_def sum_list_indicator)

lemma sum_case_eq_None_iff: "sum_case P g = None \<longleftrightarrow> g = []"
  by (simp add: sum_case_def sql_sum_def)

lemma rate_in_group:
  assumes "g \<noteq> []"
  shows "rate_pct (sum_case P g) (count_star g)
         = Some \<lparr>mant = round_div (10000 * int (length (filter P g))) (int (length g)),
                  dscale = 2\<rparr>"
  using assms by (simp add: sum_case_nonempty rate_pct_of_counts rate_spec_def count_star_def)

lemma rate_row:
  assumes "x \<in> set (map (\<lambda>(r, g). (c r, count_star g, sum_case P g,
                 rate_pct (sum_case P g) (count_star g))) (group_by k xs))"
  shows "\<exists>r \<in> set xs. x = (c r, int (length (filter (\<lambda>y. k y = k r) xs)),
            Some (dec_of_int (int (length (filter P (filter (\<lambda>y. k y = k r) xs))))),
            rate_spec (int (length (filter P (filter (\<lambda>y. k y = k r) xs))))
              (int (length (filter (\<lambda>y. k y = k r) xs))))"
proof -
  from in_select_groupsD [OF assms] obtain r where r: "r \<in> set xs"
    "x = (c r, count_star (filter (\<lambda>y. k y = k r) xs), sum_case P (filter (\<lambda>y. k y = k r) xs),
          rate_pct (sum_case P (filter (\<lambda>y. k y = k r) xs))
            (count_star (filter (\<lambda>y. k y = k r) xs)))"
    by blast
  from r(1) have "filter (\<lambda>y. k y = k r) xs \<noteq> []"
    by (rule filter_eq_key_nonempty)
  with r show ?thesis
    by (auto simp: sum_case_nonempty rate_pct_of_counts count_star_def)
qed

lemma not_null_in_group:
  assumes "g \<noteq> []"
  shows "cell_of_dec (sum_case P g) \<noteq> CNull"
    and "cell_of_dec (rate_pct (sum_case P g) (count_star g)) \<noteq> CNull"
    and "cell_of_real (sql_avg (map f g)) \<noteq> CNull"
    and "CNull \<noteq> cell_of_dec (sum_case P g)"
    and "CNull \<noteq> cell_of_dec (rate_pct (sum_case P g) (count_star g))"
    and "CNull \<noteq> cell_of_real (sql_avg (map f g))"
  using assms
  by (simp_all add: cell_of_dec_def cell_of_real_def sum_case_eq_None_iff rate_pct_eq_None_iff
      sql_avg_def count_star_def split: option.split)

lemma rate_in_group_bounds:
  assumes "g \<noteq> []" "rate_pct (sum_case P g) (count_star g) = Some r"
  shows "0 \<le> mant r \<and> mant r \<le> 10000 \<and> dscale r = 2"
proof -
  from assms have "rate_spec (int (length (filter P g))) (int (length g)) = Some r"
    by (simp add: sum_case_nonempty rate_pct_of_counts count_star_def)
  moreover have "int (length (filter P g)) \<le> int (length g)"
    by simp
  ultimately show ?thesis
    using assms(1) by (intro rate_spec_bounds) simp_all
qed

section \<open>Ordering and limiting\<close>

lemma sorted_order_by [simp]: "sorted (map key (order_by key xs))"
  by (simp add: order_by_def)

lemma mset_order_by [simp]: "mset (order_by key xs) = mset xs"
  by (simp add: order_by_def)

lemma set_order_by [simp]: "set (order_by key xs) = set xs"
  by (simp add: order_by_def)

lemma length_order_by [simp]: "length (order_by key xs) = length xs"
  by (simp add: order_by_def)

lemma order_by_stable:
  "filter (\<lambda>y. key y = k) (order_by key xs) = filter (\<lambda>y. key y = k) xs"
  by (simp add: order_by_def sort_key_stable)

lemma length_limit [simp]: "length (limit n xs) = min n (length xs)"
  by (simp add: limit_def min.commute)

lemma set_limit_subset: "set (limit n xs) \<subseteq> set xs"
  by (simp add: limit_def set_take_subset)

lemma sorted_limit: "sorted (map key xs) \<Longrightarrow> sorted (map key (limit n xs))"
  by (simp add: limit_def sorted_map_take)

lemma ball_limit: "\<forall>x \<in> set xs. P x \<Longrightarrow> \<forall>x \<in> set (limit n xs). P x"
  by (auto simp: limit_def dest: in_set_takeD)

lemma in_set_limitD: "x \<in> set (limit n xs) \<Longrightarrow> x \<in> set xs"
  by (auto simp: limit_def dest: in_set_takeD)

text \<open>
  \<^verbatim>\<open>LIMIT\<close> after \<^verbatim>\<open>ORDER BY\<close> keeps rows that are at least as early in the order
  as every row it drops.
\<close>

lemma limit_order_by_top:
  assumes "x \<in> set (limit n (order_by key xs))" "y \<in> set xs" "y \<notin> set (limit n (order_by key xs))"
  shows "key x \<le> key y"
proof -
  let ?s = "order_by key xs"
  from assms(2,3) have "y \<in> set (drop n ?s)"
    by (metis Un_iff append_take_drop_id limit_def set_append set_order_by)
  moreover from assms(1) have "x \<in> set (take n ?s)"
    by (simp add: limit_def)
  moreover have "sorted (map key (take n ?s @ drop n ?s))"
    by simp
  ultimately show ?thesis
    unfolding map_append sorted_append by auto
qed

lemma limit_order_by_full:
  assumes "y \<in> set xs" "y \<notin> set (limit n (order_by key xs))"
  shows "length (limit n (order_by key xs)) = n"
proof -
  from assms have "set (limit n (order_by key xs)) \<noteq> set (order_by key xs)"
    by auto
  then have "n < length xs"
    by (auto simp: limit_def)
  then show ?thesis
    by simp
qed

lemma distinct_map_order_by [simp]:
  "distinct (map f (order_by key xs)) = distinct (map f xs)"
proof -
  have "mset (map f (order_by key xs)) = mset (map f xs)"
    by simp
  then show ?thesis
    by (rule mset_eq_imp_distinct_iff)
qed

lemma distinct_map_limit: "distinct (map f xs) \<Longrightarrow> distinct (map f (limit n xs))"
  by (simp add: limit_def take_map [symmetric])

lemma sum_list_map_order_by [simp]:
  fixes f :: "'a \<Rightarrow> int"
  shows "sum_list (map f (order_by key xs)) = sum_list (map f xs)"
proof -
  have "mset (map f (order_by key xs)) = mset (map f xs)"
    by simp
  then show ?thesis
    by (metis sum_mset_sum_list)
qed

section \<open>\<open>order_by\<close> against the contract\<close>

lemma order_by_is_ordering: "is_ordering key xs (order_by key xs)"
  by (simp add: is_ordering_def)

text \<open>
  Whatever order a server picks among ties, the column of keys comes out the same: two
  answers differ at most in the order of rows with equal keys.
\<close>

lemma is_ordering_keys:
  assumes "is_ordering key xs ys"
  shows "map key ys = map key (order_by key xs)"
proof -
  from assms have "mset (map key ys) = mset (map key (order_by key xs))"
    by (simp add: is_ordering_def)
  moreover from assms have "sorted (map key ys)"
    by (simp add: is_ordering_def)
  moreover have "sorted (map key (order_by key xs))"
    by simp
  ultimately show ?thesis
    by (metis properties_for_sort)
qed

lemma is_ordering_refine:
  assumes "is_ordering (\<lambda>x. (key x, tie x)) xs ys"
  shows "is_ordering key xs ys"
proof -
  from assms have "sorted (map (\<lambda>x. (key x, tie x)) ys)"
    by (simp add: is_ordering_def)
  then have "sorted (map key ys)"
    by (induction ys) (auto simp: less_eq_prod_def)
  with assms show ?thesis
    by (simp add: is_ordering_def)
qed

text \<open>
  Two rows with equal keys may change places in an answer. When one of them is inside a
  \<^verbatim>\<open>LIMIT\<close> and the other is not, there is therefore an answer that keeps the other
  one instead.
\<close>

lemma is_ordering_swap:
  assumes "is_ordering key xs ys" "i < length ys" "j < length ys" "key (ys ! i) = key (ys ! j)"
  shows "is_ordering key xs (ys[i := ys ! j, j := ys ! i])"
proof -
  have "map key (ys[i := ys ! j, j := ys ! i]) = map key ys"
    using assms(2,3,4) by (auto intro!: nth_equalityI simp: nth_list_update)
  moreover have "mset (ys[i := ys ! j, j := ys ! i]) = mset ys"
    using assms(2,3) by (simp add: mset_swap)
  ultimately show ?thesis
    using assms(1) by (simp add: is_ordering_def)
qed

lemma limit_tie_exchange:
  assumes "distinct xs" "x \<in> set (limit n (order_by key xs))" "y \<in> set xs"
    "y \<notin> set (limit n (order_by key xs))" "key x = key y"
  shows "\<exists>ys. is_ordering key xs ys \<and> y \<in> set (limit n ys) \<and> x \<notin> set (limit n ys)"
proof -
  let ?s = "order_by key xs"
  have d: "distinct ?s"
    using assms(1) by (simp add: order_by_def)
  from assms(2) obtain i where i: "i < n" "i < length ?s" "?s ! i = x"
    by (auto simp: limit_def in_set_conv_nth)
  from assms(3) obtain j where j: "j < length ?s" "?s ! j = y"
    by (metis in_set_conv_nth set_order_by)
  have nj: "n \<le> j"
  proof (rule ccontr)
    assume "\<not> n \<le> j"
    with j have "y \<in> set (take n ?s)"
      using nth_mem [of j "take n ?s"] by simp
    with assms(4) show False
      by (simp add: limit_def)
  qed
  let ?ys = "?s[i := y, j := x]"
  have "is_ordering key xs ?ys"
    using is_ordering_swap [OF order_by_is_ordering i(2) j(1)] i(3) j(2) assms(5)
    by simp
  moreover from nj have "take n ?ys = take n (?s[i := y])"
    by (rule take_update_cancel)
  then have t: "take n ?ys = (take n ?s)[i := y]"
    by (simp only: take_update_swap)
  have "y \<in> set (limit n ?ys)"
    unfolding limit_def t using i(1,2) by (simp add: set_update_memI)
  moreover have "x \<notin> set (limit n ?ys)"
  proof
    assume "x \<in> set (limit n ?ys)"
    then obtain k where k: "k < n" "k < length ?s" "(take n ?s)[i := y] ! k = x"
      unfolding limit_def t by (auto simp: in_set_conv_nth)
    show False
    proof (cases "k = i")
      case True
      with k i have "y = x"
        by simp
      with assms(2,4) show False
        by simp
    next
      case False
      with k have "?s ! k = ?s ! i"
        using i(3) by simp
      with d k(2) i(2) False show False
        by (simp add: nth_eq_iff_index_eq)
    qed
  qed
  ultimately show ?thesis
    by blast
qed

text \<open>When no two rows have the same key there is only one answer.\<close>

lemma is_ordering_unique:
  assumes "is_ordering key xs ys" "distinct (map key xs)"
  shows "ys = order_by key xs"
proof -
  from assms(2) have "inj_on key (set xs)"
    by (simp add: distinct_map)
  moreover from assms(1) have "set ys = set xs"
    by (metis is_ordering_def mset_eq_setD)
  ultimately have "inj_on key (set ys \<union> set (order_by key xs))"
    by simp
  with is_ordering_keys [OF assms(1)] show ?thesis
    by (rule map_inj_on)
qed

end
