(* ===== verification/Adapter.thy ===== *)
theory Adapter
  imports SqlCore
begin

text \<open>
  The database functions of \<^verbatim>\<open>src/3.streamlit.py\<close>: \<^verbatim>\<open>get_connection\<close> and
  \<^verbatim>\<open>run_query\<close>.

  The state \<open>db\<close> is what these functions can observe or change: the rows of
  \<^verbatim>\<open>traffic_stops\<close>, whether the server accepts a connection (\<open>server_up\<close>), whether
  a statement over the table executes (\<open>schema_ok\<close>: the table exists with the columns
  the statements name) and the number of connections that were opened and not closed.
  A statement (\<open>sql\<close>) is its meaning: a function from the table to a frame or an
  error.

  \<open>run_query\<close> follows the source line by line: connect, \<^verbatim>\<open>pd.read_sql\<close>, close,
  return. The source has no \<^verbatim>\<open>try\<close>/\<^verbatim>\<open>finally\<close>, so an exception in
  \<^verbatim>\<open>pd.read_sql\<close> leaves the function before \<^verbatim>\<open>conn.close()\<close>; the model's error
  branch returns the state with the connection still open.

  The lemmas show that no call changes the table or the environment flags, that a
  successful call returns the statement's frame and leaves the state as it was, that a
  refused connection opens nothing, and that a failed statement leaves exactly one more
  connection open. \<open>db_step\<close> sums this up as the relation between the states before
  and after a piece of the script, which the components and the whole script run
  preserve.
\<close>

section \<open>State\<close>

record db =
  contents :: table
  server_up :: bool
  schema_ok :: bool
  open_conns :: nat

type_synonym sql = "table \<Rightarrow> frame result"

definition connect_args :: "(string \<times> string) list" where
  "connect_args =
     [(''host'', ''localhost''), (''user'', ''root''), (''password'', ''mysql@007''),
      (''database'', ''Police_checkpost'')]"

section \<open>Operations\<close>

definition get_connection :: "db \<Rightarrow> db result" where
  "get_connection s =
     (if server_up s then Inr (s\<lparr>open_conns := Suc (open_conns s)\<rparr>) else Inl ConnectError)"

definition read_sql :: "sql \<Rightarrow> db \<Rightarrow> frame result" where
  "read_sql q s = (if schema_ok s then q (contents s) else Inl DatabaseError)"

definition conn_close :: "db \<Rightarrow> db" where
  "conn_close s = s\<lparr>open_conns := open_conns s - 1\<rparr>"

definition run_query :: "sql \<Rightarrow> db \<Rightarrow> frame result \<times> db" where
  "run_query q s =
     (case get_connection s of
        Inl e \<Rightarrow> (Inl e, s)
      | Inr conn \<Rightarrow>
          (case read_sql q conn of
             Inl e \<Rightarrow> (Inl e, conn)
           | Inr df \<Rightarrow> (Inr df, conn_close conn)))"

text \<open>
  What a call, or a piece of the script that calls \<^verbatim>\<open>run_query\<close>, may do to the
  state: nothing when it returns, and nothing but leave one connection open when it
  raises.
\<close>

definition db_step :: "'a result \<Rightarrow> db \<Rightarrow> db \<Rightarrow> bool" where
  "db_step r s s' \<longleftrightarrow>
     s' = s \<or> (\<not> is_ok r \<and> s' = s\<lparr>open_conns := Suc (open_conns s)\<rparr>)"

lemmas adapter_defs = get_connection_def read_sql_def conn_close_def run_query_def

text \<open>A server that is up, holding the sample table, with no connection open.\<close>

definition sample_db :: db where
  "sample_db = \<lparr>contents = sample_table, server_up = True, schema_ok = True, open_conns = 0\<rparr>"

section \<open>One call\<close>

lemma run_query_cases:
  "run_query q s =
     (if \<not> server_up s then (Inl ConnectError, s)
      else if \<not> schema_ok s then (Inl DatabaseError, s\<lparr>open_conns := Suc (open_conns s)\<rparr>)
      else case q (contents s) of
             Inl e \<Rightarrow> (Inl e, s\<lparr>open_conns := Suc (open_conns s)\<rparr>)
           | Inr df \<Rightarrow> (Inr df, s))"
  by (simp add: adapter_defs split: sum.split)

lemma run_query_frame:
  "run_query q s = (r, s') \<Longrightarrow>
     contents s' = contents s \<and> server_up s' = server_up s \<and> schema_ok s' = schema_ok s"
  by (auto simp: run_query_cases split: if_splits sum.splits)

lemma run_query_success:
  assumes "server_up s" "schema_ok s" "q (contents s) = Inr df"
  shows "run_query q s = (Inr df, s)"
  using assms by (simp add: run_query_cases)

lemma run_query_Inr_iff:
  "run_query q s = (Inr df, s') \<longleftrightarrow>
     server_up s \<and> schema_ok s \<and> q (contents s) = Inr df \<and> s' = s"
  by (auto simp: run_query_cases split: sum.splits)

lemma run_query_refused:
  "\<not> server_up s \<Longrightarrow> run_query q s = (Inl ConnectError, s)"
  by (simp add: run_query_cases)

lemma run_query_open_conns:
  assumes "run_query q s = (r, s')"
  shows "open_conns s' = (if server_up s \<and> \<not> is_ok r then Suc (open_conns s) else open_conns s)"
proof -
  have "open_conns (snd (run_query q s))
      = (if server_up s \<and> \<not> is_ok (fst (run_query q s)) then Suc (open_conns s)
         else open_conns s)"
    by (simp add: run_query_cases split: sum.split)
  with assms show ?thesis by simp
qed

section \<open>Steps\<close>

lemma run_query_step:
  assumes "run_query q s = (r, s')"
  shows "db_step r s s'"
proof -
  have "db_step (fst (run_query q s)) s (snd (run_query q s))"
    by (simp add: db_step_def run_query_cases split: sum.split)
  with assms show ?thesis
    by simp
qed

lemma db_step_Inr [simp]: "db_step (Inr x) s s' \<longleftrightarrow> s' = s"
  by (simp add: db_step_def)

lemma db_step_refl [simp]: "db_step r s s"
  by (simp add: db_step_def)

lemma db_step_result: "db_step r s s' \<Longrightarrow> is_ok r' \<longrightarrow> is_ok r \<Longrightarrow> db_step r' s s'"
  by (auto simp: db_step_def)

lemma db_step_Inl: "db_step (Inl e) s s' \<Longrightarrow> db_step (Inl e' :: 'b result) s s'"
  by (simp add: db_step_def)

lemma and_then_step:
  assumes "and_then m f = (r, s')" "db_step (fst m) s (snd m)"
    "\<And>x r s'. fst m = Inr x \<Longrightarrow> f x s = (r, s') \<Longrightarrow> db_step r s s'"
  shows "db_step r s s'"
proof (cases m)
  case (Pair a s1)
  show ?thesis
  proof (cases a)
    case (Inl e)
    with Pair assms(1,2) show ?thesis
      by (auto simp: db_step_def)
  next
    case (Inr x)
    with Pair assms(2) have "s1 = s"
      by simp
    with Pair Inr assms(1,3) show ?thesis
      by simp
  qed
qed

lemma db_step_frame:
  assumes "db_step r s s'"
  shows "contents s' = contents s \<and> server_up s' = server_up s \<and> schema_ok s' = schema_ok s
       \<and> open_conns s \<le> open_conns s' \<and> open_conns s' \<le> Suc (open_conns s)"
  using assms by (auto simp: db_step_def)

section \<open>Summary\<close>

text \<open>
  C4. A call of \<^verbatim>\<open>run_query\<close> that returns a frame leaves the database state exactly
  as it found it, and the same call again returns the same frame: a request is
  idempotent.
\<close>

theorem run_query_idempotent:
  assumes "run_query q s = (Inr df, s')"
  shows "s' = s \<and> run_query q s' = (Inr df, s')"
  using assms by (auto simp: adapter_defs split: if_splits sum.splits)

theorem run_query_idempotent_witness:
  "run_query (\<lambda>t. Inr (to_frame [''n''] (\<lambda>n. [CInt n]) [int (length t)])) sample_db
     = (Inr (to_frame [''n''] (\<lambda>n. [CInt n]) [4]), sample_db)"
proof -
  have r: "run_query (\<lambda>t. Inr (to_frame [''n''] (\<lambda>n. [CInt n]) [int (length t)])) sample_db
     = (Inr (to_frame [''n''] (\<lambda>n. [CInt n]) [4]), sample_db)"
    by (simp add: adapter_defs sample_db_def sample_table_def)
  from run_query_idempotent [OF r] show ?thesis
    by simp
qed

text \<open>
  C8. When the server accepts the connection and the call still fails, the failure came
  from \<^verbatim>\<open>pd.read_sql\<close> and the connection opened for the call is never closed: the
  state after the call has one more open connection than before.
\<close>

theorem run_query_leak:
  assumes "server_up s" "run_query q s = (Inl e, s')"
  shows "s' = s\<lparr>open_conns := Suc (open_conns s)\<rparr>
       \<and> (e = DatabaseError \<and> \<not> schema_ok s \<or> schema_ok s \<and> q (contents s) = Inl e)"
  using assms by (auto simp: adapter_defs split: if_splits sum.splits)

theorem run_query_leak_witness:
  "server_up sample_db
   \<and> run_query (\<lambda>t. Inl DatabaseError) sample_db
       = (Inl DatabaseError, sample_db\<lparr>open_conns := Suc (open_conns sample_db)\<rparr>)"
proof -
  have up: "server_up sample_db"
    by (simp add: sample_db_def)
  obtain s' where r: "run_query (\<lambda>t. Inl DatabaseError) sample_db = (Inl DatabaseError, s')"
    by (simp add: adapter_defs sample_db_def)
  from run_query_leak [OF up r] up r show ?thesis
    by simp
qed

end
