(* ===== verification/Expressions.thy ===== *)
theory Expressions
  imports SqlCore
begin

text \<open>
  The scalar expressions that the statements of \<^verbatim>\<open>src/3.streamlit.py\<close> share: the
  conditions inside \<^verbatim>\<open>SUM(CASE WHEN \<dots>)\<close> and \<^verbatim>\<open>WHERE\<close> (\<open>is_arrest\<close>, \<open>is_search\<close>,
  \<open>is_dui\<close>), \<^verbatim>\<open>BETWEEN\<close>, the two \<^verbatim>\<open>CASE\<close> expressions that bucket a driver's age
  (\<open>age_group\<close>) and the hour of a stop (\<open>time_period\<close>), and the conversion of a string
  to a number that \<^verbatim>\<open>AVG(stop_duration)\<close> performs (\<open>str_to_num\<close>).

  The lemmas characterise each bucket by its range, show that the buckets partition the
  integers (every value has exactly one label, and distinct labels have distinct sort
  keys, so grouping by the label is grouping by the range), and evaluate the conversion on
  the three duration labels the script offers.

  \<open>str_to_num\<close> models the conversion for strings whose numeric prefix is an unsigned
  integer (after leading spaces): the prefix's digits are read and the rest is ignored,
  and a string without such a prefix is 0. A sign, a fraction or an exponent in the
  prefix is outside the model; the duration labels have none.
\<close>

section \<open>Conditions\<close>

definition is_arrest :: "stop \<Rightarrow> bool" where
  "is_arrest r \<longleftrightarrow> sql_eq (stop_outcome r) ''Arrest''"

definition is_search :: "stop \<Rightarrow> bool" where
  "is_search r \<longleftrightarrow> search_conducted r = True"

definition is_dui :: "stop \<Rightarrow> bool" where
  "is_dui r \<longleftrightarrow> sql_eq (violation r) ''DUI''"

definition between :: "int \<Rightarrow> int \<Rightarrow> int \<Rightarrow> bool" where
  "between x lo hi \<longleftrightarrow> lo \<le> x \<and> x \<le> hi"

section \<open>Buckets\<close>

definition age_group :: "int \<Rightarrow> string" where
  "age_group age =
     (if age < 18 then ''Under 18''
      else if between age 18 25 then ''18-25''
      else if between age 26 40 then ''26-40''
      else if between age 41 60 then ''41-60''
      else ''60+'')"

definition age_labels :: "string list" where
  "age_labels = [''Under 18'', ''18-25'', ''26-40'', ''41-60'', ''60+'']"

definition time_period :: "int \<Rightarrow> string" where
  "time_period hr =
     (if between hr 18 23 then ''Night''
      else if between hr 0 5 then ''Late Night''
      else ''Daytime'')"

definition period_labels :: "string list" where
  "period_labels = [''Night'', ''Late Night'', ''Daytime'']"

section \<open>Strings as numbers\<close>

definition digit_of :: "char \<Rightarrow> nat option" where
  "digit_of c = (if CHR ''0'' \<le> c \<and> c \<le> CHR ''9'' then Some (of_char c - 48) else None)"

fun leading_nat :: "string \<Rightarrow> nat \<Rightarrow> nat" where
  "leading_nat [] acc = acc"
| "leading_nat (c # cs) acc =
     (case digit_of c of None \<Rightarrow> acc | Some d \<Rightarrow> leading_nat cs (10 * acc + d))"

definition str_to_num :: "string \<Rightarrow> rat" where
  "str_to_num s = of_nat (leading_nat (dropWhile (\<lambda>c. c = CHR '' '') s) 0)"

definition duration_labels :: "string list" where
  "duration_labels = [''0-15 Min'', ''16-30 Min'', ''30+ Min'']"

lemmas [sql_defs] =
  is_arrest_def is_search_def is_dui_def between_def age_group_def time_period_def
  digit_of_def str_to_num_def

section \<open>Age groups\<close>

lemma age_group_cases:
  "age_group a = ''Under 18'' \<longleftrightarrow> a < 18"
  "age_group a = ''18-25'' \<longleftrightarrow> 18 \<le> a \<and> a \<le> 25"
  "age_group a = ''26-40'' \<longleftrightarrow> 26 \<le> a \<and> a \<le> 40"
  "age_group a = ''41-60'' \<longleftrightarrow> 41 \<le> a \<and> a \<le> 60"
  "age_group a = ''60+'' \<longleftrightarrow> 60 < a"
  by (auto simp: age_group_def between_def)

lemma age_group_in_labels: "age_group a \<in> set age_labels"
  by (simp add: age_group_def age_labels_def)

lemma distinct_age_labels: "distinct (map collate age_labels)"
  by (simp add: age_labels_def collate_def ci_char_def)

lemma collate_age_group_eq_iff:
  "collate (age_group a) = collate (age_group b) \<longleftrightarrow> age_group a = age_group b"
proof -
  have "inj_on collate (set age_labels)"
    using distinct_age_labels by (simp add: distinct_map)
  then show ?thesis
    by (simp add: inj_on_eq_iff age_group_in_labels)
qed

lemma age_group_mono: "a \<le> b \<Longrightarrow> age_group a = age_group c \<Longrightarrow> age_group b = age_group c
    \<Longrightarrow> a \<le> x \<Longrightarrow> x \<le> b \<Longrightarrow> age_group x = age_group c"
  by (auto simp: age_group_def between_def split: if_splits)

section \<open>Time periods\<close>

lemma time_period_cases:
  "time_period h = ''Night'' \<longleftrightarrow> 18 \<le> h \<and> h \<le> 23"
  "time_period h = ''Late Night'' \<longleftrightarrow> 0 \<le> h \<and> h \<le> 5"
  "time_period h = ''Daytime'' \<longleftrightarrow> h < 0 \<or> (6 \<le> h \<and> h \<le> 17) \<or> 24 \<le> h"
  by (auto simp: time_period_def between_def)

lemma time_period_in_labels: "time_period h \<in> set period_labels"
  by (simp add: time_period_def period_labels_def)

lemma distinct_period_labels: "distinct (map collate period_labels)"
  by (simp add: period_labels_def collate_def ci_char_def)

lemma collate_time_period_eq_iff:
  "collate (time_period a) = collate (time_period b) \<longleftrightarrow> time_period a = time_period b"
proof -
  have "inj_on collate (set period_labels)"
    using distinct_period_labels by (simp add: distinct_map)
  then show ?thesis
    by (simp add: inj_on_eq_iff time_period_in_labels)
qed

section \<open>Conversion of the duration labels\<close>

lemma str_to_num_duration_labels:
  "map str_to_num duration_labels = [0, 16, 30]"
  by (simp add: duration_labels_def str_to_num_def digit_of_def)

lemma str_to_num_nonneg: "0 \<le> str_to_num s"
  by (simp add: str_to_num_def)

section \<open>Summary\<close>

text \<open>
  C38. The age buckets partition the integers: an age is labelled ``Under 18'' exactly
  below 18, ``18-25'', ``26-40'' and ``41-60'' exactly on these closed ranges and ``60+''
  exactly above 60; the label is always one of these five, and the five are different.
\<close>

theorem age_group_partition:
  "(age_group a = ''Under 18'' \<longleftrightarrow> a < 18)
   \<and> (age_group a = ''18-25'' \<longleftrightarrow> 18 \<le> a \<and> a \<le> 25)
   \<and> (age_group a = ''26-40'' \<longleftrightarrow> 26 \<le> a \<and> a \<le> 40)
   \<and> (age_group a = ''41-60'' \<longleftrightarrow> 41 \<le> a \<and> a \<le> 60)
   \<and> (age_group a = ''60+'' \<longleftrightarrow> 60 < a)
   \<and> age_group a \<in> set age_labels \<and> distinct age_labels"
  by (simp add: age_group_cases age_group_in_labels) (simp add: age_labels_def)

text \<open>
  C39. The time periods partition the hours: ``Night'' is exactly 18 to 23, ``Late Night''
  exactly 0 to 5, and every other hour (6 to 17, and any value outside a day's hours) is
  ``Daytime''; the label is always one of these three, and the three are different.
\<close>

theorem time_period_partition:
  "(time_period h = ''Night'' \<longleftrightarrow> 18 \<le> h \<and> h \<le> 23)
   \<and> (time_period h = ''Late Night'' \<longleftrightarrow> 0 \<le> h \<and> h \<le> 5)
   \<and> (time_period h = ''Daytime'' \<longleftrightarrow> h < 0 \<or> (6 \<le> h \<and> h \<le> 17) \<or> 24 \<le> h)
   \<and> time_period h \<in> set period_labels \<and> distinct period_labels"
  by (simp add: time_period_cases time_period_in_labels) (simp add: period_labels_def)

end
