(* ===== verification/Insights.thy ===== *)
theory Insights
  imports Adapter Expressions
begin

text \<open>
  The section ``Insights Dashboard'' of \<^verbatim>\<open>src/3.streamlit.py\<close>: a select box with
  fourteen labels, a button, one branch of an \<^verbatim>\<open>if\<close>/\<^verbatim>\<open>elif\<close> chain per label that
  assigns the statement \<^verbatim>\<open>q\<close>, and \<^verbatim>\<open>run_query(q)\<close> whose frame is shown as a table.

  Each statement is a function from the table to its typed result rows, written with the
  clauses of \<open>SqlCore\<close> in the order \<^verbatim>\<open>WHERE\<close>, \<^verbatim>\<open>GROUP BY\<close>, select list,
  \<^verbatim>\<open>ORDER BY\<close>, \<^verbatim>\<open>LIMIT\<close>. \<open>insight_sql\<close> is the \<^verbatim>\<open>if\<close>/\<^verbatim>\<open>elif\<close> chain: it compares
  the chosen label with the fourteen literals in the source's order and yields the
  statement with its column names, or \<open>None\<close> when no branch matches (the source then
  reaches \<^verbatim>\<open>run_query(q)\<close> with \<^verbatim>\<open>q\<close> unbound). \<open>run_insight\<close> is the whole handler.
\<close>

section \<open>The statements\<close>

text \<open>
  The first statement in three parts, so that the theorems can speak of its sort key:
  the groups with their counts (\<^verbatim>\<open>SELECT\<close> to \<^verbatim>\<open>GROUP BY\<close>), the key of its
  \<^verbatim>\<open>ORDER BY\<close>, and the statement.
\<close>

definition top_dui_groups :: "table \<Rightarrow> (string \<times> int) list" where
  "top_dui_groups t =
     map (\<lambda>(r, g). (vehicle_number r, count_star g))
       (group_by (\<lambda>r. collate (vehicle_number r))
         (filter is_dui t))"

definition top_dui_key :: "string \<times> int \<Rightarrow> int" where
  "top_dui_key = (\<lambda>(vehicle, total_dui_stops). desc total_dui_stops)"

definition top_dui_vehicles :: "table \<Rightarrow> (string \<times> int) list" where
  "top_dui_vehicles t = limit 10 (order_by top_dui_key (top_dui_groups t))"

definition most_searched_vehicles :: "table \<Rightarrow> (string \<times> int) list" where
  "most_searched_vehicles t =
     limit 10 (order_by (\<lambda>(vehicle, search_count). desc search_count)
       (map (\<lambda>(r, g). (vehicle_number r, count_star g))
         (group_by (\<lambda>r. collate (vehicle_number r))
           (filter is_search t))))"

definition arrest_rate_by_age_group ::
    "table \<Rightarrow> (string \<times> int \<times> decimal option \<times> decimal option) list" where
  "arrest_rate_by_age_group t =
     order_by (\<lambda>(age_grp, total_stops, total_arrests, arrest_rate). desc_dec arrest_rate)
       (map (\<lambda>(r, g). (age_group (driver_age r), count_star g, sum_case is_arrest g,
                       rate_pct (sum_case is_arrest g) (count_star g)))
         (group_by (\<lambda>r. collate (age_group (driver_age r))) t))"

definition gender_by_country :: "table \<Rightarrow> (string \<times> string \<times> int) list" where
  "gender_by_country t =
     order_by (\<lambda>(country, gender, total). (collate country, desc total))
       (map (\<lambda>(r, g). (country_name r, driver_gender r, count_star g))
         (group_by (\<lambda>r. (collate (country_name r), collate (driver_gender r))) t))"

definition race_gender_search_rate ::
    "table \<Rightarrow> (string \<times> string \<times> int \<times> decimal option \<times> decimal option) list" where
  "race_gender_search_rate t =
     limit 10 (order_by (\<lambda>(race, gender, total_stops, searches, search_rate). desc_dec search_rate)
       (map (\<lambda>(r, g). (driver_race r, driver_gender r, count_star g, sum_case is_search g,
                       rate_pct (sum_case is_search g) (count_star g)))
         (group_by (\<lambda>r. (collate (driver_race r), collate (driver_gender r))) t)))"

definition stops_by_hour :: "table \<Rightarrow> (int \<times> int) list" where
  "stops_by_hour t =
     order_by (\<lambda>(hour_of_day, num_stops). hour_of_day)
       (map (\<lambda>(r, g). (HOUR (stop_time r), count_star g))
         (group_by (\<lambda>r. HOUR (stop_time r)) t))"

definition avg_duration_by_violation :: "table \<Rightarrow> (string \<times> rat option) list" where
  "avg_duration_by_violation t =
     order_by (\<lambda>(viol, avg_duration). desc_real avg_duration)
       (map (\<lambda>(r, g). (violation r, sql_avg (map (\<lambda>x. str_to_num (stop_duration x)) g)))
         (group_by (\<lambda>r. collate (violation r)) t))"

definition night_stops ::
    "table \<Rightarrow> (string \<times> int \<times> decimal option \<times> decimal option) list" where
  "night_stops t =
     order_by (\<lambda>(period, total_stops, arrests, arrest_rate). desc_dec arrest_rate)
       (map (\<lambda>(r, g). (time_period (HOUR (stop_time r)), count_star g, sum_case is_arrest g,
                       rate_pct (sum_case is_arrest g) (count_star g)))
         (group_by (\<lambda>r. collate (time_period (HOUR (stop_time r)))) t))"

definition violation_search_rate ::
    "table \<Rightarrow> (string \<times> int \<times> decimal option \<times> decimal option) list" where
  "violation_search_rate t =
     order_by (\<lambda>(viol, total_stops, searches, search_rate). desc_dec search_rate)
       (map (\<lambda>(r, g). (violation r, count_star g, sum_case is_search g,
                       rate_pct (sum_case is_search g) (count_star g)))
         (group_by (\<lambda>r. collate (violation r)) t))"

definition young_driver_violations :: "table \<Rightarrow> (string \<times> int) list" where
  "young_driver_violations t =
     order_by (\<lambda>(viol, total). desc total)
       (map (\<lambda>(r, g). (violation r, count_star g))
         (group_by (\<lambda>r. collate (violation r))
           (filter (\<lambda>r. driver_age r < 25) t)))"

definition rarely_searched_violations ::
    "table \<Rightarrow> (string \<times> int \<times> decimal option \<times> decimal option) list" where
  "rarely_searched_violations t =
     order_by (\<lambda>(viol, total_stops, searches, arrests). (asc_dec searches, asc_dec arrests))
       (map (\<lambda>(r, g). (violation r, count_star g, sum_case is_search g, sum_case is_arrest g))
         (group_by (\<lambda>r. collate (violation r)) t))"

definition dui_by_country :: "table \<Rightarrow> (string \<times> int) list" where
  "dui_by_country t =
     order_by (\<lambda>(country, dui_stops). desc dui_stops)
       (map (\<lambda>(r, g). (country_name r, count_star g))
         (group_by (\<lambda>r. collate (country_name r))
           (filter is_dui t)))"

definition arrest_rate_country_violation ::
    "table \<Rightarrow> (string \<times> string \<times> int \<times> decimal option \<times> decimal option) list" where
  "arrest_rate_country_violation t =
     order_by (\<lambda>(country, viol, total_stops, arrests, arrest_rate). desc_dec arrest_rate)
       (map (\<lambda>(r, g). (country_name r, violation r, count_star g, sum_case is_arrest g,
                       rate_pct (sum_case is_arrest g) (count_star g)))
         (group_by (\<lambda>r. (collate (country_name r), collate (violation r))) t))"

definition searches_by_country :: "table \<Rightarrow> (string \<times> int) list" where
  "searches_by_country t =
     order_by (\<lambda>(country, searches). desc searches)
       (map (\<lambda>(r, g). (country_name r, count_star g))
         (group_by (\<lambda>r. collate (country_name r))
           (filter is_search t)))"

text \<open>
  The first statement as the specification words it: ties in the count are broken by the
  vehicle number, ascending. The source's statement orders by the count alone.
\<close>

definition top_dui_vehicles_spec :: "table \<Rightarrow> (string \<times> int) list" where
  "top_dui_vehicles_spec t =
     limit 10 (order_by (\<lambda>(vehicle, total_dui_stops). (desc total_dui_stops, collate vehicle))
       (top_dui_groups t))"

lemmas insight_query_defs =
  top_dui_groups_def top_dui_key_def top_dui_vehicles_def most_searched_vehicles_def arrest_rate_by_age_group_def
  gender_by_country_def race_gender_search_rate_def stops_by_hour_def
  avg_duration_by_violation_def night_stops_def violation_search_rate_def
  young_driver_violations_def rarely_searched_violations_def dui_by_country_def
  arrest_rate_country_violation_def searches_by_country_def

section \<open>Row printers\<close>

text \<open>The cells of a result row, by the shape of the row.\<close>

definition row_si :: "string \<times> int \<Rightarrow> cell list" where
  "row_si = (\<lambda>(a, n). [CStr a, CInt n])"

definition row_ii :: "int \<times> int \<Rightarrow> cell list" where
  "row_ii = (\<lambda>(a, n). [CInt a, CInt n])"

definition row_ssi :: "string \<times> string \<times> int \<Rightarrow> cell list" where
  "row_ssi = (\<lambda>(a, b, n). [CStr a, CStr b, CInt n])"

definition row_sr :: "string \<times> rat option \<Rightarrow> cell list" where
  "row_sr = (\<lambda>(a, q). [CStr a, cell_of_real q])"

definition row_sidd :: "string \<times> int \<times> decimal option \<times> decimal option \<Rightarrow> cell list" where
  "row_sidd = (\<lambda>(a, n, x, y). [CStr a, CInt n, cell_of_dec x, cell_of_dec y])"

definition row_ssidd ::
    "string \<times> string \<times> int \<times> decimal option \<times> decimal option \<Rightarrow> cell list" where
  "row_ssidd = (\<lambda>(a, b, n, x, y). [CStr a, CStr b, CInt n, cell_of_dec x, cell_of_dec y])"

lemmas row_defs = row_si_def row_ii_def row_ssi_def row_sr_def row_sidd_def row_ssidd_def

section \<open>The menu and the dispatch\<close>

definition insight_options :: "string list" where
  "insight_options =
     [''Top 10 Vehicles in Drug-Related Stops'',
      ''Vehicles Most Frequently Searched'',
      ''Arrest Rate by Driver Age Group'',
      ''Gender Distribution by Country'',
      ''Race + Gender Combination with Highest Search Rate'',
      ''Traffic Stops by Hour of Day'',
      ''Average Stop Duration by Violation'',
      ''Are Night Stops More Likely to Lead to Arrests?'',
      ''Violations Associated with Highest Search Rate'',
      ''Most Common Violations Among Younger Drivers (<25)'',
      ''Violations That Rarely Result in Search or Arrest'',
      ''Countries with Highest DUI (Drug-Related) Stops'',
      ''Arrest Rate by Country and Violation'',
      ''Countries with Most Search-Conducted Stops'']"

definition insight_sql :: "string \<Rightarrow> (table \<Rightarrow> frame) option" where
  "insight_sql option =
     (if option = ''Top 10 Vehicles in Drug-Related Stops'' then
        Some (\<lambda>t. to_frame [''vehicle_number'', ''total_dui_stops''] row_si
                (top_dui_vehicles t))
      else if option = ''Vehicles Most Frequently Searched'' then
        Some (\<lambda>t. to_frame [''vehicle_number'', ''search_count''] row_si
                (most_searched_vehicles t))
      else if option = ''Arrest Rate by Driver Age Group'' then
        Some (\<lambda>t. to_frame [''age_group'', ''total_stops'', ''total_arrests'', ''arrest_rate'']
                row_sidd (arrest_rate_by_age_group t))
      else if option = ''Gender Distribution by Country'' then
        Some (\<lambda>t. to_frame [''country_name'', ''driver_gender'', ''total''] row_ssi
                (gender_by_country t))
      else if option = ''Race + Gender Combination with Highest Search Rate'' then
        Some (\<lambda>t. to_frame
                [''driver_race'', ''driver_gender'', ''total_stops'', ''searches'', ''search_rate'']
                row_ssidd (race_gender_search_rate t))
      else if option = ''Traffic Stops by Hour of Day'' then
        Some (\<lambda>t. to_frame [''hour_of_day'', ''num_stops''] row_ii (stops_by_hour t))
      else if option = ''Average Stop Duration by Violation'' then
        Some (\<lambda>t. to_frame [''violation'', ''avg_duration''] row_sr
                (avg_duration_by_violation t))
      else if option = ''Are Night Stops More Likely to Lead to Arrests?'' then
        Some (\<lambda>t. to_frame [''time_period'', ''total_stops'', ''arrests'', ''arrest_rate'']
                row_sidd (night_stops t))
      else if option = ''Violations Associated with Highest Search Rate'' then
        Some (\<lambda>t. to_frame [''violation'', ''total_stops'', ''searches'', ''search_rate'']
                row_sidd (violation_search_rate t))
      else if option = ''Most Common Violations Among Younger Drivers (<25)'' then
        Some (\<lambda>t. to_frame [''violation'', ''total''] row_si (young_driver_violations t))
      else if option = ''Violations That Rarely Result in Search or Arrest'' then
        Some (\<lambda>t. to_frame [''violation'', ''total_stops'', ''searches'', ''arrests'']
                row_sidd (rarely_searched_violations t))
      else if option = ''Countries with Highest DUI (Drug-Related) Stops'' then
        Some (\<lambda>t. to_frame [''country_name'', ''dui_stops''] row_si (dui_by_country t))
      else if option = ''Arrest Rate by Country and Violation'' then
        Some (\<lambda>t. to_frame
                [''country_name'', ''violation'', ''total_stops'', ''arrests'', ''arrest_rate'']
                row_ssidd (arrest_rate_country_violation t))
      else if option = ''Countries with Most Search-Conducted Stops'' then
        Some (\<lambda>t. to_frame [''country_name'', ''searches''] row_si (searches_by_country t))
      else None)"

text \<open>
  The handler: nothing happens unless the button was pressed; an unmatched label is the
  \<^verbatim>\<open>NameError\<close> of the unbound \<^verbatim>\<open>q\<close>; otherwise the statement runs and its frame is
  the table shown.
\<close>

definition run_insight :: "bool \<Rightarrow> string \<Rightarrow> db \<Rightarrow> frame option result \<times> db" where
  "run_insight pressed option s =
     (if \<not> pressed then (Inr None, s)
      else case insight_sql option of
             None \<Rightarrow> (Inl NameError, s)
           | Some q \<Rightarrow>
               (case run_query (\<lambda>t. Inr (q t)) s of
                  (Inl e, s') \<Rightarrow> (Inl e, s')
                | (Inr df, s') \<Rightarrow> (Inr (Some df), s')))"

section \<open>The menu, the dispatch and the frames\<close>

lemma row_lengths [simp]:
  "length (row_si a) = 2" "length (row_ii b) = 2" "length (row_ssi c) = 3"
  "length (row_sr d) = 2" "length (row_sidd e) = 4" "length (row_ssidd f) = 5"
  by (simp_all add: row_defs split: prod.split)

text \<open>
  C7. The \<^verbatim>\<open>if\<close>/\<^verbatim>\<open>elif\<close> chain has a branch for a label exactly when the label is one
  of the fourteen that the select box offers: no choice of the menu leaves \<^verbatim>\<open>q\<close>
  unbound, and no branch is unreachable from the menu.
\<close>

theorem insight_sql_menu: "insight_sql option \<noteq> None \<longleftrightarrow> option \<in> set insight_options"
  by (simp add: insight_sql_def insight_options_def)

theorem insight_sql_menu_witness:
  "insight_sql ''Traffic Stops by Hour of Day'' \<noteq> None \<and> insight_sql ''Stops by Hour'' = None"
  using insight_sql_menu [of "''Traffic Stops by Hour of Day''"]
    insight_sql_menu [of "''Stops by Hour''"]
  by (simp add: insight_options_def)

text \<open>
  Every frame an insight statement returns is well formed (each row has one cell per
  column), and its columns are fixed by the statement.
\<close>

lemma insight_frames_wf:
  assumes "insight_sql option = Some q"
  shows "wf_frame (q t) \<and> columns (q t) = columns (q []) \<and> 2 \<le> length (columns (q t))"
  using assms
  by (auto simp: insight_sql_def wf_frame_def list_all_iff split: if_splits)

section \<open>The handler\<close>

lemma insight_sql_Some: "option \<in> set insight_options \<Longrightarrow> \<exists>q. insight_sql option = Some q"
  by (auto simp: insight_sql_def insight_options_def)

lemma run_insight_cases:
  "run_insight pressed option s =
     (if \<not> pressed then (Inr None, s)
      else case insight_sql option of
             None \<Rightarrow> (Inl NameError, s)
           | Some q \<Rightarrow>
               if \<not> server_up s then (Inl ConnectError, s)
               else if \<not> schema_ok s
                 then (Inl DatabaseError, s\<lparr>open_conns := Suc (open_conns s)\<rparr>)
               else (Inr (Some (q (contents s))), s))"
  by (simp add: run_insight_def run_query_cases split: option.split)

lemma run_insight_step:
  "db_step (fst (run_insight pressed option s)) s (snd (run_insight pressed option s))"
  by (simp add: run_insight_def run_query_cases db_step_def split: option.split)

lemma run_insight_not_pressed: "run_insight False option s = (Inr None, s)"
  by (simp add: run_insight_def)

text \<open>
  C18. When the button is pressed with a label of the menu and the server is up and the
  table is there, the handler shows the frame of that label's statement over the current
  table and leaves the database state as it was: the table is untouched and no
  connection stays open.
\<close>

theorem run_insight_ok:
  assumes "option \<in> set insight_options" "server_up s" "schema_ok s"
  shows "\<exists>q. insight_sql option = Some q
           \<and> run_insight True option s = (Inr (Some (q (contents s))), s)"
proof -
  from assms(1) obtain q where "insight_sql option = Some q"
    by (auto simp: insight_sql_def insight_options_def)
  with assms(2,3) show ?thesis
    by (simp add: run_insight_def run_query_success)
qed

theorem run_insight_ok_witness:
  "\<exists>q. insight_sql ''Traffic Stops by Hour of Day'' = Some q
       \<and> run_insight True ''Traffic Stops by Hour of Day'' sample_db
           = (Inr (Some (q (contents sample_db))), sample_db)"
  using run_insight_ok [of "''Traffic Stops by Hour of Day''" sample_db]
  by (simp add: insight_options_def sample_db_def)

text \<open>
  C19. The handler fails in exactly three ways: with \<^verbatim>\<open>NameError\<close> for a label outside
  the menu (nothing was sent to the server), with the connection error when the server
  refuses (nothing was opened), and with the database error when the statement cannot
  execute, in which case the connection that was opened for it is still open.
\<close>

theorem run_insight_errors:
  assumes "run_insight True option s = (Inl e, s')"
  shows "(e = NameError \<and> option \<notin> set insight_options \<and> s' = s)
       \<or> (e = ConnectError \<and> \<not> server_up s \<and> s' = s)
       \<or> (e = DatabaseError \<and> server_up s \<and> \<not> schema_ok s
            \<and> s' = s\<lparr>open_conns := Suc (open_conns s)\<rparr>)"
proof (cases "insight_sql option")
  case None
  then have "option \<notin> set insight_options"
    by (simp add: insight_sql_def insight_options_def split: if_splits)
  with assms None show ?thesis
    by (simp add: run_insight_def)
next
  case (Some q)
  with assms show ?thesis
    by (auto simp: run_insight_def run_query_cases split: if_splits)
qed

theorem run_insight_errors_witness:
  "run_insight True ''Traffic Stops by Hour of Day'' (sample_db\<lparr>schema_ok := False\<rparr>)
     = (Inl DatabaseError, sample_db\<lparr>schema_ok := False, open_conns := 1\<rparr>)
   \<and> open_conns (sample_db\<lparr>schema_ok := False\<rparr>) = 0"
proof -
  obtain e s' where r: "run_insight True ''Traffic Stops by Hour of Day''
      (sample_db\<lparr>schema_ok := False\<rparr>) = (Inl e, s')"
    by (simp add: run_insight_def insight_sql_def run_query_cases sample_db_def)
  from run_insight_errors [OF r] have "e = DatabaseError"
      "s' = sample_db\<lparr>schema_ok := False, open_conns := 1\<rparr>"
    by (simp_all add: insight_options_def sample_db_def)
  with r show ?thesis
    by (simp add: sample_db_def)
qed

section \<open>Top 10 vehicles in drug-related stops\<close>

lemma top_dui_vehicles_groups: "set (top_dui_vehicles t) \<subseteq> set (top_dui_groups t)"
  by (auto simp: top_dui_vehicles_def dest: in_set_limitD)

lemma distinct_top_dui_groups: "distinct (map (\<lambda>(v, n). collate v) (top_dui_groups t))"
  unfolding top_dui_groups_def by (rule distinct_select_keys) simp

lemma top_dui_sample:
  "top_dui_vehicles sample_table = [(''KA01AB1234'', 2), (''MH12AB1234'', 1)]"
  by (simp add: top_dui_vehicles_def top_dui_groups_def top_dui_key_def sample_defs sql_defs
      ci_char_def)

text \<open>
  C2. Each row of ``Top 10 Vehicles in Drug-Related Stops'' pairs a vehicle number with
  the number of stops of the table whose violation is DUI and whose vehicle number equals
  it under the collation, and that number is positive.
\<close>

theorem top_dui_vehicles_count:
  assumes "(v, n) \<in> set (top_dui_vehicles t)"
  shows "n = int (length (filter (\<lambda>r. is_dui r \<and> sql_eq (vehicle_number r) v) t)) \<and> 0 < n"
proof -
  from assms have "(v, n) \<in> set (map (\<lambda>(r, g). (vehicle_number r, count_star g))
         (group_by (\<lambda>r. collate (vehicle_number r)) (filter is_dui t)))"
    by (auto simp: top_dui_vehicles_def top_dui_groups_def dest: in_set_limitD)
  from in_select_groupsD [OF this] obtain r where r: "r \<in> set t" "is_dui r"
    "v = vehicle_number r"
    "n = count_star (filter (\<lambda>y. collate (vehicle_number y) = collate (vehicle_number r))
           (filter is_dui t))"
    by auto
  then have "r \<in> set (filter (\<lambda>r. is_dui r \<and> sql_eq (vehicle_number r) v) t)"
    by simp
  then have "0 < length (filter (\<lambda>r. is_dui r \<and> sql_eq (vehicle_number r) v) t)"
    by (rule length_pos_if_in_set)
  with r show ?thesis
    by (simp add: count_star_def sql_eq_def)
qed

theorem top_dui_vehicles_count_witness:
  "(''KA01AB1234'', 2) \<in> set (top_dui_vehicles sample_table)
   \<and> (2::int) = int (length (filter (\<lambda>r. is_dui r \<and> sql_eq (vehicle_number r) ''KA01AB1234'')
        sample_table))"
  using top_dui_vehicles_count [of "''KA01AB1234''" 2 sample_table]
  by (simp add: top_dui_sample)

text \<open>
  C23. The rows of ``Top 10 Vehicles in Drug-Related Stops'' are in descending order of
  their counts, there are at most ten of them, and no vehicle appears twice.
\<close>

theorem top_dui_vehicles_sorted:
  "sorted (map (\<lambda>(v, n). desc n) (top_dui_vehicles t)) \<and> length (top_dui_vehicles t) \<le> 10
   \<and> distinct (map (\<lambda>(v, n). collate v) (top_dui_vehicles t))"
proof -
  have "distinct (map (\<lambda>(v, n). collate v) (map (\<lambda>(r, g). (vehicle_number r, count_star g))
         (group_by (\<lambda>r. collate (vehicle_number r)) (filter is_dui t))))"
    by (rule distinct_select_keys) simp
  then show ?thesis
    by (simp add: top_dui_vehicles_def top_dui_groups_def top_dui_key_def sorted_limit
        distinct_map_limit)
qed

text \<open>
  C6. The cap of ten is applied after the ordering: a vehicle with a DUI stop that is
  missing from the result has no more DUI stops than any vehicle that is listed.
\<close>

theorem top_dui_vehicles_top:
  assumes "(v, n) \<in> set (top_dui_vehicles t)" "r \<in> set t" "is_dui r"
    "\<forall>(v', n') \<in> set (top_dui_vehicles t). \<not> sql_eq (vehicle_number r) v'"
  shows "int (length (filter (\<lambda>y. is_dui y \<and> sql_eq (vehicle_number y) (vehicle_number r)) t)) \<le> n"
proof -
  let ?k = "\<lambda>r :: stop. collate (vehicle_number r)"
  let ?rows = "map (\<lambda>(r, g). (vehicle_number r, count_star g)) (group_by ?k (filter is_dui t))"
  let ?c = "count_star (filter (\<lambda>y. ?k y = ?k r) (filter is_dui t))"
  from assms(2,3) have "r \<in> set (filter is_dui t)"
    by simp
  from group_row_exists [OF this, of ?k "\<lambda>r g. (vehicle_number r, count_star g)"]
  obtain r' :: stop where r': "?k r' = ?k r" "(vehicle_number r', ?c) \<in> set ?rows"
    by blast
  from r'(1) assms(4) have "(vehicle_number r', ?c) \<notin> set (top_dui_vehicles t)"
    by (auto simp: sql_eq_def)
  with assms(1) r'(2) have "desc n \<le> desc ?c"
    using limit_order_by_top [of "(v, n)" 10 "\<lambda>(v, n). desc n" ?rows "(vehicle_number r', ?c)"]
    by (simp add: top_dui_vehicles_def top_dui_groups_def top_dui_key_def)
  then show ?thesis
    by (simp add: desc_def count_star_def sql_eq_def conj_commute)
qed

lemma top_dui_fleet:
  "top_dui_vehicles dui_fleet =
     [(''V00'', 2), (''V01'', 1), (''V02'', 1), (''V03'', 1), (''V04'', 1), (''V05'', 1),
      (''V06'', 1), (''V07'', 1), (''V08'', 1), (''V09'', 1)]"
  by (simp add: top_dui_vehicles_def top_dui_groups_def top_dui_key_def sample_defs sql_defs
      ci_char_def)

theorem top_dui_vehicles_top_witness:
  "(''V00'', 2) \<in> set (top_dui_vehicles dui_fleet) \<and> dui_stop ''V10'' \<in> set dui_fleet
   \<and> is_dui (dui_stop ''V10'')
   \<and> int (length (filter (\<lambda>y. is_dui y \<and> sql_eq (vehicle_number y) ''V10'') dui_fleet)) \<le> 2"
proof -
  have in_fleet: "dui_stop ''V10'' \<in> set dui_fleet"
    by (simp add: dui_fleet_def)
  have dui: "is_dui (dui_stop ''V10'')"
    by (simp add: sample_defs sql_defs)
  have veh: "vehicle_number (dui_stop ''V10'') = ''V10''"
    by (simp add: sample_defs)
  have "\<forall>(v', n') \<in> set (top_dui_vehicles dui_fleet). \<not> sql_eq (vehicle_number (dui_stop ''V10'')) v'"
    by (simp add: top_dui_fleet veh sql_defs ci_char_def)
  from top_dui_vehicles_top [OF _ in_fleet dui this, of "''V00''" 2] in_fleet dui veh
  show ?thesis
    by (simp add: top_dui_fleet)
qed

lemma dui_groups_fleet:
  "top_dui_groups dui_fleet =
     [(''V00'', 2), (''V01'', 1), (''V02'', 1), (''V03'', 1), (''V04'', 1), (''V05'', 1),
      (''V06'', 1), (''V07'', 1), (''V08'', 1), (''V09'', 1), (''V10'', 1)]"
  by (simp add: top_dui_groups_def sample_defs sql_defs ci_char_def)

text \<open>
  C24. The statement does not determine which vehicles are listed when counts tie at the
  cut-off. Whenever a listed vehicle and a vehicle that is not listed have the same
  number of DUI stops, the rows can also come in an order that satisfies the statement's
  \<^verbatim>\<open>ORDER BY total_dui_stops DESC\<close> and whose first ten rows hold the second vehicle
  instead of the first. The specification asks for ties to be broken by the vehicle
  number; the source's \<^verbatim>\<open>ORDER BY\<close> has no second key.
\<close>

theorem top_dui_not_determined:
  assumes "(v, n) \<in> set (top_dui_vehicles t)" "(v', n) \<in> set (top_dui_groups t)"
    "(v', n) \<notin> set (top_dui_vehicles t)"
  shows "\<exists>ys. is_ordering top_dui_key (top_dui_groups t) ys
           \<and> (v', n) \<in> set (limit 10 ys) \<and> (v, n) \<notin> set (limit 10 ys)"
proof -
  have d: "distinct (top_dui_groups t)"
    using distinct_top_dui_groups [of t] by (simp add: distinct_map)
  have k: "top_dui_key (v, n) = top_dui_key (v', n)"
    by (simp add: top_dui_key_def)
  from d assms [unfolded top_dui_vehicles_def] k show ?thesis
    by (rule limit_tie_exchange)
qed

theorem top_dui_not_determined_witness:
  "(''V09'', 1) \<in> set (top_dui_vehicles dui_fleet) \<and> (''V10'', 1) \<in> set (top_dui_groups dui_fleet)
   \<and> (\<exists>ys. is_ordering top_dui_key (top_dui_groups dui_fleet) ys
          \<and> (''V10'', 1) \<in> set (limit 10 ys) \<and> (''V09'', 1) \<notin> set (limit 10 ys))"
  using top_dui_not_determined [of "''V09''" 1 dui_fleet "''V10''"]
  by (simp add: top_dui_fleet dui_groups_fleet)

text \<open>
  C30. Where the statement is determined it is the statement of the specification. The
  source's statement and the one with ties broken by vehicle number always list the same
  counts in the same order, and on a table in which no two vehicles have the same number
  of DUI stops they return the same rows.
\<close>

theorem top_dui_meets_spec:
  "map snd (top_dui_vehicles t) = map snd (top_dui_vehicles_spec t)
   \<and> (distinct (map snd (top_dui_groups t)) \<longrightarrow> top_dui_vehicles t = top_dui_vehicles_spec t)"
proof -
  let ?ys = "order_by (\<lambda>(v, n). (desc n, collate v)) (top_dui_groups t)"
  have "is_ordering (\<lambda>x. (top_dui_key x, (\<lambda>(v, n). collate v) x)) (top_dui_groups t) ?ys"
    using order_by_is_ordering [of "\<lambda>(v, n). (desc n, collate v)" "top_dui_groups t"]
    by (simp add: split_def top_dui_key_def)
  then have ord: "is_ordering top_dui_key (top_dui_groups t) ?ys"
    by (rule is_ordering_refine)
  have "map top_dui_key (limit 10 ?ys)
      = map top_dui_key (limit 10 (order_by top_dui_key (top_dui_groups t)))"
    using is_ordering_keys [OF ord] by (simp add: limit_def take_map [symmetric])
  then have keys: "map top_dui_key (top_dui_vehicles_spec t) = map top_dui_key (top_dui_vehicles t)"
    by (simp add: top_dui_vehicles_def top_dui_vehicles_spec_def)
  have "map snd xs = map uminus (map top_dui_key xs)" for xs :: "(string \<times> int) list"
    by (simp add: top_dui_key_def desc_def split_def)
  then have counts: "map snd (top_dui_vehicles t) = map snd (top_dui_vehicles_spec t)"
    by (simp only: keys)
  have "top_dui_vehicles t = top_dui_vehicles_spec t" if "distinct (map snd (top_dui_groups t))"
  proof -
    have "map top_dui_key (top_dui_groups t) = map uminus (map snd (top_dui_groups t))"
      by (simp add: top_dui_key_def desc_def split_def)
    with that have "distinct (map top_dui_key (top_dui_groups t))"
      by (simp add: distinct_map inj_on_def del: map_map)
    with ord have "?ys = order_by top_dui_key (top_dui_groups t)"
      by (rule is_ordering_unique)
    then show ?thesis
      by (simp add: top_dui_vehicles_def top_dui_vehicles_spec_def)
  qed
  with counts show ?thesis
    by blast
qed

theorem top_dui_meets_spec_witness:
  "distinct (map snd (top_dui_groups sample_table))
   \<and> top_dui_vehicles_spec sample_table = [(''KA01AB1234'', 2), (''MH12AB1234'', 1)]"
proof -
  have "distinct (map snd (top_dui_groups sample_table))"
    by (simp add: top_dui_groups_def sample_defs sql_defs ci_char_def)
  with top_dui_meets_spec [of sample_table] show ?thesis
    by (simp add: top_dui_sample)
qed

section \<open>Rates by group\<close>

lemma arrest_rate_sample:
  "arrest_rate_by_age_group sample_table =
     [(''26-40'', 1, Some \<lparr>mant = 1, dscale = 0\<rparr>, Some \<lparr>mant = 10000, dscale = 2\<rparr>),
      (''60+'', 1, Some \<lparr>mant = 1, dscale = 0\<rparr>, Some \<lparr>mant = 10000, dscale = 2\<rparr>),
      (''Under 18'', 1, Some \<lparr>mant = 0, dscale = 0\<rparr>, Some \<lparr>mant = 0, dscale = 2\<rparr>),
      (''41-60'', 1, Some \<lparr>mant = 0, dscale = 0\<rparr>, Some \<lparr>mant = 0, dscale = 2\<rparr>)]"
  by (simp add: arrest_rate_by_age_group_def sample_defs sql_defs ci_char_def decimal_defs
      round_div_def dec_value_def)

text \<open>
  C9. Each row of ``Arrest Rate by Driver Age Group'' carries, for its age group, the
  positive number of stops of drivers in that group, the number of those stops that ended
  in an arrest, and the arrest rate, which is 100 times the second over the first rounded
  to two places; the rate is never \<^verbatim>\<open>NULL\<close>, because a group has at least one stop.
\<close>

theorem arrest_rate_by_age_group_rows:
  assumes "(a, n, s, rate) \<in> set (arrest_rate_by_age_group t)"
  shows "n = int (length (filter (\<lambda>r. age_group (driver_age r) = a) t)) \<and> 0 < n
       \<and> s = Some (dec_of_int (int (length
             (filter (\<lambda>r. age_group (driver_age r) = a \<and> is_arrest r) t))))
       \<and> rate = rate_spec (int (length
             (filter (\<lambda>r. age_group (driver_age r) = a \<and> is_arrest r) t))) n
       \<and> rate \<noteq> None"
proof -
  from assms have "(a, n, s, rate) \<in> set (map (\<lambda>(r, g). (age_group (driver_age r), count_star g,
        sum_case is_arrest g, rate_pct (sum_case is_arrest g) (count_star g)))
      (group_by (\<lambda>r. collate (age_group (driver_age r))) t))"
    by (simp add: arrest_rate_by_age_group_def)
  from rate_row [OF this] obtain r :: stop where r: "r \<in> set t" "a = age_group (driver_age r)"
    "n = int (length (filter (\<lambda>y. age_group (driver_age y) = a) t))"
    "s = Some (dec_of_int (int (length
           (filter is_arrest (filter (\<lambda>y. age_group (driver_age y) = a) t)))))"
    "rate = rate_spec (int (length
           (filter is_arrest (filter (\<lambda>y. age_group (driver_age y) = a) t)))) n"
    by (auto simp: collate_age_group_eq_iff)
  from r(1,2) have "r \<in> set (filter (\<lambda>y. age_group (driver_age y) = a) t)"
    by simp
  then have "0 < length (filter (\<lambda>y. age_group (driver_age y) = a) t)"
    by (rule length_pos_if_in_set)
  with r show ?thesis
    by (simp add: rate_spec_def)
qed

theorem arrest_rate_by_age_group_rows_witness:
  "(''60+'', 1, Some \<lparr>mant = 1, dscale = 0\<rparr>, Some \<lparr>mant = 10000, dscale = 2\<rparr>)
     \<in> set (arrest_rate_by_age_group sample_table)
   \<and> (1::int) = int (length (filter (\<lambda>r. age_group (driver_age r) = ''60+'') sample_table))
   \<and> Some \<lparr>mant = 10000, dscale = 2\<rparr> = rate_spec (int (length
         (filter (\<lambda>r. age_group (driver_age r) = ''60+'' \<and> is_arrest r) sample_table))) 1"
  using arrest_rate_by_age_group_rows [of "''60+''" 1 "Some \<lparr>mant = 1, dscale = 0\<rparr>"
      "Some \<lparr>mant = 10000, dscale = 2\<rparr>" sample_table]
  by (simp add: arrest_rate_sample)

section \<open>Stops by hour\<close>

text \<open>
  C33. ``Traffic Stops by Hour of Day'' counts every stop of the table exactly once: the
  counts add up to the number of rows, the hours are listed in ascending order and no
  hour appears twice.
\<close>

theorem stops_by_hour_total:
  "sum_list (map snd (stops_by_hour t)) = int (length t)
   \<and> sorted (map fst (stops_by_hour t)) \<and> distinct (map fst (stops_by_hour t))"
proof -
  let ?rows = "map (\<lambda>(r, g). (HOUR (stop_time r), count_star g))
      (group_by (\<lambda>r. HOUR (stop_time r)) t)"
  have "sum_list (map snd ?rows) = int (length t)"
    using sum_count_star_groups [of "\<lambda>r. HOUR (stop_time r)" t]
    by (simp add: split_def comp_def)
  moreover have "distinct (map fst ?rows)"
    by (rule distinct_select_keys) simp
  moreover have "sorted (map (\<lambda>(h, n). h) (stops_by_hour t))"
    unfolding stops_by_hour_def by (rule sorted_order_by)
  ultimately show ?thesis
    by (simp add: stops_by_hour_def split_def comp_def)
qed

section \<open>No \<^verbatim>\<open>NULL\<close> in any insight\<close>

text \<open>
  C27. No cell of any frame of the insights dashboard is \<^verbatim>\<open>NULL\<close>: every sum, rate
  and average is taken over a group, a group has at least one row, and so no statement
  divides by zero or aggregates over nothing.
\<close>

theorem insight_no_null:
  assumes "insight_sql option = Some q" "row \<in> set (rows (q t))"
  shows "CNull \<notin> set row"
  using assms
  by (auto simp: insight_sql_def insight_query_defs row_defs not_null_in_group
      split: if_splits dest!: in_set_limitD group_by_nonempty)

theorem insight_no_null_witness:
  "\<exists>q. insight_sql ''Arrest Rate by Driver Age Group'' = Some q
     \<and> [CStr ''60+'', CInt 1, CDec \<lparr>mant = 1, dscale = 0\<rparr>, CDec \<lparr>mant = 10000, dscale = 2\<rparr>]
         \<in> set (rows (q sample_table))
     \<and> CNull \<notin> set [CStr ''60+'', CInt 1, CDec \<lparr>mant = 1, dscale = 0\<rparr>,
         CDec \<lparr>mant = 10000, dscale = 2\<rparr>]"
proof -
  let ?q = "\<lambda>t. to_frame [''age_group'', ''total_stops'', ''total_arrests'', ''arrest_rate'']
                row_sidd (arrest_rate_by_age_group t)"
  have q: "insight_sql ''Arrest Rate by Driver Age Group'' = Some ?q"
    by (simp add: insight_sql_def)
  have "[CStr ''60+'', CInt 1, CDec \<lparr>mant = 1, dscale = 0\<rparr>, CDec \<lparr>mant = 10000, dscale = 2\<rparr>]
      \<in> set (rows (?q sample_table))"
    by (simp add: arrest_rate_sample row_sidd_def cell_of_dec_def)
  with q insight_no_null [OF q this] show ?thesis
    by blast
qed

end
