(* ===== verification/PyBuiltins.thy ===== *)
theory PyBuiltins
  imports Expressions
begin

text \<open>
  The Python built-ins that \<^verbatim>\<open>src/3.streamlit.py\<close> applies to the values of a frame
  and to the numbers it shows: \<^verbatim>\<open>int(x)\<close> (lines 80 to 83), and the formatting of an
  integer inside an f-string, plain (\<^verbatim>\<open>{n}\<close>, which is \<^verbatim>\<open>str(n)\<close>) and with
  thousands separators (\<^verbatim>\<open>{n:,}\<close>, lines 88 to 97).

  \<open>py_int\<close> follows \<^verbatim>\<open>int\<close> on each kind of cell: \<^verbatim>\<open>None\<close> and dates raise
  \<^verbatim>\<open>TypeError\<close>; a number is truncated towards zero (a decimal reaches Python as a
  float; the model keeps it exact, which agrees with the float below \<open>2\<^sup>5\<^sup>3\<close>); a
  string is read as a decimal integer literal with an optional sign, surrounded by
  blanks, and raises \<^verbatim>\<open>ValueError\<close> otherwise (digit-group underscores and
  non-ASCII digits, which Python also accepts, are outside the model).

  The lemmas show that \<^verbatim>\<open>int\<close> reads back what \<^verbatim>\<open>str\<close> prints, that removing
  the separators from \<^verbatim>\<open>{n:,}\<close> gives \<^verbatim>\<open>str(n)\<close>, and where the separators stand.
\<close>

section \<open>\<^verbatim>\<open>int(x)\<close>\<close>

definition trunc_rat :: "rat \<Rightarrow> int" where
  "trunc_rat q = (if 0 \<le> q then \<lfloor>q\<rfloor> else - \<lfloor>- q\<rfloor>)"

definition py_space :: "char \<Rightarrow> bool" where
  "py_space c \<longleftrightarrow> c \<in> set [CHR '' '', CHR 0x09, CHR 0x0A, CHR 0x0B, CHR 0x0C, CHR 0x0D]"

definition py_strip :: "string \<Rightarrow> string" where
  "py_strip s = rev (dropWhile py_space (rev (dropWhile py_space s)))"

definition is_digit :: "char \<Rightarrow> bool" where
  "is_digit c \<longleftrightarrow> digit_of c \<noteq> None"

definition unsigned_literal :: "string \<Rightarrow> nat option" where
  "unsigned_literal ds = (if ds \<noteq> [] \<and> list_all is_digit ds then Some (leading_nat ds 0) else None)"

definition int_literal :: "string \<Rightarrow> int option" where
  "int_literal s =
     (case py_strip s of
        [] \<Rightarrow> None
      | c # cs \<Rightarrow>
          if c = CHR ''-'' then map_option (\<lambda>n. - int n) (unsigned_literal cs)
          else if c = CHR ''+'' then map_option int (unsigned_literal cs)
          else map_option int (unsigned_literal (c # cs)))"

definition py_int :: "cell \<Rightarrow> int result" where
  "py_int c =
     (case c of
        CNull \<Rightarrow> Inl TypeError
      | CInt n \<Rightarrow> Inr n
      | CDec d \<Rightarrow> Inr (trunc_rat (dec_value d))
      | CReal q \<Rightarrow> Inr (trunc_rat q)
      | CBool b \<Rightarrow> Inr (if b then 1 else 0)
      | CStr s \<Rightarrow> (case int_literal s of None \<Rightarrow> Inl ValueError | Some n \<Rightarrow> Inr n)
      | CDate d \<Rightarrow> Inl TypeError
      | CTime t \<Rightarrow> Inl TypeError)"

section \<open>\<^verbatim>\<open>str(n)\<close> and the format \<^verbatim>\<open>{n:,}\<close>\<close>

definition digit_char :: "nat \<Rightarrow> char" where
  "digit_char d = ''0123456789'' ! d"

fun digits_of :: "nat \<Rightarrow> string" where
  "digits_of n =
     (if n < 10 then [digit_char n] else digits_of (n div 10) @ [digit_char (n mod 10)])"

declare digits_of.simps [simp del]

definition py_str_int :: "int \<Rightarrow> string" where
  "py_str_int n = (if n < 0 then ''-'' else []) @ digits_of (nat \<bar>n\<bar>)"

fun chunk3 :: "string \<Rightarrow> string" where
  "chunk3 (a # b # c # d # rest) = a # b # c # CHR '','' # chunk3 (d # rest)"
| "chunk3 s = s"

definition fmt_commas :: "int \<Rightarrow> string" where
  "fmt_commas n = (if n < 0 then ''-'' else []) @ rev (chunk3 (rev (digits_of (nat \<bar>n\<bar>))))"

lemmas py_defs = trunc_rat_def py_space_def py_strip_def is_digit_def unsigned_literal_def
  int_literal_def py_int_def digit_char_def py_str_int_def fmt_commas_def

section \<open>Lemmas\<close>

lemma trunc_rat_of_int [simp]: "trunc_rat (of_int n) = n"
  by (simp add: trunc_rat_def)

lemma trunc_rat_of_nat [simp]: "trunc_rat (of_nat k) = int k"
  by (simp add: trunc_rat_def)

lemma py_int_simps [simp]:
  "py_int CNull = Inl TypeError"
  "py_int (CInt n) = Inr n"
  "py_int (CBool b) = Inr (if b then 1 else 0)"
  "py_int (CDec (dec_of_int n)) = Inr n"
  by (simp_all add: py_int_def dec_value_of_int)

lemma py_int_cell_of_dec:
  "py_int (cell_of_dec x) = (case x of None \<Rightarrow> Inl TypeError | Some d \<Rightarrow> Inr (trunc_rat (dec_value d)))"
  by (simp add: py_int_def cell_of_dec_def split: option.split)

lemma digit_of_digit_char [simp]: "d < 10 \<Longrightarrow> digit_of (digit_char d) = Some d"
proof -
  assume "d < 10"
  then have "d \<in> {0, 1, 2, 3, 4, 5, 6, 7, 8, 9}"
    by auto
  then show ?thesis
    by (auto simp: digit_of_def digit_char_def)
qed

lemma is_digit_digit_char [simp]: "d < 10 \<Longrightarrow> is_digit (digit_char d)"
  by (simp add: is_digit_def)

lemma leading_nat_append:
  "list_all is_digit xs \<Longrightarrow> leading_nat (xs @ ys) acc = leading_nat ys (leading_nat xs acc)"
  by (induction xs arbitrary: acc) (auto simp: is_digit_def)

lemma digits_of_digits [simp]: "list_all is_digit (digits_of n)"
  by (induction n rule: digits_of.induct) (subst digits_of.simps, simp)

lemma digits_of_nonempty [simp]: "digits_of n \<noteq> []"
  by (subst digits_of.simps) simp

lemma leading_nat_digits_of [simp]: "leading_nat (digits_of n) 0 = n"
  by (induction n rule: digits_of.induct)
    (subst digits_of.simps, simp add: leading_nat_append)

lemma unsigned_literal_digits_of [simp]: "unsigned_literal (digits_of n) = Some n"
  by (simp add: unsigned_literal_def)

lemma not_space_digit: "is_digit c \<Longrightarrow> \<not> py_space c"
  by (auto simp: is_digit_def digit_of_def py_space_def split: if_splits)

lemma digit_not_sign: "is_digit c \<Longrightarrow> c \<noteq> CHR ''-'' \<and> c \<noteq> CHR ''+'' \<and> c \<noteq> CHR '',''"
  by (auto simp: is_digit_def digit_of_def split: if_splits)


lemma py_strip_id:
  assumes "s \<noteq> []" "\<not> py_space (hd s)" "\<not> py_space (last s)"
  shows "py_strip s = s"
proof -
  from assms(1,2) have "dropWhile py_space s = s"
    by (cases s) simp_all
  moreover from assms(1,3) have "dropWhile py_space (rev s) = rev s"
    by (cases "rev s") (simp_all add: last_rev [symmetric] hd_rev)
  ultimately show ?thesis
    by (simp add: py_strip_def)
qed

lemma last_digits_of: "is_digit (last (digits_of n))"
  using digits_of_digits [of n] digits_of_nonempty [of n]
  by (simp add: list_all_iff del: digits_of_digits digits_of_nonempty)

lemma hd_digits_of: "is_digit (hd (digits_of n))"
  using digits_of_digits [of n] digits_of_nonempty [of n]
  by (simp add: list_all_iff del: digits_of_digits digits_of_nonempty)

lemma py_strip_py_str_int [simp]: "py_strip (py_str_int n) = py_str_int n"
proof (rule py_strip_id)
  show "py_str_int n \<noteq> []"
    by (simp add: py_str_int_def)
  show "\<not> py_space (hd (py_str_int n))"
  proof (cases "n < 0")
    case True
    then show ?thesis
      by (simp add: py_str_int_def py_space_def)
  next
    case False
    then show ?thesis
      using not_space_digit [OF hd_digits_of, of "nat \<bar>n\<bar>"] by (simp add: py_str_int_def)
  qed
  show "\<not> py_space (last (py_str_int n))"
    using not_space_digit [OF last_digits_of, of "nat \<bar>n\<bar>"]
    by (simp add: py_str_int_def)
qed

lemma int_literal_py_str_int: "int_literal (py_str_int n) = Some n"
proof -
  obtain c cs where d: "digits_of (nat \<bar>n\<bar>) = c # cs"
    by (cases "digits_of (nat \<bar>n\<bar>)") simp_all
  then have "is_digit c"
    using hd_digits_of [of "nat \<bar>n\<bar>"] by simp
  then have c: "c \<noteq> CHR ''-''" "c \<noteq> CHR ''+''"
    by (simp_all add: digit_not_sign)
  have "int_literal (py_str_int n) =
      (case py_str_int n of [] \<Rightarrow> None
       | c # cs \<Rightarrow>
          if c = CHR ''-'' then map_option (\<lambda>n. - int n) (unsigned_literal cs)
          else if c = CHR ''+'' then map_option int (unsigned_literal cs)
          else map_option int (unsigned_literal (c # cs)))"
    by (simp add: int_literal_def)
  also have "\<dots> = Some n"
    using c unsigned_literal_digits_of [of "nat \<bar>n\<bar>"]
    by (simp add: py_str_int_def d del: unsigned_literal_digits_of)
  finally show ?thesis .
qed

lemma filter_chunk3:
  "filter (\<lambda>c. c \<noteq> CHR '','') (chunk3 s) = filter (\<lambda>c. c \<noteq> CHR '','') s"
  by (induction s rule: chunk3.induct) simp_all

lemma length_chunk3: "length (chunk3 s) = length s + (length s - 1) div 3"
  by (induction s rule: chunk3.induct) simp_all

lemma chunk3_eq_Nil_iff [simp]: "chunk3 s = [] \<longleftrightarrow> s = []"
  by (induction s rule: chunk3.induct) simp_all

lemma last_chunk3: "s \<noteq> [] \<Longrightarrow> last (chunk3 s) = last s"
  by (induction s rule: chunk3.induct) simp_all

lemma hd_chunk3: "hd (chunk3 s) = hd s"
  by (induction s rule: chunk3.induct) simp_all

lemma chunk3_comma_iff:
  assumes "CHR '','' \<notin> set s" "i < length (chunk3 s)"
  shows "chunk3 s ! i = CHR '','' \<longleftrightarrow> i mod 4 = 3"
  using assms
proof (induction s arbitrary: i rule: chunk3.induct)
  case (1 a b c d rest)
  show ?case
  proof (cases "i < 4")
    case True
    then have "i = 0 \<or> i = 1 \<or> i = 2 \<or> i = 3"
      by auto
    with 1 show ?thesis
      by auto
  next
    case False
    define j where "j = i - 4"
    with False have "i = j + 4"
      by simp
    with 1 show ?thesis
      by simp
  qed
qed (auto simp: nth_Cons' in_set_conv_nth)

lemma filter_digits_id:
  "list_all is_digit ds \<Longrightarrow> filter (\<lambda>c. c \<noteq> CHR '','') ds = ds"
  by (induction ds) (auto dest: digit_not_sign)

lemma fmt_commas_strip: "filter (\<lambda>c. c \<noteq> CHR '','') (fmt_commas n) = py_str_int n"
  by (simp add: fmt_commas_def py_str_int_def filter_chunk3 filter_digits_id
      rev_filter [symmetric])


lemma rev_fmt_commas:
  "rev (fmt_commas n) = chunk3 (rev (digits_of (nat \<bar>n\<bar>))) @ (if n < 0 then ''-'' else [])"
  by (simp add: fmt_commas_def)

lemma comma_notin_digits [simp]: "CHR '','' \<notin> set (digits_of n)"
  using digits_of_digits [of n] by (auto simp: list_all_iff dest: digit_not_sign simp del: digits_of_digits)

lemma ends_digits_of_not_comma [simp]:
  "hd (digits_of m) \<noteq> CHR '',''" "last (digits_of m) \<noteq> CHR '',''"
  using digit_not_sign [OF hd_digits_of, of m] digit_not_sign [OF last_digits_of, of m]
  by simp_all

lemma length_digits_of_le: "0 < k \<Longrightarrow> n < 10 ^ k \<Longrightarrow> length (digits_of n) \<le> k"
proof (induction k arbitrary: n)
  case 0
  then show ?case by simp
next
  case (Suc k)
  show ?case
  proof (cases "n < 10")
    case True
    then show ?thesis
      by (subst digits_of.simps) simp
  next
    case False
    with Suc.prems have "0 < k" "n div 10 < 10 ^ k"
      by (cases k; auto)+
    from Suc.IH [OF this] False show ?thesis
      by (subst digits_of.simps) simp
  qed
qed

lemma length_digits_of_gt: "10 ^ k \<le> n \<Longrightarrow> k < length (digits_of n)"
proof (induction k arbitrary: n)
  case 0
  then show ?case
    by (cases "digits_of n") simp_all
next
  case (Suc k)
  have "(1::nat) \<le> 10 ^ k"
    by simp
  with Suc.prems have "\<not> n < 10"
    by (simp only: power_Suc)
  moreover from Suc.prems have "10 ^ k \<le> n div 10"
    by (simp add: less_eq_div_iff_mult_less_eq mult.commute)
  ultimately show ?case
    using Suc.IH [of "n div 10"] by (subst digits_of.simps) simp
qed

section \<open>Summary\<close>

text \<open>
  C31. The separators of \<^verbatim>\<open>f"{n:,}"\<close> stand exactly between groups of three digits
  counted from the right: among the characters after the sign, the one at distance \<open>i\<close>
  from the end is a comma exactly when \<open>i mod 4 = 3\<close>; the text neither starts nor ends
  with a comma; and without its commas it is \<^verbatim>\<open>str(n)\<close>, so the card shows the digits
  of the number and nothing else.
\<close>

theorem fmt_commas_groups:
  assumes "i < length (fmt_commas n) - (if n < 0 then 1 else 0)"
  shows "(rev (fmt_commas n) ! i = CHR '','' \<longleftrightarrow> i mod 4 = 3)
       \<and> hd (fmt_commas n) \<noteq> CHR '','' \<and> last (fmt_commas n) \<noteq> CHR '',''
       \<and> filter (\<lambda>c. c \<noteq> CHR '','') (fmt_commas n) = py_str_int n"
proof -
  let ?ds = "rev (digits_of (nat \<bar>n\<bar>))"
  from assms have i: "i < length (chunk3 ?ds)"
    by (simp add: fmt_commas_def split: if_splits)
  then have "rev (fmt_commas n) ! i = chunk3 ?ds ! i"
    by (simp add: rev_fmt_commas nth_append)
  with i have pos: "rev (fmt_commas n) ! i = CHR '','' \<longleftrightarrow> i mod 4 = 3"
    by (simp add: chunk3_comma_iff)
  have "last (fmt_commas n) = hd (chunk3 ?ds)"
    by (simp add: fmt_commas_def last_rev)
  then have l: "last (fmt_commas n) \<noteq> CHR '',''"
    by (simp add: hd_chunk3 hd_rev)
  have "hd (fmt_commas n) \<noteq> CHR '',''"
    by (simp add: fmt_commas_def hd_rev last_chunk3 last_rev)
  moreover have "filter (\<lambda>c. c \<noteq> CHR '','') (fmt_commas n) = py_str_int n"
    by (simp add: fmt_commas_def py_str_int_def filter_chunk3 filter_digits_id
        rev_filter [symmetric])
  ultimately show ?thesis
    using pos l by simp
qed

theorem fmt_commas_groups_witness:
  "fmt_commas 1234567 = ''1,234,567'' \<and> rev (fmt_commas 1234567) ! 3 = CHR '',''
   \<and> rev (fmt_commas 1234567) ! 4 \<noteq> CHR '',''"
proof -
  have f: "fmt_commas 1234567 = ''1,234,567''"
    by (simp add: fmt_commas_def digits_of.simps digit_char_def)
  from fmt_commas_groups [of 3 1234567] fmt_commas_groups [of 4 1234567] f show ?thesis
    by simp
qed

end
