(* ===== verification/Kpi.thy ===== *)
theory Kpi
  imports Adapter PyBuiltins
begin

text \<open>
  The key metrics of \<^verbatim>\<open>src/3.streamlit.py\<close> (lines 67 to 97): one statement without
  \<^verbatim>\<open>GROUP BY\<close>, whose single row holds the number of stops and three conditional
  sums; the four \<^verbatim>\<open>int(df_kpi[..][0])\<close> conversions; and the four cards.

  An aggregate without \<^verbatim>\<open>GROUP BY\<close> has exactly one group, the whole table, also when
  the table is empty; \<open>kpi_query\<close> is therefore the select list applied to the table.
  A card is its four varying parts: the two colours, the title (without the pictograph
  that precedes it in the source) and the number as shown.

  \<open>key_metrics\<close> is the section as the script runs it: \<^verbatim>\<open>run_query\<close>, the four
  conversions in the order of the source, the cards. The first exception ends it.

  The lemmas give the section's result on every path: the four counts with their
  separators when the table has a row; \<^verbatim>\<open>TypeError\<close> when the table is empty, because
  \<^verbatim>\<open>SUM\<close> over no rows is \<^verbatim>\<open>NULL\<close> and \<^verbatim>\<open>int(None)\<close> raises; the adapter's
  errors otherwise.
\<close>

section \<open>The statement\<close>

definition kpi_query :: "table \<Rightarrow> frame" where
  "kpi_query t =
     to_frame [''total_stops'', ''total_arrests'', ''total_searches'', ''drug_stops'']
       (\<lambda>g. [CInt (count_star g), cell_of_dec (sum_case is_arrest g),
             cell_of_dec (sum_case is_search g), cell_of_dec (sum_case is_dui g)])
       [t]"

section \<open>The cards\<close>

record card =
  background :: string
  colour :: string
  title :: string
  shown :: string

definition kpi_cards :: "int \<Rightarrow> int \<Rightarrow> int \<Rightarrow> int \<Rightarrow> card list" where
  "kpi_cards total_stops total_arrests total_searches drug_stops =
     [\<lparr>background = ''#e3f2fd'', colour = ''#0d47a1'', title = ''Total Stops'',
        shown = fmt_commas total_stops\<rparr>,
      \<lparr>background = ''#ffebee'', colour = ''#b71c1c'', title = ''Arrests'',
        shown = fmt_commas total_arrests\<rparr>,
      \<lparr>background = ''#fff3e0'', colour = ''#e65100'', title = ''Searches'',
        shown = fmt_commas total_searches\<rparr>,
      \<lparr>background = ''#e8f5e9'', colour = ''#1b5e20'', title = ''DUI '',
        shown = fmt_commas drug_stops\<rparr>]"

section \<open>The section\<close>

definition key_metrics :: "db \<Rightarrow> card list result \<times> db" where
  "key_metrics s =
     (case run_query (\<lambda>t. Inr (kpi_query t)) s of
        (Inl e, s') \<Rightarrow> (Inl e, s')
      | (Inr df_kpi, s') \<Rightarrow>
          (bind_result (bind_result (df_get df_kpi ''total_stops'' 0) py_int) (\<lambda>total_stops.
           bind_result (bind_result (df_get df_kpi ''total_arrests'' 0) py_int) (\<lambda>total_arrests.
           bind_result (bind_result (df_get df_kpi ''total_searches'' 0) py_int) (\<lambda>total_searches.
           bind_result (bind_result (df_get df_kpi ''drug_stops'' 0) py_int) (\<lambda>drug_stops.
           Inr (kpi_cards total_stops total_arrests total_searches drug_stops))))), s'))"

section \<open>The cells of the statement's row\<close>

lemma wf_kpi_query: "wf_frame (kpi_query t) \<and> len_frame (kpi_query t) = 1"
  by (simp add: kpi_query_def wf_frame_def len_frame_def)

lemma df_get_kpi_query:
  "df_get (kpi_query t) ''total_stops'' 0 = Inr (CInt (int (length t)))"
  "df_get (kpi_query t) ''total_arrests'' 0 = Inr (cell_of_dec (sum_case is_arrest t))"
  "df_get (kpi_query t) ''total_searches'' 0 = Inr (cell_of_dec (sum_case is_search t))"
  "df_get (kpi_query t) ''drug_stops'' 0 = Inr (cell_of_dec (sum_case is_dui t))"
  by (simp_all add: kpi_query_def df_get_def count_star_def)

lemma py_int_sum_case:
  "py_int (cell_of_dec (sum_case P t)) =
     (if t = [] then Inl TypeError else Inr (int (length (filter P t))))"
  by (simp add: sum_case_nonempty sum_case_Nil py_int_cell_of_dec dec_value_of_int)

lemma key_metrics_cases:
  "key_metrics s =
     (if \<not> server_up s then (Inl ConnectError, s)
      else if \<not> schema_ok s then (Inl DatabaseError, s\<lparr>open_conns := Suc (open_conns s)\<rparr>)
      else if contents s = [] then (Inl TypeError, s)
      else (Inr (kpi_cards (int (length (contents s)))
                  (int (length (filter is_arrest (contents s))))
                  (int (length (filter is_search (contents s))))
                  (int (length (filter is_dui (contents s))))), s))"
  by (simp add: key_metrics_def run_query_cases df_get_kpi_query py_int_sum_case)


lemma key_metrics_step: "db_step (fst (key_metrics s)) s (snd (key_metrics s))"
  by (simp add: key_metrics_cases db_step_def)

section \<open>Summary\<close>

text \<open>
  C13. When the server is reachable, the table is intact and has at least one row, the
  key metrics are four cards showing, with thousands separators, the number of stops, of
  stops whose outcome is an arrest, of stops with a search and of stops for DUI; the
  section leaves the database state as it found it.
\<close>

theorem key_metrics_ok:
  assumes "server_up s" "schema_ok s" "contents s \<noteq> []"
  shows "key_metrics s =
     (Inr (kpi_cards (int (length (contents s)))
            (int (length (filter is_arrest (contents s))))
            (int (length (filter is_search (contents s))))
            (int (length (filter is_dui (contents s))))), s)"
  using assms
  by (simp add: key_metrics_def adapter_defs df_get_kpi_query py_int_sum_case)

theorem key_metrics_ok_witness:
  "key_metrics sample_db = (Inr (kpi_cards 4 2 2 3), sample_db)
   \<and> map shown (kpi_cards 4 2 2 3) = [''4'', ''2'', ''2'', ''3'']"
proof -
  have "map shown (kpi_cards 4 2 2 3) = [''4'', ''2'', ''2'', ''3'']"
    by (simp add: kpi_cards_def fmt_commas_def digits_of.simps digit_char_def)
  with key_metrics_ok [of sample_db] show ?thesis
    by (simp add: sample_db_def sample_defs sql_defs ci_char_def)
qed

text \<open>
  C5. On an empty table the key metrics fail: the statement succeeds and its three sums
  are \<^verbatim>\<open>NULL\<close>, \<^verbatim>\<open>int(None)\<close> raises \<^verbatim>\<open>TypeError\<close> at the second conversion, and no
  card is drawn. The connection was closed before, so the state is unchanged.
\<close>

theorem key_metrics_empty:
  assumes "server_up s" "schema_ok s" "contents s = []"
  shows "key_metrics s = (Inl TypeError, s)
       \<and> bind_result (df_get (kpi_query (contents s)) ''total_stops'' 0) py_int = Inr 0
       \<and> bind_result (df_get (kpi_query (contents s)) ''total_arrests'' 0) py_int = Inl TypeError"
  using assms
  by (simp add: key_metrics_def adapter_defs kpi_query_def df_get_def count_star_def
      cell_of_dec_simps)

theorem key_metrics_empty_witness:
  "key_metrics (sample_db\<lparr>contents := []\<rparr>) = (Inl TypeError, sample_db\<lparr>contents := []\<rparr>)"
  using key_metrics_empty [of "sample_db\<lparr>contents := []\<rparr>"]
  by (simp add: sample_db_def)

text \<open>
  C36. The key metrics fail in exactly three ways: the server refuses the connection
  (\<^verbatim>\<open>ConnectError\<close>, nothing opened), the statement cannot be executed
  (\<^verbatim>\<open>DatabaseError\<close>, the connection stays open), or the table is empty
  (\<^verbatim>\<open>TypeError\<close>). No \<^verbatim>\<open>KeyError\<close> is possible: the four columns the script reads
  are the four the statement names.
\<close>

theorem key_metrics_errors:
  assumes "key_metrics s = (Inl e, s')"
  shows "(e = ConnectError \<and> \<not> server_up s \<and> s' = s)
       \<or> (e = DatabaseError \<and> server_up s \<and> \<not> schema_ok s
            \<and> s' = s\<lparr>open_conns := Suc (open_conns s)\<rparr>)
       \<or> (e = TypeError \<and> server_up s \<and> schema_ok s \<and> contents s = [] \<and> s' = s)"
  using assms
  by (auto simp: key_metrics_def adapter_defs df_get_kpi_query py_int_sum_case
      split: if_splits)

theorem key_metrics_errors_witness:
  "key_metrics (sample_db\<lparr>server_up := False\<rparr>)
     = (Inl ConnectError, sample_db\<lparr>server_up := False\<rparr>)"
proof -
  obtain e s' where r: "key_metrics (sample_db\<lparr>server_up := False\<rparr>) = (Inl e, s')"
    by (simp add: key_metrics_def adapter_defs)
  from key_metrics_errors [OF r] r show ?thesis
    by simp
qed

end
