(* ===== verification/Advanced.thy ===== *)
theory Advanced
  imports Insights
begin

text \<open>
  The section ``Advanced Insights'' of \<^verbatim>\<open>src/3.streamlit.py\<close> (lines 391 to 499): a
  select box with six labels, a button, an \<^verbatim>\<open>if\<close>/\<^verbatim>\<open>elif\<close> chain that assigns one of
  six statements to \<^verbatim>\<open>q\<close>, and \<^verbatim>\<open>run_query(q)\<close>.

  The statements are modelled as those of \<open>Insights\<close>. The second one selects from a
  derived table; \<open>age_race_view\<close> is that inner \<^verbatim>\<open>SELECT\<close> (a projection of every row
  to its race, its violation and its age group) and \<open>violation_trends\<close> groups its rows.
  Several statements group or order by an alias of the select list (\<^verbatim>\<open>year\<close>,
  \<^verbatim>\<open>age_group\<close>, \<^verbatim>\<open>total\<close>), which stands for the aliased expression.

  The lemmas show that the chain covers exactly the menu, what the handler returns on
  every path, that the frames are well formed and free of \<^verbatim>\<open>NULL\<close>, and what the rows
  of the yearly breakdown, the violation trends (through the derived table), the time
  analysis and the top five hold.
\<close>

section \<open>The statements\<close>

definition yearly_breakdown ::
    "table \<Rightarrow> (string \<times> int \<times> int \<times> decimal option \<times> decimal option) list" where
  "yearly_breakdown t =
     order_by (\<lambda>(country, year, total_stops, total_arrests, arrest_rate). (collate country, year))
       (map (\<lambda>(r, g). (country_name r, YEAR (stop_date r), count_star g, sum_case is_arrest g,
                       rate_pct (sum_case is_arrest g) (count_star g)))
         (group_by (\<lambda>r. (collate (country_name r), YEAR (stop_date r))) t))"

definition age_race_view :: "table \<Rightarrow> (string \<times> string \<times> string) list" where
  "age_race_view t = map (\<lambda>r. (driver_race r, violation r, age_group (driver_age r))) t"

definition violation_trends :: "table \<Rightarrow> (string \<times> string \<times> string \<times> int) list" where
  "violation_trends t =
     order_by (\<lambda>(race, age_grp, viol, total_stops). (collate race, collate age_grp, desc total_stops))
       (map (\<lambda>((race, viol, age_grp), g). (race, age_grp, viol, count_star g))
         (group_by (\<lambda>(race, viol, age_grp). (collate race, collate age_grp, collate viol))
           (age_race_view t)))"

definition time_period_analysis :: "table \<Rightarrow> (int \<times> int \<times> int \<times> int) list" where
  "time_period_analysis t =
     order_by (\<lambda>(year, month, hour, total_stops). (year, month, hour))
       (map (\<lambda>(r, g). (YEAR (stop_date r), MONTH (stop_date r), HOUR (stop_time r), count_star g))
         (group_by (\<lambda>r. (YEAR (stop_date r), MONTH (stop_date r), HOUR (stop_time r))) t))"

definition high_search_arrest ::
    "table \<Rightarrow> (string \<times> int \<times> decimal option \<times> decimal option \<times> decimal option
      \<times> decimal option) list" where
  "high_search_arrest t =
     order_by (\<lambda>(viol, total_stops, searches, arrests, search_rate, arrest_rate).
         desc_dec arrest_rate)
       (map (\<lambda>(r, g). (violation r, count_star g, sum_case is_search g, sum_case is_arrest g,
                       rate_pct (sum_case is_search g) (count_star g),
                       rate_pct (sum_case is_arrest g) (count_star g)))
         (group_by (\<lambda>r. collate (violation r)) t))"

definition demographics_by_country ::
    "table \<Rightarrow> (string \<times> string \<times> string \<times> string \<times> int) list" where
  "demographics_by_country t =
     order_by (\<lambda>(country, gender, race, age_grp, total). (collate country, desc total))
       (map (\<lambda>(r, g). (country_name r, driver_gender r, driver_race r,
                       age_group (driver_age r), count_star g))
         (group_by (\<lambda>r. (collate (country_name r), collate (driver_gender r),
                          collate (driver_race r), collate (age_group (driver_age r)))) t))"

definition top5_arrest_rate ::
    "table \<Rightarrow> (string \<times> int \<times> decimal option \<times> decimal option) list" where
  "top5_arrest_rate t =
     limit 5 (order_by (\<lambda>(viol, total_stops, arrests, arrest_rate). desc_dec arrest_rate)
       (map (\<lambda>(r, g). (violation r, count_star g, sum_case is_arrest g,
                       rate_pct (sum_case is_arrest g) (count_star g)))
         (group_by (\<lambda>r. collate (violation r)) t)))"

lemmas advanced_query_defs =
  yearly_breakdown_def age_race_view_def violation_trends_def time_period_analysis_def
  high_search_arrest_def demographics_by_country_def top5_arrest_rate_def

section \<open>Row printers\<close>

definition row_siidd :: "string \<times> int \<times> int \<times> decimal option \<times> decimal option \<Rightarrow> cell list" where
  "row_siidd = (\<lambda>(a, y, n, x, z). [CStr a, CInt y, CInt n, cell_of_dec x, cell_of_dec z])"

definition row_sssi :: "string \<times> string \<times> string \<times> int \<Rightarrow> cell list" where
  "row_sssi = (\<lambda>(a, b, c, n). [CStr a, CStr b, CStr c, CInt n])"

definition row_iiii :: "int \<times> int \<times> int \<times> int \<Rightarrow> cell list" where
  "row_iiii = (\<lambda>(a, b, c, n). [CInt a, CInt b, CInt c, CInt n])"

definition row_sidddd ::
    "string \<times> int \<times> decimal option \<times> decimal option \<times> decimal option \<times> decimal option
      \<Rightarrow> cell list" where
  "row_sidddd = (\<lambda>(a, n, w, x, y, z).
     [CStr a, CInt n, cell_of_dec w, cell_of_dec x, cell_of_dec y, cell_of_dec z])"

definition row_ssssi :: "string \<times> string \<times> string \<times> string \<times> int \<Rightarrow> cell list" where
  "row_ssssi = (\<lambda>(a, b, c, d, n). [CStr a, CStr b, CStr c, CStr d, CInt n])"

lemmas adv_row_defs = row_siidd_def row_sssi_def row_iiii_def row_sidddd_def row_ssssi_def
  row_sidd_def

section \<open>The menu and the dispatch\<close>

definition advanced_options :: "string list" where
  "advanced_options =
     [''Yearly Breakdown: Stops & Arrests by Country'',
      ''Driver Violation Trends by Age and Race'',
      ''Time Period Analysis (Year, Month, Hour)'',
      ''Violations with High Search & Arrest Rates'',
      ''Driver Demographics by Country'',
      ''Top 5 Violations with Highest Arrest Rates'']"

definition advanced_sql :: "string \<Rightarrow> (table \<Rightarrow> frame) option" where
  "advanced_sql adv_query =
     (if adv_query = ''Yearly Breakdown: Stops & Arrests by Country'' then
        Some (\<lambda>t. to_frame
                [''country_name'', ''year'', ''total_stops'', ''total_arrests'', ''arrest_rate'']
                row_siidd (yearly_breakdown t))
      else if adv_query = ''Driver Violation Trends by Age and Race'' then
        Some (\<lambda>t. to_frame [''driver_race'', ''age_group'', ''violation'', ''total_stops'']
                row_sssi (violation_trends t))
      else if adv_query = ''Time Period Analysis (Year, Month, Hour)'' then
        Some (\<lambda>t. to_frame [''year'', ''month'', ''hour'', ''total_stops''] row_iiii
                (time_period_analysis t))
      else if adv_query = ''Violations with High Search & Arrest Rates'' then
        Some (\<lambda>t. to_frame
                [''violation'', ''total_stops'', ''searches'', ''arrests'', ''search_rate'',
                 ''arrest_rate'']
                row_sidddd (high_search_arrest t))
      else if adv_query = ''Driver Demographics by Country'' then
        Some (\<lambda>t. to_frame
                [''country_name'', ''driver_gender'', ''driver_race'', ''age_group'', ''total'']
                row_ssssi (demographics_by_country t))
      else if adv_query = ''Top 5 Violations with Highest Arrest Rates'' then
        Some (\<lambda>t. to_frame [''violation'', ''total_stops'', ''arrests'', ''arrest_rate'']
                row_sidd (top5_arrest_rate t))
      else None)"

definition run_advanced :: "bool \<Rightarrow> string \<Rightarrow> db \<Rightarrow> frame option result \<times> db" where
  "run_advanced pressed adv_query s =
     (if \<not> pressed then (Inr None, s)
      else case advanced_sql adv_query of
             None \<Rightarrow> (Inl NameError, s)
           | Some q \<Rightarrow>
               (case run_query (\<lambda>t. Inr (q t)) s of
                  (Inl e, s') \<Rightarrow> (Inl e, s')
                | (Inr df, s') \<Rightarrow> (Inr (Some df), s')))"



text \<open>Six stops with six different violations, the last of which ended in an arrest.\<close>

definition violation_stop :: "string \<Rightarrow> string \<Rightarrow> stop" where
  "violation_stop viol outcome =
     mk_stop 2020 10 ''India'' ''M'' 30 ''Asian'' viol False outcome ''0-15 Min'' ''KA01AB1234''"

definition six_violations :: table where
  "six_violations =
     [violation_stop ''Speeding'' ''Ticket'', violation_stop ''Seatbelt'' ''Warning'',
      violation_stop ''Signal'' ''Ticket'', violation_stop ''Other'' ''Warning'',
      violation_stop ''Equipment'' ''Ticket'', violation_stop ''DUI'' ''Arrest'']"

section \<open>The menu, the dispatch and the frames\<close>

lemma adv_row_lengths [simp]:
  "length (row_siidd a) = 5" "length (row_sssi b) = 4" "length (row_iiii c) = 4"
  "length (row_sidddd d) = 6" "length (row_ssssi e) = 5"
  by (simp_all add: adv_row_defs split: prod.split)

lemma advanced_frames_wf:
  assumes "advanced_sql adv_query = Some q"
  shows "wf_frame (q t)"
  using assms
  by (auto simp: advanced_sql_def wf_frame_def list_all_iff split: if_splits)

lemma advanced_no_null:
  assumes "advanced_sql adv_query = Some q" "row \<in> set (rows (q t))"
  shows "CNull \<notin> set row"
  using assms
  by (auto simp: advanced_sql_def advanced_query_defs adv_row_defs not_null_in_group
      split: if_splits dest!: in_set_limitD group_by_nonempty)

text \<open>
  C29. The \<^verbatim>\<open>if\<close>/\<^verbatim>\<open>elif\<close> chain of the advanced insights has a branch for a label
  exactly when the label is one of the six that the select box offers.
\<close>

theorem advanced_sql_menu: "advanced_sql adv_query \<noteq> None \<longleftrightarrow> adv_query \<in> set advanced_options"
  by (simp add: advanced_sql_def advanced_options_def)

section \<open>The handler\<close>

lemma advanced_sql_Some:
  "adv_query \<in> set advanced_options \<Longrightarrow> \<exists>q. advanced_sql adv_query = Some q"
  by (auto simp: advanced_sql_def advanced_options_def)

lemma run_advanced_cases:
  "run_advanced pressed adv_query s =
     (if \<not> pressed then (Inr None, s)
      else case advanced_sql adv_query of
             None \<Rightarrow> (Inl NameError, s)
           | Some q \<Rightarrow>
               if \<not> server_up s then (Inl ConnectError, s)
               else if \<not> schema_ok s
                 then (Inl DatabaseError, s\<lparr>open_conns := Suc (open_conns s)\<rparr>)
               else (Inr (Some (q (contents s))), s))"
  by (simp add: run_advanced_def run_query_cases split: option.split)

lemma run_advanced_step:
  "db_step (fst (run_advanced pressed adv_query s)) s (snd (run_advanced pressed adv_query s))"
  by (simp add: run_advanced_def run_query_cases db_step_def split: option.split)

text \<open>
  C28. When the button is pressed with a label of the menu and the server is up and the
  table is there, the handler shows the frame of that label's statement over the current
  table; the frame has one cell per column in every row and no \<^verbatim>\<open>NULL\<close>, and the
  database state is as it was before.
\<close>

theorem run_advanced_ok:
  assumes "adv_query \<in> set advanced_options" "server_up s" "schema_ok s"
  shows "\<exists>q. advanced_sql adv_query = Some q
           \<and> run_advanced True adv_query s = (Inr (Some (q (contents s))), s)
           \<and> wf_frame (q (contents s))
           \<and> (\<forall>row \<in> set (rows (q (contents s))). CNull \<notin> set row)"
proof -
  from assms(1) obtain q where q: "advanced_sql adv_query = Some q"
    by (auto simp: advanced_sql_def advanced_options_def)
  with assms(2,3) have "run_advanced True adv_query s = (Inr (Some (q (contents s))), s)"
    by (simp add: run_advanced_def adapter_defs)
  with q advanced_frames_wf [OF q] advanced_no_null [OF q] show ?thesis
    by blast
qed

theorem run_advanced_ok_witness:
  "\<exists>q. advanced_sql ''Top 5 Violations with Highest Arrest Rates'' = Some q
       \<and> run_advanced True ''Top 5 Violations with Highest Arrest Rates'' sample_db
           = (Inr (Some (q (contents sample_db))), sample_db)"
  using run_advanced_ok [of "''Top 5 Violations with Highest Arrest Rates''" sample_db]
  by (auto simp: advanced_options_def sample_db_def)

text \<open>
  C37. The handler of the advanced insights fails in exactly three ways: \<^verbatim>\<open>NameError\<close>
  for a label outside the menu, the connection error when the server refuses, and the
  database error when the statement cannot execute, which leaves the connection open.
\<close>

theorem run_advanced_errors:
  assumes "run_advanced True adv_query s = (Inl e, s')"
  shows "(e = NameError \<and> adv_query \<notin> set advanced_options \<and> s' = s)
       \<or> (e = ConnectError \<and> \<not> server_up s \<and> s' = s)
       \<or> (e = DatabaseError \<and> server_up s \<and> \<not> schema_ok s
            \<and> s' = s\<lparr>open_conns := Suc (open_conns s)\<rparr>)"
proof (cases "advanced_sql adv_query")
  case None
  then have "adv_query \<notin> set advanced_options"
    by (simp add: advanced_sql_def advanced_options_def split: if_splits)
  with assms None show ?thesis
    by (simp add: run_advanced_def)
next
  case (Some q)
  with assms show ?thesis
    by (auto simp: run_advanced_def adapter_defs split: if_splits)
qed

theorem run_advanced_errors_witness:
  "run_advanced True ''Yearly Breakdown'' sample_db = (Inl NameError, sample_db)
   \<and> ''Yearly Breakdown'' \<notin> set advanced_options"
proof -
  obtain e s' where r: "run_advanced True ''Yearly Breakdown'' sample_db = (Inl e, s')"
    by (simp add: run_advanced_def advanced_sql_def)
  from run_advanced_errors [OF r] r show ?thesis
    by (auto simp: sample_db_def)
qed

section \<open>The derived table\<close>

text \<open>
  Selecting from the derived table changes nothing but the notation: the statement is the
  grouping of the table itself by race, age group and violation.
\<close>

lemma violation_trends_flat:
  "violation_trends t =
     order_by (\<lambda>(race, age_grp, viol, total_stops). (collate race, collate age_grp, desc total_stops))
       (map (\<lambda>(r, g). (driver_race r, age_group (driver_age r), violation r, count_star g))
         (group_by (\<lambda>r. (collate (driver_race r), collate (age_group (driver_age r)),
                          collate (violation r))) t))"
  by (simp add: violation_trends_def age_race_view_def group_by_map split_def comp_def
      count_star_def)

text \<open>
  C21. Each row of ``Driver Violation Trends by Age and Race'' holds a race, one of the
  five age groups and a violation together with the number of stops of the table that
  have this race and this violation under the collation and whose driver's age falls in
  the group; that number is positive. The rows are ordered by race, then age group, then
  descending count, and their counts add up to the number of stops.
\<close>

theorem violation_trends_rows:
  assumes "(race, age_grp, viol, n) \<in> set (violation_trends t)"
  shows "n = int (length (filter (\<lambda>r. sql_eq (driver_race r) race
                 \<and> age_group (driver_age r) = age_grp \<and> sql_eq (violation r) viol) t))
       \<and> 0 < n \<and> age_grp \<in> set age_labels
       \<and> sorted (map (\<lambda>(race, age_grp, viol, total_stops).
                   (collate race, collate age_grp, desc total_stops)) (violation_trends t))
       \<and> sum_list (map (\<lambda>(race, age_grp, viol, total_stops). total_stops) (violation_trends t))
           = int (length t)"
proof -
  let ?k = "\<lambda>r :: stop. (collate (driver_race r), collate (age_group (driver_age r)),
      collate (violation r))"
  let ?rows = "map (\<lambda>(r, g). (driver_race r, age_group (driver_age r), violation r, count_star g))
      (group_by ?k t)"
  from assms have "(race, age_grp, viol, n) \<in> set ?rows"
    by (simp add: violation_trends_flat)
  from in_select_groupsD [OF this] obtain r :: stop where r: "r \<in> set t"
    "race = driver_race r" "age_grp = age_group (driver_age r)" "viol = violation r"
    "n = count_star (filter (\<lambda>x. ?k x = ?k r) t)"
    by auto
  have g: "filter (\<lambda>x. ?k x = ?k r) t
      = filter (\<lambda>r. sql_eq (driver_race r) race \<and> age_group (driver_age r) = age_grp
          \<and> sql_eq (violation r) viol) t"
    using r(2,3,4) by (simp add: sql_eq_def collate_age_group_eq_iff)
  from r(1) have "filter (\<lambda>x. ?k x = ?k r) t \<noteq> []"
    by (rule filter_eq_key_nonempty)
  with r(5) have "n = int (length (filter (\<lambda>r. sql_eq (driver_race r) race
                 \<and> age_group (driver_age r) = age_grp \<and> sql_eq (violation r) viol) t)) \<and> 0 < n"
    unfolding g by (simp add: count_star_def)
  moreover from r(3) have "age_grp \<in> set age_labels"
    by (simp add: age_group_in_labels)
  moreover have "sorted (map (\<lambda>(race, age_grp, viol, total_stops).
                   (collate race, collate age_grp, desc total_stops)) (violation_trends t))"
    unfolding violation_trends_def by (rule sorted_order_by)
  moreover have "sum_list (map (\<lambda>(race, age_grp, viol, total_stops). total_stops)
      (violation_trends t)) = int (length t)"
    using sum_count_star_groups [of ?k t] by (simp add: violation_trends_flat split_def comp_def)
  ultimately show ?thesis
    by blast
qed

lemma violation_trends_sample:
  "violation_trends sample_table =
     [(''Asian'', ''26-40'', ''DUI'', 1), (''Asian'', ''Under 18'', ''Speeding'', 1),
      (''Black'', ''60+'', ''DUI'', 1), (''White'', ''41-60'', ''dui'', 1)]"
  by (simp add: violation_trends_def age_race_view_def sample_defs sql_defs ci_char_def)

theorem violation_trends_rows_witness:
  "(''Asian'', ''26-40'', ''DUI'', 1) \<in> set (violation_trends sample_table)
   \<and> (1::int) = int (length (filter (\<lambda>r. sql_eq (driver_race r) ''Asian''
         \<and> age_group (driver_age r) = ''26-40'' \<and> sql_eq (violation r) ''DUI'') sample_table))
   \<and> sum_list (map (\<lambda>(race, age_grp, viol, total_stops). total_stops)
        (violation_trends sample_table)) = 4"
  using violation_trends_rows [of "''Asian''" "''26-40''" "''DUI''" 1 sample_table]
  by (simp add: violation_trends_sample)

section \<open>Rows of the statements\<close>

lemma yearly_breakdown_sample:
  "yearly_breakdown sample_table =
     [(''Canada'', 2021, 2, Some \<lparr>mant = 1, dscale = 0\<rparr>, Some \<lparr>mant = 5000, dscale = 2\<rparr>),
      (''India'', 2020, 2, Some \<lparr>mant = 1, dscale = 0\<rparr>, Some \<lparr>mant = 5000, dscale = 2\<rparr>)]"
  by (simp add: yearly_breakdown_def sample_defs sql_defs ci_char_def decimal_defs
      round_div_def dec_value_def YEAR_def)

text \<open>
  C22. Each row of ``Yearly Breakdown: Stops & Arrests by Country'' holds, for its country
  and year, the positive number of stops of that country in that year, the number of
  those that ended in an arrest, and the rate 100 times the second over the first,
  rounded to two places.
\<close>

theorem yearly_breakdown_rows:
  assumes "(c, y, n, a, rate) \<in> set (yearly_breakdown t)"
  shows "n = int (length (filter (\<lambda>r. sql_eq (country_name r) c \<and> YEAR (stop_date r) = y) t))
       \<and> 0 < n
       \<and> a = Some (dec_of_int (int (length
             (filter (\<lambda>r. (sql_eq (country_name r) c \<and> YEAR (stop_date r) = y) \<and> is_arrest r) t))))
       \<and> rate = rate_spec (int (length
             (filter (\<lambda>r. (sql_eq (country_name r) c \<and> YEAR (stop_date r) = y) \<and> is_arrest r) t))) n"
proof -
  let ?k = "\<lambda>r :: stop. (collate (country_name r), YEAR (stop_date r))"
  from assms have "(c, y, n, a, rate) \<in> set (map (\<lambda>(r, g). (country_name r, YEAR (stop_date r),
        count_star g, sum_case is_arrest g, rate_pct (sum_case is_arrest g) (count_star g)))
      (group_by ?k t))"
    by (simp add: yearly_breakdown_def)
  from in_select_groupsD [OF this] obtain r :: stop where r: "r \<in> set t"
    "c = country_name r" "y = YEAR (stop_date r)"
    "n = count_star (filter (\<lambda>x. ?k x = ?k r) t)"
    "a = sum_case is_arrest (filter (\<lambda>x. ?k x = ?k r) t)"
    "rate = rate_pct (sum_case is_arrest (filter (\<lambda>x. ?k x = ?k r) t))
        (count_star (filter (\<lambda>x. ?k x = ?k r) t))"
    by auto
  have g: "filter (\<lambda>x. ?k x = ?k r) t
      = filter (\<lambda>r. sql_eq (country_name r) c \<and> YEAR (stop_date r) = y) t"
    using r(2,3) by (simp add: sql_eq_def)
  from r(1) have ne: "filter (\<lambda>x. ?k x = ?k r) t \<noteq> []"
    by (rule filter_eq_key_nonempty)
  with r(4,5,6) show ?thesis
    unfolding g by (simp add: sum_case_nonempty rate_pct_of_counts count_star_def)
qed

theorem yearly_breakdown_rows_witness:
  "(''India'', 2020, 2, Some \<lparr>mant = 1, dscale = 0\<rparr>, Some \<lparr>mant = 5000, dscale = 2\<rparr>)
     \<in> set (yearly_breakdown sample_table)
   \<and> (2::int) = int (length (filter
         (\<lambda>r. sql_eq (country_name r) ''India'' \<and> YEAR (stop_date r) = 2020) sample_table))"
  using yearly_breakdown_rows [of "''India''" 2020 2 "Some \<lparr>mant = 1, dscale = 0\<rparr>"
      "Some \<lparr>mant = 5000, dscale = 2\<rparr>" sample_table]
  by (simp add: yearly_breakdown_sample)

text \<open>
  C34. ``Time Period Analysis (Year, Month, Hour)'' counts every stop of the table exactly
  once: the counts add up to the number of rows, and the rows are in ascending
  lexicographic order of year, month and hour without repetition.
\<close>

theorem time_period_analysis_total:
  "sum_list (map (\<lambda>(y, m, h, n). n) (time_period_analysis t)) = int (length t)
   \<and> sorted (map (\<lambda>(y, m, h, n). (y, m, h)) (time_period_analysis t))
   \<and> distinct (map (\<lambda>(y, m, h, n). (y, m, h)) (time_period_analysis t))"
proof -
  let ?k = "\<lambda>r :: stop. (YEAR (stop_date r), MONTH (stop_date r), HOUR (stop_time r))"
  let ?rows = "map (\<lambda>(r, g). (YEAR (stop_date r), MONTH (stop_date r), HOUR (stop_time r),
      count_star g)) (group_by ?k t)"
  have "sum_list (map (\<lambda>(y, m, h, n). n) ?rows) = int (length t)"
    using sum_count_star_groups [of ?k t] by (simp add: split_def comp_def)
  moreover have "distinct (map (\<lambda>(y, m, h, n). (y, m, h)) ?rows)"
    by (rule distinct_select_keys) simp
  ultimately show ?thesis
    by (simp add: time_period_analysis_def)
qed

lemma top5_six_violations:
  "top5_arrest_rate six_violations =
     [(''DUI'', 1, Some \<lparr>mant = 1, dscale = 0\<rparr>, Some \<lparr>mant = 10000, dscale = 2\<rparr>),
      (''Speeding'', 1, Some \<lparr>mant = 0, dscale = 0\<rparr>, Some \<lparr>mant = 0, dscale = 2\<rparr>),
      (''Seatbelt'', 1, Some \<lparr>mant = 0, dscale = 0\<rparr>, Some \<lparr>mant = 0, dscale = 2\<rparr>),
      (''Signal'', 1, Some \<lparr>mant = 0, dscale = 0\<rparr>, Some \<lparr>mant = 0, dscale = 2\<rparr>),
      (''Other'', 1, Some \<lparr>mant = 0, dscale = 0\<rparr>, Some \<lparr>mant = 0, dscale = 2\<rparr>)]"
  by (simp add: top5_arrest_rate_def six_violations_def violation_stop_def sample_defs sql_defs
      ci_char_def decimal_defs round_div_def dec_value_def)

text \<open>
  C10. The cap of five is applied after the ordering by rate: when a violation of the
  table is missing from ``Top 5 Violations with Highest Arrest Rates'', the list has five
  rows and the arrest rate of the missing violation is at most the rate of every listed
  one.
\<close>

theorem top5_arrest_rate_top:
  assumes "(v, n, a, rate) \<in> set (top5_arrest_rate t)" "r \<in> set t"
    "\<forall>(v', n', a', rate') \<in> set (top5_arrest_rate t). \<not> sql_eq (violation r) v'"
  shows "\<exists>x y. rate = Some x
       \<and> rate_spec (int (length (filter (\<lambda>z. sql_eq (violation z) (violation r) \<and> is_arrest z) t)))
            (int (length (filter (\<lambda>z. sql_eq (violation z) (violation r)) t))) = Some y
       \<and> dec_value y \<le> dec_value x \<and> length (top5_arrest_rate t) = 5"
proof -
  let ?k = "\<lambda>r :: stop. collate (violation r)"
  let ?h = "\<lambda>(r :: stop) g. (violation r, count_star g, sum_case is_arrest g,
      rate_pct (sum_case is_arrest g) (count_star g))"
  let ?key = "\<lambda>(viol :: string, total_stops :: int, arrests :: decimal option, arrest_rate).
      desc_dec arrest_rate"
  let ?rows = "map (\<lambda>(r, g). ?h r g) (group_by ?k t)"
  let ?g = "filter (\<lambda>z. ?k z = ?k r) t"
  from group_row_exists [OF assms(2), of ?k ?h]
  obtain r' :: stop where r': "?k r' = ?k r" "?h r' ?g \<in> set ?rows"
    by blast
  from r'(1) assms(3) have out: "?h r' ?g \<notin> set (top5_arrest_rate t)"
    by (auto simp: sql_eq_def)
  with assms(1) r'(2) have le: "?key (v, n, a, rate) \<le> ?key (?h r' ?g)"
    using limit_order_by_top [of "(v, n, a, rate)" 5 ?key ?rows "?h r' ?g"]
    by (simp add: top5_arrest_rate_def)
  from assms(2) have ne: "?g \<noteq> []"
    by (rule filter_eq_key_nonempty)
  from assms(1) have "(v, n, a, rate) \<in> set ?rows"
    by (auto simp: top5_arrest_rate_def dest: in_set_limitD)
  then obtain x where x: "rate = Some x"
    by (auto dest!: group_by_nonempty simp: rate_in_group)
  from ne obtain y where y: "rate_pct (sum_case is_arrest ?g) (count_star ?g) = Some y"
    by (cases "rate_pct (sum_case is_arrest ?g) (count_star ?g)")
      (simp_all add: rate_pct_eq_None_iff sum_case_eq_None_iff count_star_def)
  from le x y have "dec_value y \<le> dec_value x"
    by (simp add: desc_dec_def less_eq_prod_def)
  moreover from ne y have "rate_spec (int (length (filter is_arrest ?g))) (int (length ?g)) = Some y"
    by (simp add: sum_case_nonempty rate_pct_of_counts count_star_def)
  moreover have "length (top5_arrest_rate t) = 5"
    using limit_order_by_full [of "?h r' ?g" ?rows 5 ?key] r'(2) out
    by (simp add: top5_arrest_rate_def)
  ultimately show ?thesis
    using x by (simp add: sql_eq_def conj_commute)
qed

theorem top5_arrest_rate_top_witness:
  "(''DUI'', 1, Some \<lparr>mant = 1, dscale = 0\<rparr>, Some \<lparr>mant = 10000, dscale = 2\<rparr>)
     \<in> set (top5_arrest_rate six_violations)
   \<and> violation_stop ''Equipment'' ''Ticket'' \<in> set six_violations
   \<and> length (top5_arrest_rate six_violations) = 5"
proof -
  let ?r = "violation_stop ''Equipment'' ''Ticket''"
  have r: "?r \<in> set six_violations"
    by (simp add: six_violations_def)
  have "\<forall>(v', n', a', rate') \<in> set (top5_arrest_rate six_violations). \<not> sql_eq (violation ?r) v'"
    by (simp add: top5_six_violations violation_stop_def sample_defs sql_defs ci_char_def)
  from top5_arrest_rate_top [OF _ r this, of "''DUI''" 1 "Some \<lparr>mant = 1, dscale = 0\<rparr>"
      "Some \<lparr>mant = 10000, dscale = 2\<rparr>"] r
  show ?thesis
    by (auto simp: top5_six_violations)
qed

end
