(* ===== verification/Visual.thy ===== *)
theory Visual
  imports Insights
begin

text \<open>
  The section ``Visual Insights'' of \<^verbatim>\<open>src/3.streamlit.py\<close> (lines 104 to 203): three
  tabs, each with one grouped count, a dictionary of colours and a Plotly figure. The
  blocks of all three tabs run on every script run, in the order of the source.

  A figure is what the script passes to Plotly: the kind of chart, the frame, the columns
  named for the axes (or for the names and values of a pie), the column that selects the
  colour, the colour dictionary and the layout. \<open>px_bar\<close> and \<open>px_pie\<close> model the one
  behaviour of \<^verbatim>\<open>plotly.express\<close> that depends on the script: a column name that the
  frame does not have raises \<^verbatim>\<open>ValueError\<close>. How Plotly draws the figure, and which
  colour it picks for a label, are outside the model.

  \<open>visual_insights\<close> is the section: the three statements run one after the other,
  and the first exception ends the script run.

  The lemmas show that every chart counts each stop once, that the bars of the first
  chart are in descending order, and that the section cannot raise \<^verbatim>\<open>ValueError\<close>
  (the columns the figures name are the aliases of the statements).
\<close>

section \<open>The statements\<close>

definition vis_query :: "table \<Rightarrow> (string \<times> int) list" where
  "vis_query t =
     order_by (\<lambda>(viol, cnt). desc cnt)
       (map (\<lambda>(r, g). (violation r, count_star g))
         (group_by (\<lambda>r. collate (violation r)) t))"

definition gen_query :: "table \<Rightarrow> (string \<times> int) list" where
  "gen_query t =
     map (\<lambda>(r, g). (driver_gender r, count_star g))
       (group_by (\<lambda>r. collate (driver_gender r)) t)"

definition out_query :: "table \<Rightarrow> (string \<times> int) list" where
  "out_query t =
     map (\<lambda>(r, g). (stop_outcome r, count_star g))
       (group_by (\<lambda>r. collate (stop_outcome r)) t)"

lemmas visual_query_defs = vis_query_def gen_query_def out_query_def

section \<open>The colour dictionaries\<close>

definition color_map :: "(string \<times> string) list" where
  "color_map =
     [(''Speeding'', ''#1f77b4''), (''Seatbelt'', ''#ffe70e''), (''DUI'', ''#d62728''),
      (''Other'', ''#2ca02c''), (''Signal'', ''#ff7f0e'')]"

definition gender_colors :: "(string \<times> string) list" where
  "gender_colors = [(''M'', ''#1f77b4''), (''F'', ''#e377c2'')]"

definition outcome_colors :: "(string \<times> string) list" where
  "outcome_colors =
     [(''Arrest'', ''#d62728''), (''Warning'', ''#ff7f0e''), (''Ticket'', ''#1f77b4'')]"

section \<open>Figures\<close>

datatype chart = Bar | Pie

record figure =
  kind :: chart
  data_frame :: frame
  x_names :: string
  y_values :: string
  color :: string
  color_discrete_map :: "(string \<times> string) list"
  hole :: "rat option"
  xaxis_title :: "string option"
  yaxis_title :: "string option"
  showlegend :: "bool option"

definition px_figure ::
    "chart \<Rightarrow> rat option \<Rightarrow> frame \<Rightarrow> string \<Rightarrow> string \<Rightarrow> string \<Rightarrow> (string \<times> string) list
      \<Rightarrow> figure result" where
  "px_figure k h df x y c cmap =
     (if x \<in> set (columns df) \<and> y \<in> set (columns df) \<and> c \<in> set (columns df)
      then Inr \<lparr>kind = k, data_frame = df, x_names = x, y_values = y, color = c,
                color_discrete_map = cmap, hole = h, xaxis_title = None, yaxis_title = None,
                showlegend = None\<rparr>
      else Inl ValueError)"

definition px_bar ::
    "frame \<Rightarrow> string \<Rightarrow> string \<Rightarrow> string \<Rightarrow> (string \<times> string) list \<Rightarrow> figure result" where
  "px_bar df x y c cmap = px_figure Bar None df x y c cmap"

definition px_pie ::
    "frame \<Rightarrow> string \<Rightarrow> string \<Rightarrow> string \<Rightarrow> (string \<times> string) list \<Rightarrow> rat \<Rightarrow> figure result" where
  "px_pie df names vals c cmap h = px_figure Pie (Some h) df names vals c cmap"

text \<open>
  \<^verbatim>\<open>fig.update_layout(..)\<close> with the three keywords the script uses; \<open>None\<close> is a
  keyword that the call does not pass, which leaves the property as it is.
\<close>

definition update_layout ::
    "string option \<Rightarrow> string option \<Rightarrow> bool option \<Rightarrow> figure \<Rightarrow> figure" where
  "update_layout xt yt legend fig =
     fig\<lparr>xaxis_title := (case xt of None \<Rightarrow> xaxis_title fig | Some a \<Rightarrow> Some a),
         yaxis_title := (case yt of None \<Rightarrow> yaxis_title fig | Some a \<Rightarrow> Some a),
         showlegend := (case legend of None \<Rightarrow> showlegend fig | Some b \<Rightarrow> Some b)\<rparr>"

section \<open>The three tabs\<close>

definition tab1 :: "db \<Rightarrow> figure result \<times> db" where
  "tab1 s =
     (case run_query (\<lambda>t. Inr (to_frame [''Violation'', ''Count''] row_si (vis_query t))) s of
        (Inl e, s') \<Rightarrow> (Inl e, s')
      | (Inr df_vis, s') \<Rightarrow>
          (map_sum id (update_layout (Some ''Violation Type'') (Some ''Count'') (Some True))
             (px_bar df_vis ''Violation'' ''Count'' ''Violation'' color_map), s'))"

definition tab2 :: "db \<Rightarrow> figure result \<times> db" where
  "tab2 s =
     (case run_query (\<lambda>t. Inr (to_frame [''Gender'', ''Count''] row_si (gen_query t))) s of
        (Inl e, s') \<Rightarrow> (Inl e, s')
      | (Inr df_gen, s') \<Rightarrow>
          (map_sum id (update_layout None None (Some True))
             (px_pie df_gen ''Gender'' ''Count'' ''Gender'' gender_colors (4 / 10)), s'))"

definition tab3 :: "db \<Rightarrow> figure result \<times> db" where
  "tab3 s =
     (case run_query (\<lambda>t. Inr (to_frame [''Outcome'', ''Count''] row_si (out_query t))) s of
        (Inl e, s') \<Rightarrow> (Inl e, s')
      | (Inr df_out, s') \<Rightarrow>
          (map_sum id (update_layout (Some ''Outcome'') (Some ''Count'') (Some True))
             (px_bar df_out ''Outcome'' ''Count'' ''Outcome'' outcome_colors), s'))"

definition visual_insights :: "db \<Rightarrow> figure list result \<times> db" where
  "visual_insights s =
     (case tab1 s of
        (Inl e, s1) \<Rightarrow> (Inl e, s1)
      | (Inr fig1, s1) \<Rightarrow>
          (case tab2 s1 of
             (Inl e, s2) \<Rightarrow> (Inl e, s2)
           | (Inr fig2, s2) \<Rightarrow>
               (case tab3 s2 of
                  (Inl e, s3) \<Rightarrow> (Inl e, s3)
                | (Inr fig3, s3) \<Rightarrow> (Inr [fig1, fig2, fig3], s3))))"


lemmas visual_defs = tab1_def tab2_def tab3_def visual_insights_def px_bar_def px_pie_def
  px_figure_def update_layout_def

section \<open>The dictionaries\<close>

lemma distinct_colour_keys:
  "distinct (map fst color_map)" "distinct (map fst gender_colors)"
  "distinct (map fst outcome_colors)"
  by (simp_all add: color_map_def gender_colors_def outcome_colors_def)

section \<open>The charts\<close>

lemma tab_cases:
  "tab1 s = (if \<not> server_up s then (Inl ConnectError, s)
     else if \<not> schema_ok s then (Inl DatabaseError, s\<lparr>open_conns := Suc (open_conns s)\<rparr>)
     else (Inr \<lparr>kind = Bar,
            data_frame = to_frame [''Violation'', ''Count''] row_si (vis_query (contents s)),
            x_names = ''Violation'', y_values = ''Count'', color = ''Violation'',
            color_discrete_map = color_map, hole = None, xaxis_title = Some ''Violation Type'',
            yaxis_title = Some ''Count'', showlegend = Some True\<rparr>, s))"
  "tab2 s = (if \<not> server_up s then (Inl ConnectError, s)
     else if \<not> schema_ok s then (Inl DatabaseError, s\<lparr>open_conns := Suc (open_conns s)\<rparr>)
     else (Inr \<lparr>kind = Pie,
            data_frame = to_frame [''Gender'', ''Count''] row_si (gen_query (contents s)),
            x_names = ''Gender'', y_values = ''Count'', color = ''Gender'',
            color_discrete_map = gender_colors, hole = Some (4 / 10), xaxis_title = None,
            yaxis_title = None, showlegend = Some True\<rparr>, s))"
  "tab3 s = (if \<not> server_up s then (Inl ConnectError, s)
     else if \<not> schema_ok s then (Inl DatabaseError, s\<lparr>open_conns := Suc (open_conns s)\<rparr>)
     else (Inr \<lparr>kind = Bar,
            data_frame = to_frame [''Outcome'', ''Count''] row_si (out_query (contents s)),
            x_names = ''Outcome'', y_values = ''Count'', color = ''Outcome'',
            color_discrete_map = outcome_colors, hole = None, xaxis_title = Some ''Outcome'',
            yaxis_title = Some ''Count'', showlegend = Some True\<rparr>, s))"
  by (simp_all add: tab1_def tab2_def tab3_def px_bar_def px_pie_def px_figure_def
      update_layout_def run_query_cases)

lemma visual_insights_step: "db_step (fst (visual_insights s)) s (snd (visual_insights s))"
  by (simp add: visual_insights_def tab_cases db_step_def)

text \<open>
  C25. With the server up and the table intact the section draws three figures, a bar
  chart of the stops by violation, a pie of the stops by gender and a bar chart of the
  stops by outcome, each over the frame of its statement, and leaves the database state
  as it was.
\<close>

theorem visual_insights_ok:
  assumes "server_up s" "schema_ok s"
  shows "\<exists>fig1 fig2 fig3. visual_insights s = (Inr [fig1, fig2, fig3], s)
       \<and> kind fig1 = Bar \<and> kind fig2 = Pie \<and> kind fig3 = Bar
       \<and> rows (data_frame fig1) = map row_si (vis_query (contents s))
       \<and> rows (data_frame fig2) = map row_si (gen_query (contents s))
       \<and> rows (data_frame fig3) = map row_si (out_query (contents s))
       \<and> (\<forall>fig \<in> {fig1, fig2, fig3}.
             {x_names fig, y_values fig, color fig} \<subseteq> set (columns (data_frame fig)))"
  using assms by (simp add: visual_defs adapter_defs)

theorem visual_insights_ok_witness:
  "\<exists>fig1 fig2 fig3. visual_insights sample_db = (Inr [fig1, fig2, fig3], sample_db)
     \<and> rows (data_frame fig1) = [[CStr ''DUI'', CInt 3], [CStr ''Speeding'', CInt 1]]"
proof -
  have "map row_si (vis_query (contents sample_db))
      = [[CStr ''DUI'', CInt 3], [CStr ''Speeding'', CInt 1]]"
    by (simp add: vis_query_def sample_db_def sample_defs sql_defs ci_char_def row_si_def)
  with visual_insights_ok [of sample_db] show ?thesis
    by (auto simp: sample_db_def)
qed

text \<open>
  C35. The section fails only with the errors of the database adapter: the connection
  error, with nothing opened, or the database error, with one connection left open. The
  figures themselves cannot fail, because every column they name is an alias of the
  statement whose frame they draw.
\<close>

theorem visual_insights_errors:
  assumes "visual_insights s = (Inl e, s')"
  shows "(e = ConnectError \<and> \<not> server_up s \<and> s' = s)
       \<or> (e = DatabaseError \<and> server_up s \<and> \<not> schema_ok s
            \<and> s' = s\<lparr>open_conns := Suc (open_conns s)\<rparr>)"
  using assms by (auto simp: visual_defs adapter_defs split: if_splits)

theorem visual_insights_errors_witness:
  "visual_insights (sample_db\<lparr>schema_ok := False\<rparr>)
     = (Inl DatabaseError, sample_db\<lparr>schema_ok := False, open_conns := 1\<rparr>)"
proof -
  obtain e s' where r: "visual_insights (sample_db\<lparr>schema_ok := False\<rparr>) = (Inl e, s')"
    by (simp add: visual_defs adapter_defs sample_db_def)
  from visual_insights_errors [OF r] r show ?thesis
    by (simp add: sample_db_def)
qed

text \<open>
  C26. Every chart counts each stop of the table exactly once: the heights of the bars by
  violation, the slices by gender and the bars by outcome each add up to the number of
  rows, and no chart shows a category twice.
\<close>

theorem chart_totals:
  "sum_list (map snd (vis_query t)) = int (length t)
   \<and> sum_list (map snd (gen_query t)) = int (length t)
   \<and> sum_list (map snd (out_query t)) = int (length t)
   \<and> distinct (map (collate \<circ> fst) (vis_query t))
   \<and> distinct (map (collate \<circ> fst) (gen_query t))
   \<and> distinct (map (collate \<circ> fst) (out_query t))"
proof -
  have sum: "sum_list (map snd (map (\<lambda>(r, g). (c r, count_star g)) (group_by k t)))
      = int (length t)" for c :: "stop \<Rightarrow> string" and k :: "stop \<Rightarrow> string"
    using sum_count_star_groups [of k t] by (simp add: split_def comp_def)
  have dist: "distinct (map (collate \<circ> fst) (map (\<lambda>(r, g). (c r, count_star g))
      (group_by (\<lambda>r. collate (c r)) t)))" for c :: "stop \<Rightarrow> string"
    by (rule distinct_select_keys) simp
  show ?thesis
    by (simp add: visual_query_defs sum dist del: map_map)
qed

text \<open>
  C11. Each bar of ``Stops by Violation'' has the height of the number of stops whose
  violation equals the bar's label under the collation, which is positive, and the bars
  are in descending order of height.
\<close>

theorem vis_query_bars:
  assumes "(v, n) \<in> set (vis_query t)"
  shows "n = int (length (filter (\<lambda>r. sql_eq (violation r) v) t)) \<and> 0 < n
       \<and> sorted (map (\<lambda>(v, n). desc n) (vis_query t))"
proof -
  let ?k = "\<lambda>r :: stop. collate (violation r)"
  from assms have "(v, n) \<in> set (map (\<lambda>(r, g). (violation r, count_star g)) (group_by ?k t))"
    by (simp add: vis_query_def)
  from in_select_groupsD [OF this] obtain r :: stop where r: "r \<in> set t" "v = violation r"
    "n = count_star (filter (\<lambda>y. ?k y = ?k r) t)"
    by auto
  from r(1) have "r \<in> set (filter (\<lambda>y. ?k y = ?k r) t)"
    by simp
  then have "0 < length (filter (\<lambda>y. ?k y = ?k r) t)"
    by (rule length_pos_if_in_set)
  with r have "n = int (length (filter (\<lambda>r. sql_eq (violation r) v) t)) \<and> 0 < n"
    by (simp add: count_star_def sql_eq_def)
  moreover have "sorted (map (\<lambda>(v, n). desc n) (vis_query t))"
    unfolding vis_query_def by (rule sorted_order_by)
  ultimately show ?thesis
    by blast
qed

theorem vis_query_bars_witness:
  "(''DUI'', 3) \<in> set (vis_query sample_table)
   \<and> (3::int) = int (length (filter (\<lambda>r. sql_eq (violation r) ''DUI'') sample_table))"
proof -
  have "vis_query sample_table = [(''DUI'', 3), (''Speeding'', 1)]"
    by (simp add: vis_query_def sample_defs sql_defs ci_char_def)
  with vis_query_bars [of "''DUI''" 3 sample_table] show ?thesis
    by simp
qed

end
