(* ===== verification/Search.thy ===== *)
theory Search
  imports Adapter PyBuiltins
begin

text \<open>
  The section ``Vehicle Search'' of \<^verbatim>\<open>src/3.streamlit.py\<close> (lines 503 to 517): a text
  input that, when not empty, is placed between \<^verbatim>\<open>'%\<close> and \<^verbatim>\<open>%'\<close> in the text of a
  \<^verbatim>\<open>SELECT * .. WHERE vehicle_number LIKE ..\<close> statement by an f-string; the frame is
  shown with the number of its rows, or a warning when it is empty.

  The statement is the only one of the script whose text depends on the user, so it is
  modelled as text. \<open>search_sql\<close> is the f-string. What the server makes of a text is
  an argument of the section, \<open>server\<close>, of which the theorems assume \<open>like_server\<close>:
  a text that consists of the statement's head, one string literal and the final
  semicolon (\<open>parse_like\<close>) means the rows whose vehicle number matches the literal as a
  \<^verbatim>\<open>LIKE\<close> pattern (\<open>like_stmt\<close>). Of any other text nothing is assumed: the server
  may reject it or run it as whatever statement it is.

  \<open>scan_literal\<close> reads a string literal as the server does in its default mode: a
  backslash escapes the next character, a doubled quote is a quote, a single quote ends
  the literal. \<open>like_match\<close> is \<^verbatim>\<open>LIKE\<close> with \<^verbatim>\<open>%\<close>, \<^verbatim>\<open>_\<close> and the escape
  character backslash, comparing characters as the collation does. Both are written from
  the server's documentation. \<open>strict_server\<close> rejects every text outside the family
  and is an instance of \<open>like_server\<close>; so is \<open>strict_server\<close> changed at one text
  outside the family to any statement whatever.

  The lemmas show that input without quote and backslash stays inside the literal, that
  for input that also has no \<^verbatim>\<open>%\<close> and \<^verbatim>\<open>_\<close> the section lists exactly the stops
  whose vehicle number contains the input without regard to case, that the inputs
  \<^verbatim>\<open>%\<close> and \<^verbatim>\<open>_\<close> list the whole table and every stop with a vehicle number, and
  that a quote in the input that is neither doubled nor escaped ends the literal, so that
  the rest of the input is statement text and the answer is no longer determined by the
  reading of \<^verbatim>\<open>LIKE\<close>.
\<close>

section \<open>The statement text\<close>

definition quote :: char where
  "quote = CHR 0x27"

definition bslash :: char where
  "bslash = CHR 0x5C"

definition like_head :: string where
  "like_head = ''SELECT * FROM traffic_stops WHERE vehicle_number LIKE ''"

definition search_sql :: "string \<Rightarrow> string" where
  "search_sql vehicle_input =
     like_head @ [quote, CHR ''%''] @ vehicle_input @ [CHR ''%'', quote, CHR '';'']"

section \<open>How the server reads the text\<close>

definition unescape :: "char \<Rightarrow> string" where
  "unescape c =
     (if c = CHR ''0'' then [CHR 0x00]
      else if c = CHR ''b'' then [CHR 0x08]
      else if c = CHR ''n'' then [CHR 0x0A]
      else if c = CHR ''r'' then [CHR 0x0D]
      else if c = CHR ''t'' then [CHR 0x09]
      else if c = CHR ''Z'' then [CHR 0x1A]
      else if c = CHR ''%'' \<or> c = CHR ''_'' then [bslash, c]
      else [c])"

fun scan_literal :: "string \<Rightarrow> (string \<times> string) option" where
  "scan_literal [] = None"
| "scan_literal [c] = (if c = quote then Some ([], []) else None)"
| "scan_literal (c # d # cs) =
     (if c = bslash then map_option (\<lambda>(v, rest). (unescape d @ v, rest)) (scan_literal cs)
      else if c = quote then
        (if d = quote then map_option (\<lambda>(v, rest). (quote # v, rest)) (scan_literal cs)
         else Some ([], d # cs))
      else map_option (\<lambda>(v, rest). (c # v, rest)) (scan_literal (d # cs)))"

fun strip_prefix :: "string \<Rightarrow> string \<Rightarrow> string option" where
  "strip_prefix [] s = Some s"
| "strip_prefix (p # ps) [] = None"
| "strip_prefix (p # ps) (c # cs) = (if p = c then strip_prefix ps cs else None)"

definition parse_like :: "string \<Rightarrow> string option" where
  "parse_like text =
     (case strip_prefix (like_head @ [quote]) text of
        None \<Rightarrow> None
      | Some body \<Rightarrow>
          (case scan_literal body of
             None \<Rightarrow> None
           | Some (pat, rest) \<Rightarrow> if rest = '';'' then Some pat else None))"

section \<open>\<^verbatim>\<open>LIKE\<close>\<close>

fun like_match :: "string \<Rightarrow> string \<Rightarrow> bool" where
  "like_match [] s \<longleftrightarrow> s = []"
| "like_match (p # ps) [] \<longleftrightarrow> p = CHR ''%'' \<and> like_match ps []"
| "like_match (p # ps) (c # cs) \<longleftrightarrow>
     (if p = CHR ''%'' then like_match ps (c # cs) \<or> like_match (p # ps) cs
      else if p = CHR ''_'' then like_match ps cs
      else if p = bslash then
        (case ps of
           [] \<Rightarrow> c = bslash \<and> cs = []
         | q # qs \<Rightarrow> ci_char q = ci_char c \<and> like_match qs cs)
      else ci_char p = ci_char c \<and> like_match ps cs)"

text \<open>The columns of the table in the order of its declaration, and a row as cells.\<close>

definition stop_columns :: "string list" where
  "stop_columns =
     [''stop_date'', ''stop_time'', ''driver_age'', ''driver_gender'', ''driver_race'',
      ''violation'', ''search_conducted'', ''stop_outcome'', ''stop_duration'',
      ''country_name'', ''vehicle_number'']"

definition row_stop :: "stop \<Rightarrow> cell list" where
  "row_stop r =
     [CDate (stop_date r), CTime (stop_time r), CInt (driver_age r), CStr (driver_gender r),
      CStr (driver_race r), CStr (violation r), CInt (if search_conducted r then 1 else 0),
      CStr (stop_outcome r), CStr (stop_duration r), CStr (country_name r),
      CStr (vehicle_number r)]"

definition like_stmt :: "string \<Rightarrow> table \<Rightarrow> frame" where
  "like_stmt pat t =
     to_frame stop_columns row_stop (filter (\<lambda>r. like_match pat (vehicle_number r)) t)"

text \<open>Input that cannot end the literal, and input without any character that the
  literal or the pattern reads specially.\<close>

definition inert :: "string \<Rightarrow> bool" where
  "inert s \<longleftrightarrow> list_all (\<lambda>c. c \<noteq> quote \<and> c \<noteq> bslash) s"

definition plain :: "string \<Rightarrow> bool" where
  "plain s \<longleftrightarrow>
     list_all (\<lambda>c. c \<noteq> quote \<and> c \<noteq> bslash \<and> c \<noteq> CHR ''%'' \<and> c \<noteq> CHR ''_'') s"

section \<open>The server\<close>

definition like_server :: "(string \<Rightarrow> sql) \<Rightarrow> bool" where
  "like_server server \<longleftrightarrow>
     (\<forall>text pat. parse_like text = Some pat \<longrightarrow> server text = (\<lambda>t. Inr (like_stmt pat t)))"

definition strict_server :: "string \<Rightarrow> sql" where
  "strict_server text =
     (case parse_like text of
        None \<Rightarrow> (\<lambda>t. Inl DatabaseError)
      | Some pat \<Rightarrow> (\<lambda>t. Inr (like_stmt pat t)))"

section \<open>The section\<close>

datatype search_view = Idle | Warning string | Success string frame

definition vehicle_search :: "(string \<Rightarrow> sql) \<Rightarrow> string \<Rightarrow> db \<Rightarrow> search_view result \<times> db" where
  "vehicle_search server vehicle_input s =
     (if vehicle_input = [] then (Inr Idle, s)
      else case run_query (server (search_sql vehicle_input)) s of
             (Inl e, s') \<Rightarrow> (Inl e, s')
           | (Inr df_vehicle, s') \<Rightarrow>
               (if empty_frame df_vehicle
                then (Inr (Warning ''No records found for that vehicle number.''), s')
                else (Inr (Success (''Found '' @ py_str_int (int (len_frame df_vehicle))
                             @ '' record(s)'') df_vehicle), s')))"


lemmas search_defs = quote_def bslash_def like_head_def search_sql_def unescape_def
  parse_like_def inert_def plain_def

section \<open>Reading the literal\<close>

lemma strip_prefix_append [simp]: "strip_prefix p (p @ s) = Some s"
  by (induction p) simp_all

lemma quote_neq_bslash [simp]: "quote \<noteq> bslash" "bslash \<noteq> quote"
  by (simp_all add: quote_def bslash_def)

lemma scan_literal_inert:
  assumes "inert body" "rest = [] \<or> hd rest \<noteq> quote"
  shows "scan_literal (body @ quote # rest) = Some (body, rest)"
  using assms
proof (induction body)
  case Nil
  then show ?case
    by (cases rest) auto
next
  case (Cons c body)
  obtain d cs where "body @ quote # rest = d # cs"
    by (cases "body @ quote # rest") simp_all
  with Cons show ?case
    by (simp add: inert_def)
qed

lemma plain_inert: "plain s \<Longrightarrow> inert s"
  by (simp add: plain_def inert_def list_all_iff)

lemma parse_like_inert:
  assumes "inert body"
  shows "parse_like (like_head @ quote # body @ [quote, CHR '';'']) = Some body"
proof -
  from scan_literal_inert [OF assms, of "'';''"]
  have "scan_literal (body @ [quote, CHR '';'']) = Some (body, '';'')"
    by (simp add: quote_def)
  moreover have e: "like_head @ quote # body @ [quote, CHR '';'']
      = (like_head @ [quote]) @ body @ [quote, CHR '';'']"
    by simp
  ultimately show ?thesis
    unfolding parse_like_def e by (simp del: append.simps append_assoc)
qed

lemma inert_percent: "inert vehicle_input \<Longrightarrow> inert (CHR ''%'' # vehicle_input @ ''%'')"
  by (simp add: inert_def quote_def bslash_def)

text \<open>A quote that is neither doubled nor escaped ends the literal, whatever follows.\<close>

lemma scan_literal_quote:
  assumes "inert a" "b = [] \<or> hd b \<noteq> quote"
  shows "scan_literal (CHR ''%'' # (a @ quote # b) @ [CHR ''%'', quote, CHR '';''])
       = Some (CHR ''%'' # a, b @ [CHR ''%'', quote, CHR '';''])"
proof -
  have "inert (CHR ''%'' # a)"
    using assms(1) by (simp add: inert_def quote_def bslash_def)
  moreover have "b @ [CHR ''%'', quote, CHR '';''] = []
      \<or> hd (b @ [CHR ''%'', quote, CHR '';'']) \<noteq> quote"
    using assms(2) by (cases b) (simp_all add: quote_def)
  ultimately show ?thesis
    using scan_literal_inert [of "CHR ''%'' # a" "b @ [CHR ''%'', quote, CHR '';'']"]
    by simp
qed

section \<open>Matching\<close>

lemma like_match_percent:
  "like_match (CHR ''%'' # ps) s \<longleftrightarrow> (\<exists>s1 s2. s = s1 @ s2 \<and> like_match ps s2)"
proof (induction s)
  case Nil
  then show ?case by simp
next
  case (Cons c cs)
  then show ?case
    by (auto simp: Cons_eq_append_conv)
qed

lemma like_match_plain:
  assumes "plain lit"
  shows "like_match (lit @ ps) s
       \<longleftrightarrow> (\<exists>a b. s = a @ b \<and> collate a = collate lit \<and> like_match ps b)"
  using assms
proof (induction lit arbitrary: s)
  case Nil
  then show ?case by (simp add: collate_def)
next
  case (Cons p lit)
  then have p: "p \<noteq> CHR ''%''" "p \<noteq> CHR ''_''" "p \<noteq> bslash" and lit: "plain lit"
    by (simp_all add: plain_def)
  show ?case
  proof (cases s)
    case Nil
    with p show ?thesis by (simp add: collate_def)
  next
    case s: (Cons c cs)
    have "(\<exists>a b. s = a @ b \<and> collate a = collate (p # lit) \<and> like_match ps b)
        \<longleftrightarrow> ci_char p = ci_char c
            \<and> (\<exists>a b. cs = a @ b \<and> collate a = collate lit \<and> like_match ps b)"
      (is "?L \<longleftrightarrow> ?R")
    proof
      assume ?L
      then obtain a b where ab: "s = a @ b" "collate a = collate (p # lit)" "like_match ps b"
        by blast
      from ab(2) obtain a0 a' where "a = a0 # a'"
        by (cases a) (simp_all add: collate_def)
      with ab s show ?R
        by (auto simp: collate_def)
    next
      assume ?R
      then obtain a b where "cs = a @ b" "collate a = collate lit" "like_match ps b"
        "ci_char p = ci_char c"
        by blast
      with s have "s = (c # a) @ b \<and> collate (c # a) = collate (p # lit) \<and> like_match ps b"
        by (simp add: collate_def)
      then show ?L
        by blast
    qed
    with p s Cons.IH [OF lit, of cs] show ?thesis
      by simp
  qed
qed

lemma like_match_contains:
  assumes "plain lit"
  shows "like_match (CHR ''%'' # lit @ ''%'') v \<longleftrightarrow> sublist (collate lit) (collate v)"
proof -
  have "like_match (CHR ''%'' # lit @ ''%'') v
      \<longleftrightarrow> (\<exists>s1 a b. v = s1 @ a @ b \<and> collate a = collate lit)"
    by (simp add: like_match_percent like_match_plain [OF assms]) blast
  also have "\<dots> \<longleftrightarrow> sublist (collate lit) (collate v)"
  proof
    assume "\<exists>s1 a b. v = s1 @ a @ b \<and> collate a = collate lit"
    then obtain s1 a b where "collate v = collate s1 @ collate lit @ collate b"
      by force
    then show "sublist (collate lit) (collate v)"
      by (auto simp: sublist_def)
  next
    assume "sublist (collate lit) (collate v)"
    then obtain ps ss where "map ci_char v = ps @ collate lit @ ss"
      by (auto simp: sublist_def collate_def)
    from this [unfolded map_eq_append_conv]
    obtain s1 r where r: "v = s1 @ r" "collate lit @ ss = map ci_char r"
      by blast
    from r(2) [symmetric, unfolded map_eq_append_conv]
    obtain a b where "r = a @ b" "collate lit = map ci_char a"
      by blast
    with r(1) show "\<exists>s1 a b. v = s1 @ a @ b \<and> collate a = collate lit"
      by (auto simp: collate_def)
  qed
  finally show ?thesis .
qed

lemma like_match_percent_empty: "like_match ps [] \<Longrightarrow> like_match (CHR ''%'' # ps) v"
  by (auto simp: like_match_percent)

lemma like_match_all [simp]: "like_match ''%'' v"
  by (simp add: like_match_percent_empty)

lemma like_match_any_char: "like_match ''%_%'' v \<longleftrightarrow> v \<noteq> []"
  by (cases v) (simp_all add: bslash_def like_match_percent_empty)

lemma stop_columns_nonempty [simp]: "stop_columns \<noteq> []"
  by (simp add: stop_columns_def)

lemma like_server_strict: "like_server strict_server"
  by (simp add: like_server_def strict_server_def)

section \<open>The section on the server's answers\<close>

lemma empty_like_stmt [simp]:
  "empty_frame (like_stmt pat t) \<longleftrightarrow> filter (\<lambda>r. like_match pat (vehicle_number r)) t = []"
  by (simp add: like_stmt_def)

lemma len_like_stmt [simp]:
  "len_frame (like_stmt pat t) = length (filter (\<lambda>r. like_match pat (vehicle_number r)) t)"
  by (simp add: like_stmt_def)

lemma sample_matches:
  "filter (\<lambda>r. like_match ''%ab12%'' (vehicle_number r)) sample_table
     = [sample_table ! 0, sample_table ! 2, sample_table ! 3]"
  by (simp add: sample_defs ci_char_def bslash_def)

lemma vehicle_search_ok:
  assumes "like_server server" "inert vehicle_input" "server_up s" "schema_ok s"
  shows "\<exists>view. vehicle_search server vehicle_input s = (Inr view, s)
           \<and> (view = Idle \<longleftrightarrow> vehicle_input = [])"
proof -
  from assms(1,2) have "server (search_sql vehicle_input)
      = (\<lambda>t. Inr (like_stmt (CHR ''%'' # vehicle_input @ ''%'') t))"
    using parse_like_inert [OF inert_percent, of vehicle_input]
    by (simp add: like_server_def search_sql_def)
  with assms(3,4) show ?thesis
    by (simp add: vehicle_search_def run_query_cases)
qed

lemma vehicle_search_step:
  "db_step (fst (vehicle_search server vehicle_input s)) s
     (snd (vehicle_search server vehicle_input s))"
proof -
  obtain r0 s0 where q: "run_query (server (search_sql vehicle_input)) s = (r0, s0)"
    by (cases "run_query (server (search_sql vehicle_input)) s")
  from run_query_step [OF q] q show ?thesis
    by (cases r0) (auto simp: vehicle_search_def db_step_def)
qed

lemma vehicle_search_inert:
  assumes "like_server server" "inert vehicle_input" "vehicle_input \<noteq> []"
    "server_up s" "schema_ok s"
  shows "vehicle_search server vehicle_input s =
          (let found = filter (\<lambda>r. like_match (CHR ''%'' # vehicle_input @ ''%'') (vehicle_number r))
                         (contents s)
           in (Inr (if found = [] then Warning ''No records found for that vehicle number.''
                    else Success (''Found '' @ py_str_int (int (length found)) @ '' record(s)'')
                           (to_frame stop_columns row_stop found)), s))"
proof -
  from assms(1,2) have "server (search_sql vehicle_input)
      = (\<lambda>t. Inr (like_stmt (CHR ''%'' # vehicle_input @ ''%'') t))"
    using parse_like_inert [OF inert_percent, of vehicle_input]
    by (simp add: like_server_def search_sql_def)
  with assms(3,4,5) show ?thesis
    by (simp add: vehicle_search_def run_query_cases like_stmt_def Let_def)
qed

section \<open>Summary\<close>

text \<open>
  C1. For input without quote, backslash, \<^verbatim>\<open>%\<close> and \<^verbatim>\<open>_\<close> the search is the
  containment test of the specification: the server reads one literal holding the input
  between two \<^verbatim>\<open>%\<close>, and the section lists exactly the stops whose vehicle number
  contains the input, letters compared without regard to case, in table order, under the
  message with their number, or warns that there is none. The state is unchanged.
\<close>

theorem vehicle_search_contains:
  assumes "like_server server" "plain vehicle_input" "vehicle_input \<noteq> []"
    "server_up s" "schema_ok s"
  shows "parse_like (search_sql vehicle_input) = Some (CHR ''%'' # vehicle_input @ ''%'')
       \<and> vehicle_search server vehicle_input s =
          (let found = filter (\<lambda>r. sublist (collate vehicle_input) (collate (vehicle_number r)))
                         (contents s)
           in (Inr (if found = [] then Warning ''No records found for that vehicle number.''
                    else Success (''Found '' @ py_str_int (int (length found)) @ '' record(s)'')
                           (to_frame stop_columns row_stop found)), s))"
proof -
  let ?pat = "CHR ''%'' # vehicle_input @ ''%''"
  have p: "parse_like (search_sql vehicle_input) = Some ?pat"
    using assms(2) parse_like_inert [OF inert_percent, of vehicle_input]
    by (simp add: search_sql_def plain_inert)
  with assms(1) have "server (search_sql vehicle_input) = (\<lambda>t. Inr (like_stmt ?pat t))"
    by (simp add: like_server_def)
  moreover have "like_match ?pat v \<longleftrightarrow> sublist (collate vehicle_input) (collate v)" for v
    using assms(2) by (rule like_match_contains)
  ultimately show ?thesis
    using assms(3,4,5) p by (simp add: vehicle_search_def adapter_defs like_stmt_def Let_def)
qed

theorem vehicle_search_contains_witness:
  "parse_like (search_sql ''ab12'') = Some ''%ab12%''
   \<and> (\<exists>df. vehicle_search strict_server ''ab12'' sample_db
          = (Inr (Success ''Found 3 record(s)'' df), sample_db)
        \<and> map (\<lambda>row. row ! 10) (rows df)
          = [CStr ''KA01AB1234'', CStr ''ka01ab1234'', CStr ''MH12AB1234''])"
proof -
  have "plain ''ab12''"
    by (simp add: search_defs)
  from vehicle_search_contains [OF like_server_strict this, of sample_db]
  have "parse_like (search_sql ''ab12'') = Some ''%ab12%''"
    by (simp add: sample_db_def)
  moreover have "vehicle_search strict_server ''ab12'' sample_db
      = (Inr (Success ''Found 3 record(s)''
           (to_frame stop_columns row_stop [sample_table ! 0, sample_table ! 2, sample_table ! 3])),
         sample_db)"
    by (simp add: vehicle_search_def strict_server_def calculation adapter_defs sample_db_def
        like_stmt_def sample_matches py_str_int_def digits_of.simps digit_char_def)
  ultimately show ?thesis
    by (simp add: sample_defs row_stop_def)
qed

text \<open>
  C17. \<^verbatim>\<open>%\<close> and \<^verbatim>\<open>_\<close> in the input are not searched for, they are wildcards. On
  every table the input \<^verbatim>\<open>%\<close> lists all stops, and the input \<^verbatim>\<open>_\<close> lists every
  stop whose vehicle number is not empty, whether or not any vehicle number contains the
  character: the search is not the containment test for such input.
\<close>

theorem search_wildcards:
  assumes "like_server server" "server_up s" "schema_ok s"
  shows "vehicle_search server ''%'' s =
          (Inr (if contents s = [] then Warning ''No records found for that vehicle number.''
                else Success (''Found '' @ py_str_int (int (length (contents s))) @ '' record(s)'')
                       (to_frame stop_columns row_stop (contents s))), s)
       \<and> vehicle_search server ''_'' s =
          (let found = filter (\<lambda>r. vehicle_number r \<noteq> []) (contents s)
           in (Inr (if found = [] then Warning ''No records found for that vehicle number.''
                    else Success (''Found '' @ py_str_int (int (length found)) @ '' record(s)'')
                           (to_frame stop_columns row_stop found)), s))"
proof -
  have "inert ''%''" "inert ''_''"
    by (simp_all add: search_defs)
  from this [THEN vehicle_search_inert [OF assms(1) _ _ assms(2,3)]]
  show ?thesis
    by (simp add: like_match_any_char like_match_percent_empty Let_def)
qed

theorem search_wildcards_witness:
  "vehicle_search strict_server ''%'' sample_db
     = (Inr (Success ''Found 4 record(s)'' (to_frame stop_columns row_stop sample_table)), sample_db)
   \<and> list_all (\<lambda>r. \<not> sublist ''%'' (vehicle_number r)) sample_table"
proof -
  have "py_str_int 4 = ''4''"
    by (simp add: py_str_int_def digits_of.simps digit_char_def)
  moreover have "length sample_table = 4"
    by (simp add: sample_table_def)
  moreover have "list_all (\<lambda>r. \<not> sublist ''%'' (vehicle_number r)) sample_table"
    by (simp add: sample_defs sublist_Cons_right)
  ultimately show ?thesis
    using search_wildcards [OF like_server_strict, of sample_db]
    by (auto simp: sample_db_def)
qed

text \<open>
  C16. The input is placed in the statement text as it is, so a quote in it that is
  neither doubled nor escaped ends the literal. For every input \<open>a @ quote # b\<close> where
  \<open>a\<close> has no quote and no backslash and \<open>b\<close> does not start with a quote, the literal
  that the server reads is \<^verbatim>\<open>%\<close> followed by \<open>a\<close>, and \<open>b\<close> with the closing
  \<^verbatim>\<open>%';\<close> is statement text chosen by the user. The text is then not a \<^verbatim>\<open>LIKE\<close>
  statement of the family, and its meaning is whatever the rest makes it: for every
  statement \<open>stmt\<close> there is a server that reads all \<^verbatim>\<open>LIKE\<close> statements correctly
  and runs the text as \<open>stmt\<close>, and the section shows that statement's result.
\<close>

theorem search_injection:
  assumes "inert a" "b = [] \<or> hd b \<noteq> quote"
  shows "scan_literal (CHR ''%'' # (a @ quote # b) @ [CHR ''%'', quote, CHR '';''])
           = Some (CHR ''%'' # a, b @ [CHR ''%'', quote, CHR '';''])
       \<and> parse_like (search_sql (a @ quote # b)) = None
       \<and> like_server (strict_server (search_sql (a @ quote # b) := stmt))
       \<and> vehicle_search (strict_server (search_sql (a @ quote # b) := stmt)) (a @ quote # b) s
           = vehicle_search (\<lambda>text. stmt) (a @ quote # b) s"
proof -
  let ?text = "search_sql (a @ quote # b)"
  have lit: "scan_literal (CHR ''%'' # (a @ quote # b) @ [CHR ''%'', quote, CHR '';''])
           = Some (CHR ''%'' # a, b @ [CHR ''%'', quote, CHR '';''])"
    using assms by (rule scan_literal_quote)
  have "?text = (like_head @ [quote]) @ CHR ''%'' # (a @ quote # b) @ [CHR ''%'', quote, CHR '';'']"
    by (simp add: search_sql_def)
  then have "strip_prefix (like_head @ [quote]) ?text
      = Some (CHR ''%'' # (a @ quote # b) @ [CHR ''%'', quote, CHR '';''])"
    by (simp only: strip_prefix_append)
  with lit have none: "parse_like ?text = None"
    by (simp add: parse_like_def)
  then have "like_server (strict_server (?text := stmt))"
    using like_server_strict by (auto simp: like_server_def)
  with lit none show ?thesis
    by (simp add: vehicle_search_def)
qed

text \<open>The input \<^verbatim>\<open>' OR '1'='1\<close>, on a server that runs the text as the disjunction it
  is: every row of the table is shown.\<close>

theorem search_injection_witness:
  "parse_like (search_sql (quote # '' OR '' @ quote # ''1'' @ quote # ''='' @ quote # ''1'')) = None
   \<and> scan_literal (CHR ''%'' # (quote # '' OR '' @ quote # ''1'' @ quote # ''='' @ quote # ''1'')
        @ [CHR ''%'', quote, CHR '';''])
     = Some (''%'', '' OR '' @ quote # ''1'' @ quote # ''='' @ quote # ''1%'' @ quote # '';'')
   \<and> vehicle_search (strict_server
          (search_sql (quote # '' OR '' @ quote # ''1'' @ quote # ''='' @ quote # ''1'')
             := (\<lambda>t. Inr (like_stmt ''%'' t))))
        (quote # '' OR '' @ quote # ''1'' @ quote # ''='' @ quote # ''1'') sample_db
     = (Inr (Success ''Found 4 record(s)'' (to_frame stop_columns row_stop sample_table)), sample_db)"
proof -
  let ?b = "'' OR '' @ quote # ''1'' @ quote # ''='' @ quote # ''1''"
  have "py_str_int 4 = ''4''"
    by (simp add: py_str_int_def digits_of.simps digit_char_def)
  moreover have "length sample_table = 4" "sample_table \<noteq> []"
    by (simp_all add: sample_table_def)
  moreover have "like_stmt ''%'' t = to_frame stop_columns row_stop t" for t
    by (simp add: like_stmt_def)
  ultimately have "vehicle_search (\<lambda>text. (\<lambda>t. Inr (like_stmt ''%'' t))) (quote # ?b) sample_db
      = (Inr (Success ''Found 4 record(s)'' (to_frame stop_columns row_stop sample_table)), sample_db)"
    by (simp add: vehicle_search_def adapter_defs sample_db_def)
  with search_injection [of "[]" ?b "\<lambda>t. Inr (like_stmt ''%'' t)" sample_db] show ?thesis
    by (simp add: inert_def quote_def)
qed

end
