(* ===== verification/Predict.thy ===== *)
theory Predict
  imports PyBuiltins
begin

text \<open>
  The section ``Predict Stop Outcome \<open>&\<close> Violation'' of \<^verbatim>\<open>src/3.streamlit.py\<close> (lines
  520 to 555): nine input widgets, a button, two calls of \<^verbatim>\<open>random.choice\<close> and a
  summary text.

  \<open>predict_form\<close> holds the values of the widgets and \<open>wf_form\<close> the ranges to which
  the widgets confine them. The random generator is abstracted to the numbers it yields:
  \<open>random_choice\<close> takes the draw as an argument and reduces it to an index of the
  sequence, so that every theorem holds for all draws. \<open>summary_lines\<close> is the summary,
  line by line, without the indentation, the trailing blanks and the pictograph of the
  source; \<^verbatim>\<open>%H\<close>, \<^verbatim>\<open>%M\<close>, \<^verbatim>\<open>%m\<close> and \<^verbatim>\<open>%d\<close> print two digits and \<^verbatim>\<open>%Y\<close>
  the digits of the year. \<open>predict\<close> is the handler.

  The lemmas show that the summary the handler shows names one of the listed violations
  and one of the listed outcomes whatever the form holds, that these depend on the two
  draws only, that every label is shown for some draw, and that the time and the date
  are printed in fixed width.
\<close>

section \<open>The form\<close>

record predict_form =
  p_age :: int
  p_gender :: string
  p_date :: sql_date
  p_time :: sql_time
  p_country :: string
  p_search :: int
  p_drugs :: int
  p_duration :: string
  p_vehicle :: string

definition gender_options :: "string list" where
  "gender_options = [''male'', ''female'']"

definition flag_options :: "int list" where
  "flag_options = [0, 1]"

definition wf_form :: "predict_form \<Rightarrow> bool" where
  "wf_form f \<longleftrightarrow>
     16 \<le> p_age f \<and> p_age f \<le> 90 \<and> p_gender f \<in> set gender_options
     \<and> wf_date (p_date f) \<and> wf_time (p_time f)
     \<and> p_search f \<in> set flag_options \<and> p_drugs f \<in> set flag_options
     \<and> p_duration f \<in> set duration_labels"

definition default_form :: "sql_date \<Rightarrow> sql_time \<Rightarrow> predict_form" where
  "default_form today now =
     \<lparr>p_age = 30, p_gender = ''male'', p_date = today, p_time = now, p_country = [],
      p_search = 0, p_drugs = 0, p_duration = ''0-15 Min'', p_vehicle = []\<rparr>"

section \<open>The random labels\<close>

definition predict_violations :: "string list" where
  "predict_violations = [''Speeding'', ''Seatbelt'', ''Expired License'', ''Signal Jump'']"

definition predict_outcomes :: "string list" where
  "predict_outcomes = [''Warning'', ''Arrest'', ''Citation'']"

definition random_choice :: "'a list \<Rightarrow> nat \<Rightarrow> 'a" where
  "random_choice xs draw = xs ! (draw mod length xs)"

section \<open>The summary\<close>

definition pad2 :: "nat \<Rightarrow> string" where
  "pad2 n = (if n < 10 then ''0'' else []) @ digits_of n"

definition fmt_time :: "sql_time \<Rightarrow> string" where
  "fmt_time t = pad2 (t_hour t) @ '':'' @ pad2 (t_minute t)"

definition fmt_date :: "sql_date \<Rightarrow> string" where
  "fmt_date d = digits_of (d_year d) @ ''-'' @ pad2 (d_month d) @ ''-'' @ pad2 (d_day d)"

definition py_or :: "string \<Rightarrow> string \<Rightarrow> string" where
  "py_or a b = (if a = [] then b else a)"

definition summary_lines :: "predict_form \<Rightarrow> string \<Rightarrow> string \<Rightarrow> string list" where
  "summary_lines f viol outcome =
     [''A '' @ py_str_int (p_age f) @ ''-year-old '' @ p_gender f @ '' driver from **''
        @ py_or (p_country f) ''Unknown'' @ ''**'',
      ''was stopped at **'' @ fmt_time (p_time f) @ ''** on **'' @ fmt_date (p_date f) @ ''**.'',
      (if p_search f \<noteq> 0 then ''A search was conducted,'' else ''No search was conducted,''),
      ''and the stop ''
        @ (if p_drugs f \<noteq> 0 then ''was drug-related.'' else ''was not drug-related.''),
      ''Stop duration: **'' @ p_duration f @ ''**.'',
      ''**Stop Violation:** '' @ viol,
      ''**Stop Outcome:** '' @ outcome,
      ''Vehicle Number: **'' @ py_or (p_vehicle f) ''****'' @ ''**.'']"

definition predict :: "bool \<Rightarrow> predict_form \<Rightarrow> nat \<Rightarrow> nat \<Rightarrow> string list option" where
  "predict pressed f draw1 draw2 =
     (if \<not> pressed then None
      else Some (summary_lines f (random_choice predict_violations draw1)
                   (random_choice predict_outcomes draw2)))"

lemmas predict_defs = gender_options_def flag_options_def wf_form_def default_form_def
  predict_violations_def predict_outcomes_def random_choice_def pad2_def fmt_time_def
  fmt_date_def py_or_def summary_lines_def predict_def


section \<open>Fixed-width fields\<close>

lemma length_pad2: "n < 100 \<Longrightarrow> length (pad2 n) = 2"
  using less_mult_imp_div_less [of n 10 10]
  by (simp add: pad2_def digits_of.simps [of n] digits_of.simps [of "n div 10"])

lemma pad2_digits [simp]: "list_all is_digit (pad2 n)"
  by (simp add: pad2_def is_digit_def digit_of_def)

lemma leading_nat_pad2 [simp]: "leading_nat (pad2 n) 0 = n"
  by (simp add: pad2_def digit_of_def)

lemma length_year: "1000 \<le> n \<Longrightarrow> n \<le> 9999 \<Longrightarrow> length (digits_of n) = 4"
  using length_digits_of_le [of 4 n] length_digits_of_gt [of 3 n] by simp

lemma random_choice_in_set: "xs \<noteq> [] \<Longrightarrow> random_choice xs draw \<in> set xs"
  by (simp add: random_choice_def)

lemma random_choice_onto:
  assumes "x \<in> set xs"
  shows "\<exists>d < length xs. random_choice xs d = x"
  using assms by (auto simp: in_set_conv_nth random_choice_def)

section \<open>Summary\<close>

text \<open>
  C32. The ``prediction'' does not use the form. What the handler shows is the summary
  with a violation and an outcome from the two fixed lists, the same labels for any two
  forms under the same draws; and every pair of labels of the lists is shown for some
  pair of draws, on the sixth and the seventh line of the summary.
\<close>

theorem predict_random_only:
  assumes "v \<in> set predict_violations" "w \<in> set predict_outcomes"
  shows "(\<exists>v' w'. v' \<in> set predict_violations \<and> w' \<in> set predict_outcomes
            \<and> predict True f draw1 draw2 = Some (summary_lines f v' w')
            \<and> predict True f' draw1 draw2 = Some (summary_lines f' v' w'))
       \<and> (\<exists>d1 d2. d1 < 4 \<and> d2 < 3
            \<and> the (predict True f d1 d2) ! 5 = ''**Stop Violation:** '' @ v
            \<and> the (predict True f d1 d2) ! 6 = ''**Stop Outcome:** '' @ w)"
proof -
  have "random_choice predict_violations draw1 \<in> set predict_violations"
      "random_choice predict_outcomes draw2 \<in> set predict_outcomes"
    by (rule random_choice_in_set, simp add: predict_violations_def predict_outcomes_def)+
  then have first: "\<exists>v' w'. v' \<in> set predict_violations \<and> w' \<in> set predict_outcomes
            \<and> predict True f draw1 draw2 = Some (summary_lines f v' w')
            \<and> predict True f' draw1 draw2 = Some (summary_lines f' v' w')"
    unfolding predict_def by auto
  have len: "length predict_violations = 4" "length predict_outcomes = 3"
    by (simp_all add: predict_violations_def predict_outcomes_def)
  from random_choice_onto [OF assms(1)] random_choice_onto [OF assms(2)]
  obtain d1 d2 where "d1 < length predict_violations" "random_choice predict_violations d1 = v"
      "d2 < length predict_outcomes" "random_choice predict_outcomes d2 = w"
    by blast
  with len have "d1 < 4 \<and> d2 < 3
            \<and> the (predict True f d1 d2) ! 5 = ''**Stop Violation:** '' @ v
            \<and> the (predict True f d1 d2) ! 6 = ''**Stop Outcome:** '' @ w"
    by (simp add: predict_def summary_lines_def)
  with first show ?thesis
    by blast
qed

theorem predict_random_only_witness:
  "\<exists>d1 d2. d1 < 4 \<and> d2 < 3
     \<and> the (predict True (default_form \<lparr>d_year = 2024, d_month = 3, d_day = 9\<rparr>
              \<lparr>t_hour = 7, t_minute = 5, t_second = 59\<rparr>) d1 d2) ! 5
         = ''**Stop Violation:** Signal Jump''
     \<and> the (predict True (default_form \<lparr>d_year = 2024, d_month = 3, d_day = 9\<rparr>
              \<lparr>t_hour = 7, t_minute = 5, t_second = 59\<rparr>) d1 d2) ! 6
         = ''**Stop Outcome:** Arrest''"
  using predict_random_only [of "''Signal Jump''" "''Arrest''"
      "default_form \<lparr>d_year = 2024, d_month = 3, d_day = 9\<rparr>
         \<lparr>t_hour = 7, t_minute = 5, t_second = 59\<rparr>"]
  by (simp add: predict_violations_def predict_outcomes_def)

text \<open>
  C40. The time of the summary has five characters, two digits for the hour, a colon and
  two digits for the minute, and the date of a year with four digits has ten, with
  hyphens after the year and the month; reading the digits back gives the hour and the
  year of the form.
\<close>

theorem summary_fixed_width:
  assumes "wf_time t" "wf_date d" "1000 \<le> d_year d" "d_year d \<le> 9999"
  shows "length (fmt_time t) = 5 \<and> fmt_time t ! 2 = CHR '':''
       \<and> length (fmt_date d) = 10 \<and> fmt_date d ! 4 = CHR ''-'' \<and> fmt_date d ! 7 = CHR ''-''
       \<and> leading_nat (fmt_time t) 0 = t_hour t \<and> leading_nat (fmt_date d) 0 = d_year d"
proof -
  from assms(1) have t: "length (pad2 (t_hour t)) = 2" "length (pad2 (t_minute t)) = 2"
      "t_hour t < 100"
    by (simp_all add: wf_time_def length_pad2)
  from assms(2) have d: "length (pad2 (d_month d)) = 2" "length (pad2 (d_day d)) = 2"
    by (simp_all add: wf_date_def length_pad2)
  from assms(3,4) have y: "length (digits_of (d_year d)) = 4"
    by (rule length_year)
  from t d y show ?thesis
    by (simp add: fmt_time_def fmt_date_def nth_append leading_nat_append digit_of_def)
qed

theorem summary_fixed_width_witness:
  "fmt_time \<lparr>t_hour = 7, t_minute = 5, t_second = 59\<rparr> = ''07:05''
   \<and> fmt_date \<lparr>d_year = 2024, d_month = 3, d_day = 9\<rparr> = ''2024-03-09''
   \<and> leading_nat ''07:05'' 0 = 7 \<and> leading_nat ''2024-03-09'' 0 = 2024"
proof -
  have "fmt_time \<lparr>t_hour = 7, t_minute = 5, t_second = 59\<rparr> = ''07:05''"
      "fmt_date \<lparr>d_year = 2024, d_month = 3, d_day = 9\<rparr> = ''2024-03-09''"
    by (simp_all add: fmt_time_def fmt_date_def pad2_def digits_of.simps digit_char_def)
  with summary_fixed_width [of "\<lparr>t_hour = 7, t_minute = 5, t_second = 59\<rparr>"
      "\<lparr>d_year = 2024, d_month = 3, d_day = 9\<rparr>"]
  show ?thesis
    by (simp add: wf_time_def wf_date_def)
qed

text \<open>
  With the country and the vehicle number left empty the summary says ``Unknown''
  for the country, and its last line is ``Vehicle Number:'' followed by eight asterisks:
  the placeholder of four asterisks stands between the two pairs that mark bold text.
\<close>

theorem summary_defaults:
  "hd (summary_lines (f\<lparr>p_age := 30, p_gender := ''male'', p_country := []\<rparr>) v w)
     = ''A 30-year-old male driver from **Unknown**''
   \<and> last (summary_lines (f\<lparr>p_vehicle := []\<rparr>) v w) = ''Vehicle Number: ********.''"
  by (simp add: summary_lines_def py_or_def py_str_int_def digits_of.simps digit_char_def)

end
