(* ===== verification/Spec2Isabelle.thy ===== *)
theory Spec2Isabelle
  imports Insights Kpi Advanced Visual Search Predict
begin

text \<open>
  \<^bold>\<open>The program.\<close> \<^verbatim>\<open>src/3.streamlit.py\<close> is a Streamlit page over one MySQL table,
  \<^verbatim>\<open>traffic_stops\<close>, of police check-post stops. Streamlit runs the script from top to
  bottom on every interaction. The script has two functions, \<^verbatim>\<open>get_connection\<close> and
  \<^verbatim>\<open>run_query\<close>, and, in this order, the sections: key metrics (one statement, four
  cards), visual insights (three grouped counts drawn as charts), the insights dashboard
  (a select box of 14 labels, a button, an \<^verbatim>\<open>if\<close>/\<^verbatim>\<open>elif\<close> chain that assigns one of 14
  statements to \<^verbatim>\<open>q\<close>, and \<^verbatim>\<open>run_query(q)\<close>), advanced insights (the same with six
  statements), the vehicle search (a text input interpolated into a \<^verbatim>\<open>LIKE\<close>
  statement), the outcome prediction (a form whose answer is drawn at random) and a static
  text. Every section but the last two reads the table through \<^verbatim>\<open>run_query\<close>; nothing
  writes it. An exception that leaves a section ends the script run.

  \<^bold>\<open>How it is modelled.\<close> A statement is modelled by its meaning: a function from the
  table (a list of rows) to typed result rows, composed clause by clause in the order SQL
  evaluates them (\<^verbatim>\<open>FROM\<close>, \<^verbatim>\<open>WHERE\<close>, \<^verbatim>\<open>GROUP BY\<close>, the select list with its
  aggregates, \<^verbatim>\<open>ORDER BY\<close>, \<^verbatim>\<open>LIMIT\<close>). The dispatcher turns the typed rows into the
  frame (column labels and cells) that \<^verbatim>\<open>pd.read_sql\<close> returns. Python exceptions are
  values of the type \<open>error\<close>, and a call that may raise returns \<open>error + 'a\<close>. The
  database is a record passed through the calls; \<open>and_then\<close> runs one piece of the
  script after another and stops at the first exception.

  \<^item> \<open>Prelude\<close>: errors, results, \<open>and_then\<close>, the collections \<open>sql_defs\<close> and
    \<open>wf_simps\<close>, list lemmas shared by the components.
  \<^item> \<open>Decimal\<close>: exact-value arithmetic of the rate columns
    \<^verbatim>\<open>ROUND(SUM(..) / COUNT(*) * 100, 2)\<close>: a decimal is a mantissa and a scale; \<open>/\<close>
    adds \<open>div_precision_increment\<close> = 4 places (the server's default) and rounds half away
    from zero, division by zero is \<^verbatim>\<open>NULL\<close>. Lemmas: the computed rate equals one
    rounding of \<open>100 * m / c\<close> to two places (\<open>rate_spec\<close>), lies in 0..100 and is
    within 0.005 of the exact percentage.
  \<^item> \<open>Schema\<close>: a row of the table (\<open>stop\<close>; the columns are those the statements
    name, their types are taken from the specification, as the schema is not part of the
    source), frames, and two sample tables used to evaluate statements.
  \<^item> \<open>SqlCore\<close>: the clauses and aggregates: comparison of strings under the
    case-insensitive collation (\<open>collate\<close>, \<open>sql_eq\<close>), \<open>group_by\<close>, \<open>count_star\<close>,
    \<open>sum_case\<close>, \<open>sql_avg\<close>, \<open>order_by\<close>, \<open>limit\<close>. Lemmas: groups have distinct keys,
    are not empty, consist of exactly the rows with the group's key, and partition the
    input; \<open>order_by\<close> sorts, is stable and permutes; \<open>limit\<close> after \<open>order_by\<close> keeps
    the greatest. \<open>is_ordering\<close> is the contract of \<^verbatim>\<open>ORDER BY\<close> (any sorted
    permutation), which \<open>order_by\<close> implements.
  \<^item> \<open>Adapter\<close> (lines 44 to 56): \<open>get_connection\<close>, \<open>read_sql\<close>, \<open>conn_close\<close>,
    \<open>run_query\<close> over the state \<open>db\<close> (table, whether the server accepts connections,
    whether statements execute, number of open connections). Lemmas: every outcome of a
    call by cases; success leaves the state unchanged; a failing statement leaves the
    connection open; \<open>db_step\<close>, the relation between the states before and after any
    piece of the script.
  \<^item> \<open>Expressions\<close>: the conditions, \<^verbatim>\<open>BETWEEN\<close>, the age and time \<^verbatim>\<open>CASE\<close>
    expressions and the conversion of a string to a number. Lemmas: the buckets partition
    the integers.
  \<^item> \<open>PyBuiltins\<close>: \<^verbatim>\<open>int(x)\<close>, \<^verbatim>\<open>str(n)\<close> and the format \<^verbatim>\<open>{n:,}\<close>. Lemmas:
    printing and reading are inverse; where the separators stand.
  \<^item> \<open>Kpi\<close> (lines 67 to 97): the statement of the key metrics, the four conversions and
    the cards (\<open>key_metrics\<close>). Lemmas: the four counts; \<^verbatim>\<open>TypeError\<close> on an empty
    table.
  \<^item> \<open>Visual\<close> (lines 104 to 203): the three statements, the colour dictionaries and the
    figures handed to Plotly (\<open>visual_insights\<close>). Lemmas: each chart counts every stop
    once; no figure names a column its frame lacks; a bar's colour depends on the spelling
    of its label.
  \<^item> \<open>Insights\<close> (lines 206 to 387): the 14 statements, the select box, the chain
    (\<open>insight_sql\<close>) and the button handler (\<open>run_insight\<close>). Lemmas: the chain covers
    exactly the menu; all frames are well formed and free of \<^verbatim>\<open>NULL\<close>; the handler's
    result and state on every path; what the rows of three of the statements hold.
  \<^item> \<open>Advanced\<close> (lines 391 to 499): the six statements, the chain (\<open>advanced_sql\<close>)
    and the handler (\<open>run_advanced\<close>). Lemmas: as for \<open>Insights\<close>, and that the
    derived table of the second statement can be eliminated.
  \<^item> \<open>Search\<close> (lines 503 to 517): the f-string (\<open>search_sql\<close>), the server's reading of
    a string literal and of a \<^verbatim>\<open>LIKE\<close> pattern, and the section (\<open>vehicle_search\<close>),
    which takes the server's interpretation of statement texts as an argument. Lemmas:
    for input without special characters the search is containment without regard to
    case; \<^verbatim>\<open>%\<close> and \<^verbatim>\<open>_\<close> are wildcards; a quote can end the literal.
  \<^item> \<open>Predict\<close> (lines 520 to 555): the form, the two random choices (the draws are
    arguments) and the summary (\<open>predict\<close>). Lemmas: the labels do not depend on the
    form; widths of the printed time and date.
  \<^item> This theory: the inputs of a script run (\<open>inputs\<close>), what it shows (\<open>page\<close>) and
    the run itself (\<open>script_run\<close>), the sections in the order of the source. Theorems:
    no run changes the table, and it leaves at most one connection open, which only a
    failed statement does; a run on a reachable server with a table that has rows shows
    every part of the page; on an empty table the run ends in the key metrics.

  \<^bold>\<open>Choices where SQL leaves the answer open.\<close> The order of groups and of rows that tie
  under \<^verbatim>\<open>ORDER BY\<close> is not fixed by SQL. The model takes groups in order of first
  appearance, a group's bare columns from its first row, and sorts stably. Theorems that
  depend on this choice say so; those stated through \<open>is_ordering\<close>, sets or sums do not.
  Columns are \<^verbatim>\<open>NOT NULL\<close>. Strings are compared by the upper-cased characters of the
  ASCII letters, without padding. String literals are read in the server's default mode
  (backslash escapes on).

  \<^bold>\<open>Bounds.\<close> No definition uses fuel: every loop of the model is a structural or
  terminating recursion over a finite list. Integers are unbounded (\<open>int\<close>): the counts
  are bounded by the table's size, far below the 64-bit range of \<^verbatim>\<open>COUNT\<close>, and below
  \<open>2\<^sup>5\<^sup>3\<close>, up to which the floats of pandas hold them exactly.

  \<^bold>\<open>Not modelled.\<close> The rendering by Streamlit and Plotly (layout, style sheets, the
  navigation bar, the pictographs in titles), the static texts of the page head and of
  the ``About'' section, the network protocol to the server, and what the server does
  with a statement text that is not a single \<^verbatim>\<open>LIKE\<close> statement. The credentials in
  \<open>connect_args\<close> are the literals of the source; whether the server accepts them is the
  flag \<open>server_up\<close>.
\<close>

section \<open>A script run\<close>

text \<open>The values of the widgets in one run, and the two draws of the random generator.\<close>

record inputs =
  in_option :: string
  in_insight_pressed :: bool
  in_adv_query :: string
  in_advanced_pressed :: bool
  in_vehicle :: string
  in_form :: predict_form
  in_predict_pressed :: bool
  in_draw1 :: nat
  in_draw2 :: nat

text \<open>
  What the widgets guarantee: a select box yields one of its options, the form its
  ranges, and a button is pressed in the run that its click started, so at most one of
  the three is.
\<close>

definition wf_inputs :: "inputs \<Rightarrow> bool" where
  "wf_inputs i \<longleftrightarrow>
     in_option i \<in> set insight_options \<and> in_adv_query i \<in> set advanced_options
     \<and> wf_form (in_form i)
     \<and> \<not> (in_insight_pressed i \<and> in_advanced_pressed i)
     \<and> \<not> (in_insight_pressed i \<and> in_predict_pressed i)
     \<and> \<not> (in_advanced_pressed i \<and> in_predict_pressed i)"

record page =
  pg_cards :: "card list"
  pg_charts :: "figure list"
  pg_insight :: "frame option"
  pg_advanced :: "frame option"
  pg_search :: search_view
  pg_prediction :: "string list option"

definition script_run :: "(string \<Rightarrow> sql) \<Rightarrow> inputs \<Rightarrow> db \<Rightarrow> page result \<times> db" where
  "script_run server i s =
     and_then (key_metrics s) (\<lambda>kpi s1.
     and_then (visual_insights s1) (\<lambda>figs s2.
     and_then (run_insight (in_insight_pressed i) (in_option i) s2) (\<lambda>df s3.
     and_then (run_advanced (in_advanced_pressed i) (in_adv_query i) s3) (\<lambda>adv s4.
     and_then (vehicle_search server (in_vehicle i) s4) (\<lambda>found s5.
       (Inr \<lparr>pg_cards = kpi, pg_charts = figs, pg_insight = df, pg_advanced = adv,
              pg_search = found,
              pg_prediction =
                predict (in_predict_pressed i) (in_form i) (in_draw1 i) (in_draw2 i)\<rparr>,
        s5))))))"

text \<open>A run in which the insight button was pressed and a vehicle number was typed.\<close>

definition sample_inputs :: inputs where
  "sample_inputs =
     \<lparr>in_option = ''Traffic Stops by Hour of Day'', in_insight_pressed = True,
      in_adv_query = ''Yearly Breakdown: Stops & Arrests by Country'',
      in_advanced_pressed = False, in_vehicle = ''ab12'',
      in_form = default_form \<lparr>d_year = 2024, d_month = 3, d_day = 9\<rparr>
                  \<lparr>t_hour = 7, t_minute = 5, t_second = 59\<rparr>,
      in_predict_pressed = False, in_draw1 = 6, in_draw2 = 2\<rparr>"

section \<open>The state across a run\<close>

lemmas section_steps = key_metrics_step visual_insights_step run_insight_step run_advanced_step
  vehicle_search_step

lemma wf_sample_inputs: "wf_inputs sample_inputs"
  by (simp add: wf_inputs_def sample_inputs_def insight_options_def advanced_options_def
      predict_defs duration_labels_def wf_date_def wf_time_def)

text \<open>
  C14. No script run changes the table or the server's condition, whatever the inputs and
  whatever the server makes of the search statement. A run that completes leaves the
  database state exactly as it found it; a run that ends in an exception leaves at most
  one connection open that was not open before.
\<close>

theorem script_run_read_only:
  assumes "script_run server i s = (r, s')"
  shows "db_step r s s' \<and> contents s' = contents s \<and> server_up s' = server_up s
       \<and> schema_ok s' = schema_ok s
       \<and> open_conns s \<le> open_conns s' \<and> open_conns s' \<le> Suc (open_conns s)"
proof -
  from assms have "db_step r s s'"
    unfolding script_run_def by (elim and_then_step) (simp_all add: section_steps)
  with db_step_frame [OF this] show ?thesis
    by simp
qed

theorem script_run_read_only_witness:
  "script_run strict_server sample_inputs (sample_db\<lparr>schema_ok := False\<rparr>)
     = (Inl DatabaseError, sample_db\<lparr>schema_ok := False, open_conns := 1\<rparr>)
   \<and> contents (sample_db\<lparr>schema_ok := False, open_conns := 1\<rparr>) = contents sample_db"
proof -
  have r: "script_run strict_server sample_inputs (sample_db\<lparr>schema_ok := False\<rparr>)
     = (Inl DatabaseError, sample_db\<lparr>schema_ok := False, open_conns := 1\<rparr>)"
    by (simp add: script_run_def key_metrics_cases sample_db_def)
  from script_run_read_only [OF r] r show ?thesis
    by simp
qed

section \<open>A whole page\<close>

text \<open>
  C12. On a reachable server with an intact table that has at least one row, a run with
  inputs as the widgets deliver them and a search text without quote and backslash
  completes and leaves the state unchanged. The page shows the four key metrics and the
  three charts; the table of an insight, the table of an advanced insight and the
  prediction each appear exactly when their button was pressed, so at most one of them
  does; and the search shows something exactly when a text was entered.
\<close>

theorem script_run_ok:
  assumes "server_up s" "schema_ok s" "contents s \<noteq> []" "wf_inputs i" "like_server server"
    "inert (in_vehicle i)"
  shows "\<exists>pg. script_run server i s = (Inr pg, s)
       \<and> pg_cards pg = kpi_cards (int (length (contents s)))
            (int (length (filter is_arrest (contents s))))
            (int (length (filter is_search (contents s))))
            (int (length (filter is_dui (contents s))))
       \<and> length (pg_charts pg) = 3
       \<and> (pg_insight pg \<noteq> None \<longleftrightarrow> in_insight_pressed i)
       \<and> (pg_advanced pg \<noteq> None \<longleftrightarrow> in_advanced_pressed i)
       \<and> (pg_search pg = Idle \<longleftrightarrow> in_vehicle i = [])
       \<and> (pg_prediction pg \<noteq> None \<longleftrightarrow> in_predict_pressed i)
       \<and> \<not> (pg_insight pg \<noteq> None \<and> pg_advanced pg \<noteq> None)
       \<and> \<not> (pg_insight pg \<noteq> None \<and> pg_prediction pg \<noteq> None)
       \<and> \<not> (pg_advanced pg \<noteq> None \<and> pg_prediction pg \<noteq> None)"
proof -
  from assms(4) insight_sql_Some [of "in_option i"] advanced_sql_Some [of "in_adv_query i"]
  obtain q q' where q: "insight_sql (in_option i) = Some q"
      "advanced_sql (in_adv_query i) = Some q'"
    by (auto simp: wf_inputs_def)
  from vehicle_search_ok [OF assms(5,6,1,2)] obtain view
    where v: "vehicle_search server (in_vehicle i) s = (Inr view, s)"
      "view = Idle \<longleftrightarrow> in_vehicle i = []"
    by blast
  from assms(4) have "\<not> (in_insight_pressed i \<and> in_advanced_pressed i)"
      "\<not> (in_insight_pressed i \<and> in_predict_pressed i)"
      "\<not> (in_advanced_pressed i \<and> in_predict_pressed i)"
    by (simp_all add: wf_inputs_def)
  with assms(1,2,3) q v show ?thesis
    by (simp add: script_run_def key_metrics_cases visual_insights_def tab_cases
        run_insight_cases run_advanced_cases predict_def)
qed

theorem script_run_ok_witness:
  "\<exists>pg. script_run strict_server sample_inputs sample_db = (Inr pg, sample_db)
     \<and> map shown (pg_cards pg) = [''4'', ''2'', ''2'', ''3'']
     \<and> pg_insight pg \<noteq> None \<and> pg_advanced pg = None \<and> pg_search pg \<noteq> Idle
     \<and> pg_prediction pg = None"
proof -
  have "inert (in_vehicle sample_inputs)" "contents sample_db \<noteq> []"
    by (simp_all add: sample_inputs_def search_defs sample_db_def sample_table_def)
  from script_run_ok [OF _ _ this(2) wf_sample_inputs like_server_strict this(1)]
  obtain pg where pg: "script_run strict_server sample_inputs sample_db = (Inr pg, sample_db)"
      "pg_cards pg = kpi_cards (int (length (contents sample_db)))
            (int (length (filter is_arrest (contents sample_db))))
            (int (length (filter is_search (contents sample_db))))
            (int (length (filter is_dui (contents sample_db))))"
      "pg_insight pg \<noteq> None \<longleftrightarrow> in_insight_pressed sample_inputs"
      "pg_advanced pg \<noteq> None \<longleftrightarrow> in_advanced_pressed sample_inputs"
      "pg_search pg = Idle \<longleftrightarrow> in_vehicle sample_inputs = []"
      "pg_prediction pg \<noteq> None \<longleftrightarrow> in_predict_pressed sample_inputs"
    by (auto simp: sample_db_def)
  have "map shown (kpi_cards (int (length (contents sample_db)))
            (int (length (filter is_arrest (contents sample_db))))
            (int (length (filter is_search (contents sample_db))))
            (int (length (filter is_dui (contents sample_db))))) = [''4'', ''2'', ''2'', ''3'']"
    by (simp add: sample_db_def sample_defs sql_defs ci_char_def kpi_cards_def fmt_commas_def
        digits_of.simps digit_char_def)
  with pg show ?thesis
    by (simp add: sample_inputs_def)
qed

text \<open>
  C15. On an empty table the page is not drawn: with the server reachable and the table
  intact but without rows, every run ends with \<^verbatim>\<open>TypeError\<close> in the key metrics,
  whatever the inputs, before any chart, table or search.
\<close>

theorem script_run_empty_table:
  assumes "server_up s" "schema_ok s" "contents s = []"
  shows "script_run server i s = (Inl TypeError, s)"
  using assms
  by (simp add: script_run_def key_metrics_def adapter_defs df_get_kpi_query cell_of_dec_simps)

theorem script_run_empty_table_witness:
  "script_run strict_server sample_inputs (sample_db\<lparr>contents := []\<rparr>)
     = (Inl TypeError, sample_db\<lparr>contents := []\<rparr>)"
  using script_run_empty_table [of "sample_db\<lparr>contents := []\<rparr>" strict_server sample_inputs]
  by (simp add: sample_db_def)

end
